theory Spec2Isabelle
  imports Main "HOL-Library.Word"
begin

unbundle bit_operations_syntax

section \<open>Outcomes of a call\<close>

text \<open>
  A call of the C++ code either returns, or stops the process, or never returns.
  A call that stops the process is \<open>Some (Inl e)\<close>, a call that returns \<open>x\<close> is
  \<open>Some (Inr x)\<close>, and a call that never returns is \<open>None\<close>.
\<close>

datatype error =
    DivideByZero      \<comment> \<open>integer division by a zero half period\<close>
  | ExitFailure       \<comment> \<open>\<open>exit (EXIT_FAILURE)\<close>\<close>
  | UndefinedShift    \<comment> \<open>shift by a negative or too large amount\<close>
  | OutOfBounds       \<comment> \<open>read past the end of a caller's buffer\<close>
  | NullDereference   \<comment> \<open>call through an empty \<open>unique_ptr\<close>\<close>

type_synonym 'a outcome = "(error + 'a) option"

definition returns :: "'a \<Rightarrow> 'a outcome" where
  "returns x = Some (Inr x)"

definition aborts :: "error \<Rightarrow> 'a outcome" where
  "aborts e = Some (Inl e)"

definition andThen :: "'a outcome \<Rightarrow> ('a \<Rightarrow> 'b outcome) \<Rightarrow> 'b outcome" where
  "andThen m f = (case m of None \<Rightarrow> None | Some (Inl e) \<Rightarrow> Some (Inl e) | Some (Inr x) \<Rightarrow> f x)"

section \<open>VSim: the clock and reset driver\<close>

text \<open>
  The Verilated model class \<open>Vcore_v_mcu\<close> is generated from the RTL and is not part of
  the sources. It is a parameter of the development: a type \<open>'d\<close> of internal states,
  an evaluation step that sees the six input pins, the TDO output and the \<open>$finish\<close> flag.
  The evaluation step cannot change an input pin.
\<close>

record 'd Vcore_v_mcu =
  eval_step :: "bool \<Rightarrow> bool \<Rightarrow> bool \<Rightarrow> bool \<Rightarrow> bool \<Rightarrow> bool \<Rightarrow> 'd \<Rightarrow> 'd"
    \<comment> \<open>arguments: ref_clk_i, rstn_i, jtag_tck_i, jtag_trst_i, jtag_tdi_i, jtag_tms_i\<close>
  jtag_tdo_o :: "'d \<Rightarrow> bool"
  finish_called :: "'d \<Rightarrow> bool"

text \<open>
  The pins are \<open>vluint8_t\<close> in the source and only ever hold 0 or 1; they are booleans
  here (\<open>True\<close> is 1). The simulation context's time always equals \<open>mTickCount\<close>.
\<close>

record 'd VSim =
  mCpu :: 'd
  gotFinish :: bool
  ref_clk_i :: bool
  rstn_i :: bool
  jtag_tck_i :: bool
  jtag_trst_i :: bool
  jtag_tdi_i :: bool
  jtag_tms_i :: bool
  mClkHalfPeriodTicks :: "64 word"
  mTckHalfPeriodTicks :: "64 word"
  mResetPeriodTicks :: "64 word"
  mSimTimeTicks :: "64 word"
  mTickCount :: "64 word"
  mTckPosedge :: bool
  mTckNegedge :: bool

text \<open>\<open>VSim::VSim (clkPeriodNs, simTimeNs, vcdFile)\<close>; \<open>d0\<close> is the fresh Verilated model.\<close>

definition VSim_new :: "'d \<Rightarrow> 64 word \<Rightarrow> 64 word \<Rightarrow> 'd VSim" where
  "VSim_new d0 clkPeriodNs simTimeNs =
    (let clkHalf = clkPeriodNs div 2;
         tckHalf = clkHalf * 2;
         resetPeriod = tckHalf * 10;
         nResetBit = \<not> (0 < resetPeriod)
     in \<lparr> mCpu = d0, gotFinish = False,
          ref_clk_i = True, rstn_i = nResetBit,
          jtag_tck_i = True, jtag_trst_i = nResetBit,
          jtag_tdi_i = False, jtag_tms_i = False,
          mClkHalfPeriodTicks = clkHalf,
          mTckHalfPeriodTicks = tckHalf,
          mResetPeriodTicks = resetPeriod,
          mSimTimeTicks = simTimeNs,
          mTickCount = 0,
          mTckPosedge = True, mTckNegedge = False \<rparr>)"

definition VSim_simTimeNs :: "'d VSim \<Rightarrow> 64 word" where
  "VSim_simTimeNs v = mTickCount v"

definition allDone :: "'d VSim \<Rightarrow> bool" where
  "allDone v = (gotFinish v \<or> (mSimTimeTicks v \<noteq> 0 \<and> mSimTimeTicks v \<le> mTickCount v))"

text \<open>
  \<open>VSim::advanceHalfPeriod\<close>. Both divisions are by a stored half period; dividing by
  zero is undefined in C++ and stops the process here.
\<close>

definition advanceHalfPeriod :: "'d VSim \<Rightarrow> error + 'd VSim" where
  "advanceHalfPeriod v =
    (let tick = mTickCount v + mClkHalfPeriodTicks v;
         old_tck = jtag_tck_i v;
         nResetBit = \<not> (tick < mResetPeriodTicks v)
     in if mClkHalfPeriodTicks v = 0 \<or> mTckHalfPeriodTicks v = 0 then Inl DivideByZero
        else
          (let clk = ((tick div mClkHalfPeriodTicks v) mod 2 = 0);
               tck = ((tick div mTckHalfPeriodTicks v) mod 2 = 0)
           in Inr (v \<lparr> mTickCount := tick,
                        ref_clk_i := clk, rstn_i := nResetBit,
                        jtag_tck_i := tck, jtag_trst_i := nResetBit,
                        mTckPosedge := (\<not> old_tck \<and> tck),
                        mTckNegedge := (old_tck \<and> \<not> tck) \<rparr>)))"

definition inReset :: "'d VSim \<Rightarrow> bool" where
  "inReset v = (mTickCount v < mResetPeriodTicks v)"

definition tapPosedge :: "'d VSim \<Rightarrow> bool" where
  "tapPosedge v = mTckPosedge v"

definition tapNegedge :: "'d VSim \<Rightarrow> bool" where
  "tapNegedge v = mTckNegedge v"

definition VSim_eval :: "'d Vcore_v_mcu \<Rightarrow> 'd VSim \<Rightarrow> 'd VSim" where
  "VSim_eval M v =
    (let d = eval_step M (ref_clk_i v) (rstn_i v) (jtag_tck_i v) (jtag_trst_i v)
                         (jtag_tdi_i v) (jtag_tms_i v) (mCpu v)
     in v \<lparr> mCpu := d, gotFinish := (gotFinish v \<or> finish_called M d) \<rparr>)"

definition set_tdi :: "bool \<Rightarrow> 'd VSim \<Rightarrow> 'd VSim" where
  "set_tdi tdiIn v = v \<lparr> jtag_tdi_i := tdiIn \<rparr>"

definition get_tdo :: "'d Vcore_v_mcu \<Rightarrow> 'd VSim \<Rightarrow> bool" where
  "get_tdo M v = jtag_tdo_o M (mCpu v)"

definition set_tms :: "bool \<Rightarrow> 'd VSim \<Rightarrow> 'd VSim" where
  "set_tms tmsIn v = v \<lparr> jtag_tms_i := tmsIn \<rparr>"

definition get_tms :: "'d VSim \<Rightarrow> bool" where
  "get_tms v = jtag_tms_i v"

section \<open>Tap: the IEEE 1149.1 controller\<close>

datatype State =
    TEST_LOGIC_RESET | RUN_TEST_IDLE | SELECT_DR_SCAN | CAPTURE_DR
  | SHIFT_DR | EXIT1_DR | PAUSE_DR | EXIT2_DR | UPDATE_DR
  | SELECT_IR_SCAN | CAPTURE_IR | SHIFT_IR | EXIT1_IR | PAUSE_IR
  | EXIT2_IR | UPDATE_IR

fun state_num :: "State \<Rightarrow> nat" where
  "state_num TEST_LOGIC_RESET = 0"
| "state_num RUN_TEST_IDLE = 1"
| "state_num SELECT_DR_SCAN = 2"
| "state_num CAPTURE_DR = 3"
| "state_num SHIFT_DR = 4"
| "state_num EXIT1_DR = 5"
| "state_num PAUSE_DR = 6"
| "state_num EXIT2_DR = 7"
| "state_num UPDATE_DR = 8"
| "state_num SELECT_IR_SCAN = 9"
| "state_num CAPTURE_IR = 10"
| "state_num SHIFT_IR = 11"
| "state_num EXIT1_IR = 12"
| "state_num PAUSE_IR = 13"
| "state_num EXIT2_IR = 14"
| "state_num UPDATE_IR = 15"

definition IR_LEN :: nat where
  "IR_LEN = 5"

record 'd Tap =
  mMcu :: "'d VSim"
  mCurrState :: State
  mLastIr :: "8 word"
  mRtiCount :: "8 word"

text \<open>
  \<open>Tap::Tap\<close>. The constructor does not initialise \<open>mCurrState\<close>; its indeterminate
  value is the argument \<open>s0\<close>.
\<close>

definition Tap_new :: "'d \<Rightarrow> State \<Rightarrow> 64 word \<Rightarrow> 64 word \<Rightarrow> 'd Tap" where
  "Tap_new d0 s0 clkPeriodNs simTimeNs =
    \<lparr> mMcu = VSim_new d0 clkPeriodNs simTimeNs, mCurrState = s0, mLastIr = 0, mRtiCount = 1 \<rparr>"

definition rtiCount :: "8 word \<Rightarrow> 'd Tap \<Rightarrow> 'd Tap" where
  "rtiCount rtiCountIn t = t \<lparr> mRtiCount := rtiCountIn \<rparr>"

text \<open>The table \<open>trans\<close> of \<open>Tap::nextState\<close>: the successor for TMS low and for TMS high.\<close>

fun trans :: "State \<Rightarrow> State \<times> State" where
  "trans TEST_LOGIC_RESET = (RUN_TEST_IDLE, TEST_LOGIC_RESET)"
| "trans RUN_TEST_IDLE = (RUN_TEST_IDLE, SELECT_DR_SCAN)"
| "trans SELECT_DR_SCAN = (CAPTURE_DR, SELECT_IR_SCAN)"
| "trans CAPTURE_DR = (SHIFT_DR, EXIT1_DR)"
| "trans SHIFT_DR = (SHIFT_DR, EXIT1_DR)"
| "trans EXIT1_DR = (PAUSE_DR, UPDATE_DR)"
| "trans PAUSE_DR = (PAUSE_DR, EXIT2_DR)"
| "trans EXIT2_DR = (SHIFT_DR, UPDATE_DR)"
| "trans UPDATE_DR = (RUN_TEST_IDLE, SELECT_DR_SCAN)"
| "trans SELECT_IR_SCAN = (CAPTURE_IR, TEST_LOGIC_RESET)"
| "trans CAPTURE_IR = (SHIFT_IR, EXIT1_IR)"
| "trans SHIFT_IR = (SHIFT_IR, EXIT1_IR)"
| "trans EXIT1_IR = (PAUSE_IR, UPDATE_IR)"
| "trans PAUSE_IR = (PAUSE_IR, EXIT2_IR)"
| "trans EXIT2_IR = (SHIFT_IR, UPDATE_IR)"
| "trans UPDATE_IR = (RUN_TEST_IDLE, SELECT_DR_SCAN)"

definition nextState :: "bool \<Rightarrow> 'd Tap \<Rightarrow> 'd Tap" where
  "nextState tmsIn t =
    t \<lparr> mCurrState := (if tmsIn then snd (trans (mCurrState t)) else fst (trans (mCurrState t))) \<rparr>"

text \<open>
  The table \<open>nextStateTab\<close> of \<open>Tap::gotoState\<close>: row = current state, column = target
  state, entry = the TMS value of the first step.
\<close>

definition nextStateTab :: "nat list list" where
  "nextStateTab =
    [ [1, 0, 0, 0, 0, 0, 0, 0, 0, 0, 0, 0, 0, 0, 0, 0],
      [1, 0, 1, 1, 1, 1, 1, 1, 1, 1, 1, 1, 1, 1, 1, 1],
      [1, 1, 1, 0, 0, 0, 0, 0, 0, 1, 1, 1, 1, 1, 1, 1],
      [1, 1, 1, 1, 0, 1, 1, 1, 1, 1, 1, 1, 1, 1, 1, 1],
      [1, 1, 1, 1, 0, 1, 1, 1, 1, 1, 1, 1, 1, 1, 1, 1],
      [1, 1, 1, 1, 1, 1, 0, 0, 1, 1, 1, 1, 1, 1, 1, 1],
      [1, 1, 1, 1, 1, 1, 0, 1, 1, 1, 1, 1, 1, 1, 1, 1],
      [1, 1, 1, 1, 0, 0, 0, 0, 1, 1, 1, 1, 1, 1, 1, 1],
      [1, 0, 1, 1, 1, 1, 1, 1, 1, 1, 1, 1, 1, 1, 1, 1],
      [1, 1, 1, 1, 1, 1, 1, 1, 1, 1, 0, 0, 0, 0, 0, 0],
      [1, 1, 1, 1, 1, 1, 1, 1, 1, 1, 1, 0, 1, 1, 1, 1],
      [1, 1, 1, 1, 1, 1, 1, 1, 1, 1, 1, 0, 1, 1, 1, 1],
      [1, 1, 1, 1, 1, 1, 1, 1, 1, 1, 1, 1, 1, 0, 0, 1],
      [1, 1, 1, 1, 1, 1, 1, 1, 1, 1, 1, 1, 1, 0, 1, 1],
      [1, 1, 1, 1, 1, 1, 1, 1, 1, 1, 1, 0, 0, 0, 0, 1],
      [1, 0, 1, 1, 1, 1, 1, 1, 1, 1, 1, 1, 1, 1, 1, 1] ]"

definition firstTms :: "State \<Rightarrow> State \<Rightarrow> bool" where
  "firstTms cur s = (nextStateTab ! state_num cur ! state_num s = 1)"

text \<open>The two waiting loops of \<open>Tap::advanceState\<close>.\<close>

partial_function (option) toPosedge :: "'d Vcore_v_mcu \<Rightarrow> 'd VSim \<Rightarrow> 'd VSim outcome" where
  "toPosedge M v =
    (if \<not> tapPosedge v
     then (case advanceHalfPeriod (VSim_eval M v) of
             Inl e \<Rightarrow> Some (Inl e)
           | Inr v' \<Rightarrow> toPosedge M v')
     else Some (Inr v))"

partial_function (option) toNegedge :: "'d Vcore_v_mcu \<Rightarrow> 'd VSim \<Rightarrow> 'd VSim outcome" where
  "toNegedge M v =
    (if \<not> tapNegedge v
     then (case advanceHalfPeriod (VSim_eval M v) of
             Inl e \<Rightarrow> Some (Inl e)
           | Inr v' \<Rightarrow> toNegedge M v')
     else Some (Inr v))"

definition advanceState :: "'d Vcore_v_mcu \<Rightarrow> bool \<Rightarrow> bool \<Rightarrow> 'd Tap \<Rightarrow> (bool \<times> 'd Tap) outcome" where
  "advanceState M tmsIn tdiIn t =
    andThen (toPosedge M (mMcu t)) (\<lambda>v1.
    andThen (toNegedge M (set_tdi tdiIn (set_tms tmsIn v1))) (\<lambda>v2.
      returns (get_tdo M v2, nextState (get_tms v2) (t \<lparr> mMcu := v2 \<rparr>))))"

text \<open>
  \<open>Tap::gotoState\<close>. The safety check on the target is for a value outside the
  enumeration, which the type \<open>State\<close> excludes.
\<close>

partial_function (option) gotoState_loop ::
    "'d Vcore_v_mcu \<Rightarrow> State \<Rightarrow> bool \<Rightarrow> 'd Tap \<Rightarrow> (bool \<times> 'd Tap) outcome" where
  "gotoState_loop M s tdo_reg t =
    (if mCurrState t \<noteq> s
     then (case advanceState M (firstTms (mCurrState t) s) False t of
             None \<Rightarrow> None
           | Some (Inl e) \<Rightarrow> Some (Inl e)
           | Some (Inr (tdo_reg', t')) \<Rightarrow> gotoState_loop M s tdo_reg' t')
     else Some (Inr (tdo_reg, t)))"

definition gotoState :: "'d Vcore_v_mcu \<Rightarrow> State \<Rightarrow> 'd Tap \<Rightarrow> (bool \<times> 'd Tap) outcome" where
  "gotoState M s t = gotoState_loop M s (get_tdo M (mMcu t)) t"

text \<open>\<open>Tap::reset\<close>: \<open>False\<close> when the simulation ended during reset.\<close>

partial_function (option) Tap_reset :: "'d Vcore_v_mcu \<Rightarrow> 'd Tap \<Rightarrow> (bool \<times> 'd Tap) outcome" where
  "Tap_reset M t =
    (if inReset (mMcu t)
     then (if allDone (mMcu t) then Some (Inr (False, t))
           else (case advanceHalfPeriod (VSim_eval M (set_tms False (mMcu t))) of
                   Inl e \<Rightarrow> Some (Inl e)
                 | Inr v' \<Rightarrow> Tap_reset M (t \<lparr> mMcu := v' \<rparr>)))
     else Some (Inr (True, t \<lparr> mCurrState := RUN_TEST_IDLE \<rparr>)))"

text \<open>
  \<open>1 << n\<close> on a 64-bit operand: undefined in C++ unless \<open>n < 64\<close>. The amount is a
  \<open>size_t\<close>, so \<open>len - 1\<close> for \<open>len = 0\<close> has wrapped to \<open>2^64 - 1\<close>.
\<close>

definition shl1 :: "64 word \<Rightarrow> error + 64 word" where
  "shl1 n = (if n < 64 then Inr (push_bit (unat n) 1) else Inl UndefinedShift)"

text \<open>\<open>Tap::shiftIr\<close>: the loop over the first \<open>IR_LEN - 1\<close> bits, then the whole helper.\<close>

partial_function (option) shiftIr_loop ::
    "'d Vcore_v_mcu \<Rightarrow> 8 word \<Rightarrow> nat \<Rightarrow> 'd Tap \<Rightarrow> 'd Tap outcome" where
  "shiftIr_loop M ireg i t =
    (if i < IR_LEN - 1
     then (case advanceState M False (ireg AND push_bit i 1 \<noteq> 0) t of
             None \<Rightarrow> None
           | Some (Inl e) \<Rightarrow> Some (Inl e)
           | Some (Inr (b, t')) \<Rightarrow> shiftIr_loop M ireg (i + 1) t')
     else Some (Inr t))"

definition shiftIr :: "'d Vcore_v_mcu \<Rightarrow> 8 word \<Rightarrow> 'd Tap \<Rightarrow> 'd Tap outcome" where
  "shiftIr M ireg t =
    andThen (gotoState M SHIFT_IR t) (\<lambda>(b0, t0).
    andThen (shiftIr_loop M ireg 0 t0) (\<lambda>t1.
    andThen (advanceState M True (ireg AND push_bit (IR_LEN - 1) 1 \<noteq> 0) t1) (\<lambda>(b2, t2).
    andThen (gotoState M UPDATE_IR t2) (\<lambda>(b3, t3).
      returns t3))))"

definition Tap_simTimeNs :: "'d Tap \<Rightarrow> 64 word" where
  "Tap_simTimeNs t = VSim_simTimeNs (mMcu t)"

text \<open>
  \<open>Tap::shiftDr\<close>. The loop counter \<open>i\<close> is an \<open>int\<close> compared with the \<open>size_t\<close>
  value \<open>len - 1\<close>, which wraps for \<open>len = 0\<close>; the shifts by \<open>i\<close>, \<open>len - 1\<close> and
  \<open>len - 2\<close> are undefined from 64 on. A shift under an \<open>if\<close> is only evaluated when
  TDO was high.
\<close>

partial_function (option) shiftDr_loop ::
    "'d Vcore_v_mcu \<Rightarrow> 64 word \<Rightarrow> 64 word \<Rightarrow> nat \<Rightarrow> 64 word \<Rightarrow> 'd Tap \<Rightarrow> (64 word \<times> 'd Tap) outcome" where
  "shiftDr_loop M dreg len i regOut t =
    (if word_of_nat i < len - 1
     then (if 64 \<le> i then Some (Inl UndefinedShift)
           else (case advanceState M False (dreg AND push_bit i 1 \<noteq> 0) t of
                   None \<Rightarrow> None
                 | Some (Inl e) \<Rightarrow> Some (Inl e)
                 | Some (Inr (b, t')) \<Rightarrow>
                     shiftDr_loop M dreg len (i + 1)
                       (if b then regOut OR push_bit (i - 1) 1 else regOut) t'))
     else Some (Inr (regOut, t)))"

definition orBitIf :: "bool \<Rightarrow> 64 word \<Rightarrow> 64 word \<Rightarrow> error + 64 word" where
  "orBitIf b regOut n =
    (if b then (case shl1 n of Inl e \<Rightarrow> Inl e | Inr m \<Rightarrow> Inr (regOut OR m)) else Inr regOut)"

definition shiftDr :: "'d Vcore_v_mcu \<Rightarrow> 64 word \<Rightarrow> 64 word \<Rightarrow> 'd Tap \<Rightarrow> (64 word \<times> 'd Tap) outcome" where
  "shiftDr M dreg len t =
    andThen (gotoState M SHIFT_DR t) (\<lambda>(b0, t0).
    andThen (advanceState M False (dreg AND 1 \<noteq> 0) t0) (\<lambda>(b1, t1).
    andThen (shiftDr_loop M dreg len 1 0 t1) (\<lambda>(regOut2, t2).
    (case shl1 (len - 1) of Inl e \<Rightarrow> aborts e | Inr lastBit \<Rightarrow>
    andThen (advanceState M True (dreg AND lastBit \<noteq> 0) t2) (\<lambda>(b3, t3).
    (case orBitIf b3 regOut2 (len - 2) of Inl e \<Rightarrow> aborts e | Inr regOut3 \<Rightarrow>
    andThen (advanceState M False (dreg AND lastBit \<noteq> 0) t3) (\<lambda>(b4, t4).
    (case orBitIf b4 regOut3 (len - 1) of Inl e \<Rightarrow> aborts e | Inr regOut4 \<Rightarrow>
    andThen (gotoState M UPDATE_DR t4) (\<lambda>(b5, t5).
      returns (regOut4, t5))))))))))"

text \<open>
  \<open>Tap::accessReg\<close>: the loop that calls \<open>gotoState (RUN_TEST_IDLE)\<close> \<open>mRtiCount\<close> times
  with a \<open>uint8_t\<close> counter, then the whole access.
\<close>

partial_function (option) rtiDwell :: "'d Vcore_v_mcu \<Rightarrow> 8 word \<Rightarrow> 'd Tap \<Rightarrow> 'd Tap outcome" where
  "rtiDwell M i t =
    (if i < mRtiCount t
     then (case gotoState M RUN_TEST_IDLE t of
             None \<Rightarrow> None
           | Some (Inl e) \<Rightarrow> Some (Inl e)
           | Some (Inr (b, t')) \<Rightarrow> rtiDwell M (i + 1) t')
     else Some (Inr t))"

definition accessReg ::
    "'d Vcore_v_mcu \<Rightarrow> 8 word \<Rightarrow> 64 word \<Rightarrow> 8 word \<Rightarrow> 'd Tap \<Rightarrow> (64 word \<times> 'd Tap) outcome" where
  "accessReg M ir wdata len t =
    (if 64 < len then aborts ExitFailure
     else
       andThen (if mLastIr t = ir then rtiDwell M 0 t else shiftIr M ir t) (\<lambda>t1.
       andThen (shiftDr M wdata (ucast len) t1) (\<lambda>(reg, t2).
       andThen (gotoState M UPDATE_DR t2) (\<lambda>(b, t3).
         returns (reg, t3)))))"

definition writeReg ::
    "'d Vcore_v_mcu \<Rightarrow> 8 word \<Rightarrow> 64 word \<Rightarrow> 8 word \<Rightarrow> 'd Tap \<Rightarrow> 'd Tap outcome" where
  "writeReg M ir wdata len t = andThen (accessReg M ir wdata len t) (\<lambda>(reg, t'). returns t')"

definition readReg ::
    "'d Vcore_v_mcu \<Rightarrow> 8 word \<Rightarrow> 8 word \<Rightarrow> 'd Tap \<Rightarrow> (64 word \<times> 'd Tap) outcome" where
  "readReg M ir len t = accessReg M ir 0 len t"

section \<open>IDtm and DtmJtag: the debug transport module\<close>

text \<open>
  The abstract class \<open>IDtm\<close>: what the DMI layer may call on a transport whose state
  has type \<open>'j\<close>.
\<close>

record 'j IDtm =
  IDtm_reset :: "'j \<Rightarrow> (bool \<times> 'j) outcome"
  IDtm_dmiRead :: "64 word \<Rightarrow> 'j \<Rightarrow> (32 word \<times> 'j) outcome"
  IDtm_dmiWrite :: "64 word \<Rightarrow> 32 word \<Rightarrow> 'j \<Rightarrow> 'j outcome"
  IDtm_simTimeNs :: "'j \<Rightarrow> 64 word"

text \<open>The enumerations \<open>IrReg\<close>, \<open>Op\<close> and \<open>Res\<close> of \<open>DtmJtag\<close>.\<close>

definition BYPASS0 :: "8 word" where "BYPASS0 = 0x00"
definition IDCODE :: "8 word" where "IDCODE = 0x01"
definition DTMCS :: "8 word" where "DTMCS = 0x10"
definition DMIACCESS :: "8 word" where "DMIACCESS = 0x11"
definition BYPASS1 :: "8 word" where "BYPASS1 = 0x1f"

definition OP_NOP :: "64 word" where "OP_NOP = 0"
definition OP_READ :: "64 word" where "OP_READ = 1"
definition OP_WRITE :: "64 word" where "OP_WRITE = 2"
definition OP_RESERVED :: "64 word" where "OP_RESERVED = 3"

definition RES_OK :: "64 word" where "RES_OK = 0"
definition RES_RESERVED :: "64 word" where "RES_RESERVED = 1"
definition RES_ERROR :: "64 word" where "RES_ERROR = 2"
definition RES_RETRY :: "64 word" where "RES_RETRY = 3"

text \<open>What \<open>DtmJtag\<close> prints on \<open>cerr\<close>.\<close>

datatype diagnostic =
    ReadRetryRequested            \<comment> \<open>Warning dmiRead retry requested\<close>
  | WriteRetryRequested           \<comment> \<open>Warning dmiWrite retry requested\<close>
  | UnknownReadResult "64 word"   \<comment> \<open>Warning: unknown JTAG read result n: ignored\<close>
  | UnknownWriteResult "64 word"  \<comment> \<open>Warning: unknown JTAG write result n: ignored\<close>

record 'd DtmJtag =
  mTap :: "'d Tap"
  mDmiWidth :: "8 word"
  mDmiAddrMask :: "64 word"
  cerr :: "diagnostic list"

text \<open>
  \<open>DtmJtag::DtmJtag\<close>. The constructor does not initialise \<open>mDmiAddrMask\<close>; its
  indeterminate value is the argument \<open>mask0\<close>.
\<close>

definition DtmJtag_new :: "'d \<Rightarrow> State \<Rightarrow> 64 word \<Rightarrow> 64 word \<Rightarrow> 64 word \<Rightarrow> 'd DtmJtag" where
  "DtmJtag_new d0 s0 mask0 clkPeriodNs simTimeNs =
    \<lparr> mTap = Tap_new d0 s0 clkPeriodNs simTimeNs, mDmiWidth = 42, mDmiAddrMask = mask0, cerr = [] \<rparr>"

definition readIdcode :: "'d Vcore_v_mcu \<Rightarrow> 'd DtmJtag \<Rightarrow> (32 word \<times> 'd DtmJtag) outcome" where
  "readIdcode M j =
    andThen (readReg M IDCODE 32 (mTap j)) (\<lambda>(reg, t). returns (ucast reg, j \<lparr> mTap := t \<rparr>))"

definition readDtmcs :: "'d Vcore_v_mcu \<Rightarrow> 'd DtmJtag \<Rightarrow> (32 word \<times> 'd DtmJtag) outcome" where
  "readDtmcs M j =
    andThen (readReg M DTMCS 32 (mTap j)) (\<lambda>(reg, t). returns (ucast reg, j \<lparr> mTap := t \<rparr>))"

definition writeDtmcs :: "'d Vcore_v_mcu \<Rightarrow> 32 word \<Rightarrow> 'd DtmJtag \<Rightarrow> 'd DtmJtag outcome" where
  "writeDtmcs M val j =
    andThen (writeReg M DTMCS (ucast val) 32 (mTap j)) (\<lambda>t. returns (j \<lparr> mTap := t \<rparr>))"

text \<open>\<open>DtmJtag::reset\<close>; the log lines on \<open>cout\<close> are left out.\<close>

definition DtmJtag_reset :: "'d Vcore_v_mcu \<Rightarrow> 'd DtmJtag \<Rightarrow> (bool \<times> 'd DtmJtag) outcome" where
  "DtmJtag_reset M j =
    andThen (Tap_reset M (mTap j)) (\<lambda>(ok, t).
      if \<not> ok then returns (False, j \<lparr> mTap := t \<rparr>)
      else
        andThen (readIdcode M (j \<lparr> mTap := t \<rparr>)) (\<lambda>(idcode, j1).
        andThen (readDtmcs M j1) (\<lambda>(dtmcs, j2).
          (let addrSize = (ucast (drop_bit 4 dtmcs AND 0x3f) :: 8 word);
               j3 = j2 \<lparr> mTap := rtiCount (ucast (drop_bit 12 dtmcs AND 0x7)) (mTap j2),
                          mDmiWidth := 34 + addrSize,
                          mDmiAddrMask := NOT (push_bit (unat addrSize) (NOT 0)) \<rparr>
           in andThen (writeDtmcs M 0x10000 j3) (\<lambda>j4. returns (True, j4))))))"

text \<open>
  \<open>DtmJtag::dmiRead\<close>: the polling loop, then the whole operation. The second
  \<open>while\<close> of the source has an empty body: it spins for ever when entered.
\<close>

partial_function (option) dmiRead_poll ::
    "'d Vcore_v_mcu \<Rightarrow> 'd DtmJtag \<Rightarrow> (64 word \<times> 'd DtmJtag) outcome" where
  "dmiRead_poll M j =
    (case readReg M DMIACCESS (mDmiWidth j) (mTap j) of
       None \<Rightarrow> None
     | Some (Inl e) \<Rightarrow> Some (Inl e)
     | Some (Inr (reg, t)) \<Rightarrow>
         (if reg AND 0x3 = RES_RETRY
          then (case writeDtmcs M 0x10000 (j \<lparr> mTap := t, cerr := cerr j @ [ReadRetryRequested] \<rparr>) of
                  None \<Rightarrow> None
                | Some (Inl e) \<Rightarrow> Some (Inl e)
                | Some (Inr j') \<Rightarrow> dmiRead_poll M j')
          else Some (Inr (reg, j \<lparr> mTap := t \<rparr>))))"

definition dmiRead :: "'d Vcore_v_mcu \<Rightarrow> 64 word \<Rightarrow> 'd DtmJtag \<Rightarrow> (32 word \<times> 'd DtmJtag) outcome" where
  "dmiRead M address j =
    (let reg0 = OP_READ OR push_bit 34 (address AND mDmiAddrMask j)
     in andThen (writeReg M DMIACCESS reg0 (mDmiWidth j) (mTap j)) (\<lambda>t.
        andThen (dmiRead_poll M (j \<lparr> mTap := t \<rparr>)) (\<lambda>(reg, j1).
          if reg AND 0x3 = RES_RETRY then None
          else
            (let j2 = (if reg AND 0x3 \<noteq> RES_OK
                       then j1 \<lparr> cerr := cerr j1 @ [UnknownReadResult (reg AND 0x3)] \<rparr>
                       else j1)
             in returns (ucast (drop_bit 2 reg AND 0xffffffff), j2)))))"

text \<open>\<open>DtmJtag::dmiWrite\<close>.\<close>

partial_function (option) dmiWrite_poll ::
    "'d Vcore_v_mcu \<Rightarrow> 'd DtmJtag \<Rightarrow> (64 word \<times> 'd DtmJtag) outcome" where
  "dmiWrite_poll M j =
    (case readReg M DMIACCESS (mDmiWidth j) (mTap j) of
       None \<Rightarrow> None
     | Some (Inl e) \<Rightarrow> Some (Inl e)
     | Some (Inr (reg, t)) \<Rightarrow>
         (if reg AND 0x3 = RES_RETRY
          then (case writeDtmcs M 0x10000 (j \<lparr> mTap := t, cerr := cerr j @ [WriteRetryRequested] \<rparr>) of
                  None \<Rightarrow> None
                | Some (Inl e) \<Rightarrow> Some (Inl e)
                | Some (Inr j') \<Rightarrow> dmiWrite_poll M j')
          else Some (Inr (reg, j \<lparr> mTap := t \<rparr>))))"

definition dmiWrite :: "'d Vcore_v_mcu \<Rightarrow> 64 word \<Rightarrow> 32 word \<Rightarrow> 'd DtmJtag \<Rightarrow> 'd DtmJtag outcome" where
  "dmiWrite M address wdata j =
    (let reg0 = (OP_WRITE OR push_bit 2 (ucast wdata)) OR push_bit 34 (address AND mDmiAddrMask j)
     in andThen (writeReg M DMIACCESS reg0 (mDmiWidth j) (mTap j)) (\<lambda>t.
        andThen (dmiWrite_poll M (j \<lparr> mTap := t \<rparr>)) (\<lambda>(reg, j1).
          returns (if reg AND 0x3 \<noteq> RES_OK
                   then j1 \<lparr> cerr := cerr j1 @ [UnknownWriteResult (reg AND 0x3)] \<rparr>
                   else j1))))"

definition DtmJtag_simTimeNs :: "'d DtmJtag \<Rightarrow> 64 word" where
  "DtmJtag_simTimeNs j = Tap_simTimeNs (mTap j)"

text \<open>\<open>DtmJtag\<close> as an implementation of \<open>IDtm\<close>.\<close>

definition DtmJtag_IDtm :: "'d Vcore_v_mcu \<Rightarrow> 'd DtmJtag IDtm" where
  "DtmJtag_IDtm M =
    \<lparr> IDtm_reset = DtmJtag_reset M, IDtm_dmiRead = dmiRead M,
      IDtm_dmiWrite = dmiWrite M, IDtm_simTimeNs = DtmJtag_simTimeNs \<rparr>"

section \<open>Dmi: the debug module interface\<close>

subsection \<open>The CSR catalogue\<close>

datatype CsrType = NONE | ANY | FP | HWLP

record CsrInfo =
  CsrInfo_name :: string
  CsrInfo_readOnly :: bool
  CsrInfo_type :: CsrType

text \<open>
  \<open>Dmi::mCsrMap\<close>, in the order of its initialiser list, with each \<open>Csr::\<close> constant
  replaced by its value. A \<open>std::map\<close> keeps the first entry of a key, as \<open>map_of\<close> does.
\<close>

definition mCsrMap :: "(16 word \<times> CsrInfo) list" where
  "mCsrMap =
    [
      (0x1, \<lparr> CsrInfo_name = ''fflags'', CsrInfo_readOnly = False, CsrInfo_type = FP \<rparr>),
      (0x2, \<lparr> CsrInfo_name = ''frm'', CsrInfo_readOnly = False, CsrInfo_type = FP \<rparr>),
      (0x3, \<lparr> CsrInfo_name = ''fcsr'', CsrInfo_readOnly = False, CsrInfo_type = FP \<rparr>),
      (0xc00, \<lparr> CsrInfo_name = ''cycle'', CsrInfo_readOnly = True, CsrInfo_type = ANY \<rparr>),
      (0xc02, \<lparr> CsrInfo_name = ''instret'', CsrInfo_readOnly = True, CsrInfo_type = ANY \<rparr>),
      (0xc03, \<lparr> CsrInfo_name = ''hpmcounter3'', CsrInfo_readOnly = True, CsrInfo_type = ANY \<rparr>),
      (0xc04, \<lparr> CsrInfo_name = ''hpmcounter4'', CsrInfo_readOnly = True, CsrInfo_type = ANY \<rparr>),
      (0xc05, \<lparr> CsrInfo_name = ''hpmcounter5'', CsrInfo_readOnly = True, CsrInfo_type = ANY \<rparr>),
      (0xc06, \<lparr> CsrInfo_name = ''hpmcounter6'', CsrInfo_readOnly = True, CsrInfo_type = ANY \<rparr>),
      (0xc07, \<lparr> CsrInfo_name = ''hpmcounter7'', CsrInfo_readOnly = True, CsrInfo_type = ANY \<rparr>),
      (0xc08, \<lparr> CsrInfo_name = ''hpmcounter8'', CsrInfo_readOnly = True, CsrInfo_type = ANY \<rparr>),
      (0xc09, \<lparr> CsrInfo_name = ''hpmcounter9'', CsrInfo_readOnly = True, CsrInfo_type = ANY \<rparr>),
      (0xc0a, \<lparr> CsrInfo_name = ''hpmcounter10'', CsrInfo_readOnly = True, CsrInfo_type = ANY \<rparr>),
      (0xc0b, \<lparr> CsrInfo_name = ''hpmcounter11'', CsrInfo_readOnly = True, CsrInfo_type = ANY \<rparr>),
      (0xc0c, \<lparr> CsrInfo_name = ''hpmcounter12'', CsrInfo_readOnly = True, CsrInfo_type = ANY \<rparr>),
      (0xc0d, \<lparr> CsrInfo_name = ''hpmcounter13'', CsrInfo_readOnly = True, CsrInfo_type = ANY \<rparr>),
      (0xc0e, \<lparr> CsrInfo_name = ''hpmcounter14'', CsrInfo_readOnly = True, CsrInfo_type = ANY \<rparr>),
      (0xc0f, \<lparr> CsrInfo_name = ''hpmcounter15'', CsrInfo_readOnly = True, CsrInfo_type = ANY \<rparr>),
      (0xc10, \<lparr> CsrInfo_name = ''hpmcounter16'', CsrInfo_readOnly = True, CsrInfo_type = ANY \<rparr>),
      (0xc11, \<lparr> CsrInfo_name = ''hpmcounter17'', CsrInfo_readOnly = True, CsrInfo_type = ANY \<rparr>),
      (0xc12, \<lparr> CsrInfo_name = ''hpmcounter18'', CsrInfo_readOnly = True, CsrInfo_type = ANY \<rparr>),
      (0xc13, \<lparr> CsrInfo_name = ''hpmcounter19'', CsrInfo_readOnly = True, CsrInfo_type = ANY \<rparr>),
      (0xc14, \<lparr> CsrInfo_name = ''hpmcounter20'', CsrInfo_readOnly = True, CsrInfo_type = ANY \<rparr>),
      (0xc15, \<lparr> CsrInfo_name = ''hpmcounter21'', CsrInfo_readOnly = True, CsrInfo_type = ANY \<rparr>),
      (0xc16, \<lparr> CsrInfo_name = ''hpmcounter22'', CsrInfo_readOnly = True, CsrInfo_type = ANY \<rparr>),
      (0xc17, \<lparr> CsrInfo_name = ''hpmcounter23'', CsrInfo_readOnly = True, CsrInfo_type = ANY \<rparr>),
      (0xc18, \<lparr> CsrInfo_name = ''hpmcounter24'', CsrInfo_readOnly = True, CsrInfo_type = ANY \<rparr>),
      (0xc19, \<lparr> CsrInfo_name = ''hpmcounter25'', CsrInfo_readOnly = True, CsrInfo_type = ANY \<rparr>),
      (0xc1a, \<lparr> CsrInfo_name = ''hpmcounter26'', CsrInfo_readOnly = True, CsrInfo_type = ANY \<rparr>),
      (0xc1b, \<lparr> CsrInfo_name = ''hpmcounter27'', CsrInfo_readOnly = True, CsrInfo_type = ANY \<rparr>),
      (0xc1c, \<lparr> CsrInfo_name = ''hpmcounter28'', CsrInfo_readOnly = True, CsrInfo_type = ANY \<rparr>),
      (0xc1d, \<lparr> CsrInfo_name = ''hpmcounter29'', CsrInfo_readOnly = True, CsrInfo_type = ANY \<rparr>),
      (0xc1e, \<lparr> CsrInfo_name = ''hpmcounter30'', CsrInfo_readOnly = True, CsrInfo_type = ANY \<rparr>),
      (0xc1f, \<lparr> CsrInfo_name = ''hpmcounter31'', CsrInfo_readOnly = True, CsrInfo_type = ANY \<rparr>),
      (0xc80, \<lparr> CsrInfo_name = ''cycleh'', CsrInfo_readOnly = True, CsrInfo_type = ANY \<rparr>),
      (0xc82, \<lparr> CsrInfo_name = ''instreth'', CsrInfo_readOnly = True, CsrInfo_type = ANY \<rparr>),
      (0xc83, \<lparr> CsrInfo_name = ''hpmcounterh3'', CsrInfo_readOnly = True, CsrInfo_type = ANY \<rparr>),
      (0xc84, \<lparr> CsrInfo_name = ''hpmcounterh4'', CsrInfo_readOnly = True, CsrInfo_type = ANY \<rparr>),
      (0xc85, \<lparr> CsrInfo_name = ''hpmcounterh5'', CsrInfo_readOnly = True, CsrInfo_type = ANY \<rparr>),
      (0xc86, \<lparr> CsrInfo_name = ''hpmcounterh6'', CsrInfo_readOnly = True, CsrInfo_type = ANY \<rparr>),
      (0xc87, \<lparr> CsrInfo_name = ''hpmcounterh7'', CsrInfo_readOnly = True, CsrInfo_type = ANY \<rparr>),
      (0xc88, \<lparr> CsrInfo_name = ''hpmcounterh8'', CsrInfo_readOnly = True, CsrInfo_type = ANY \<rparr>),
      (0xc89, \<lparr> CsrInfo_name = ''hpmcounterh9'', CsrInfo_readOnly = True, CsrInfo_type = ANY \<rparr>),
      (0xc8a, \<lparr> CsrInfo_name = ''hpmcounterh10'', CsrInfo_readOnly = True, CsrInfo_type = ANY \<rparr>),
      (0xc8b, \<lparr> CsrInfo_name = ''hpmcounterh11'', CsrInfo_readOnly = True, CsrInfo_type = ANY \<rparr>),
      (0xc8c, \<lparr> CsrInfo_name = ''hpmcounterh12'', CsrInfo_readOnly = True, CsrInfo_type = ANY \<rparr>),
      (0xc8d, \<lparr> CsrInfo_name = ''hpmcounterh13'', CsrInfo_readOnly = True, CsrInfo_type = ANY \<rparr>),
      (0xc8e, \<lparr> CsrInfo_name = ''hpmcounterh14'', CsrInfo_readOnly = True, CsrInfo_type = ANY \<rparr>),
      (0xc8f, \<lparr> CsrInfo_name = ''hpmcounterh15'', CsrInfo_readOnly = True, CsrInfo_type = ANY \<rparr>),
      (0xc90, \<lparr> CsrInfo_name = ''hpmcounterh16'', CsrInfo_readOnly = True, CsrInfo_type = ANY \<rparr>),
      (0xc91, \<lparr> CsrInfo_name = ''hpmcounterh17'', CsrInfo_readOnly = True, CsrInfo_type = ANY \<rparr>),
      (0xc92, \<lparr> CsrInfo_name = ''hpmcounterh18'', CsrInfo_readOnly = True, CsrInfo_type = ANY \<rparr>),
      (0xc93, \<lparr> CsrInfo_name = ''hpmcounterh19'', CsrInfo_readOnly = True, CsrInfo_type = ANY \<rparr>),
      (0xc94, \<lparr> CsrInfo_name = ''hpmcounterh20'', CsrInfo_readOnly = True, CsrInfo_type = ANY \<rparr>),
      (0xc95, \<lparr> CsrInfo_name = ''hpmcounterh21'', CsrInfo_readOnly = True, CsrInfo_type = ANY \<rparr>),
      (0xc96, \<lparr> CsrInfo_name = ''hpmcounterh22'', CsrInfo_readOnly = True, CsrInfo_type = ANY \<rparr>),
      (0xc97, \<lparr> CsrInfo_name = ''hpmcounterh23'', CsrInfo_readOnly = True, CsrInfo_type = ANY \<rparr>),
      (0xc98, \<lparr> CsrInfo_name = ''hpmcounterh24'', CsrInfo_readOnly = True, CsrInfo_type = ANY \<rparr>),
      (0xc99, \<lparr> CsrInfo_name = ''hpmcounterh25'', CsrInfo_readOnly = True, CsrInfo_type = ANY \<rparr>),
      (0xc9a, \<lparr> CsrInfo_name = ''hpmcounterh26'', CsrInfo_readOnly = True, CsrInfo_type = ANY \<rparr>),
      (0xc9b, \<lparr> CsrInfo_name = ''hpmcounterh27'', CsrInfo_readOnly = True, CsrInfo_type = ANY \<rparr>),
      (0xc9c, \<lparr> CsrInfo_name = ''hpmcounterh28'', CsrInfo_readOnly = True, CsrInfo_type = ANY \<rparr>),
      (0xc9d, \<lparr> CsrInfo_name = ''hpmcounterh29'', CsrInfo_readOnly = True, CsrInfo_type = ANY \<rparr>),
      (0xc9e, \<lparr> CsrInfo_name = ''hpmcounterh30'', CsrInfo_readOnly = True, CsrInfo_type = ANY \<rparr>),
      (0xc9f, \<lparr> CsrInfo_name = ''hpmcounterh31'', CsrInfo_readOnly = True, CsrInfo_type = ANY \<rparr>),
      (0x800, \<lparr> CsrInfo_name = ''lpstart0'', CsrInfo_readOnly = False, CsrInfo_type = HWLP \<rparr>),
      (0x801, \<lparr> CsrInfo_name = ''lpend0'', CsrInfo_readOnly = False, CsrInfo_type = HWLP \<rparr>),
      (0x802, \<lparr> CsrInfo_name = ''lpcount0'', CsrInfo_readOnly = False, CsrInfo_type = HWLP \<rparr>),
      (0x804, \<lparr> CsrInfo_name = ''lpstart1'', CsrInfo_readOnly = False, CsrInfo_type = HWLP \<rparr>),
      (0x805, \<lparr> CsrInfo_name = ''lpend1'', CsrInfo_readOnly = False, CsrInfo_type = HWLP \<rparr>),
      (0x806, \<lparr> CsrInfo_name = ''lpcount1'', CsrInfo_readOnly = False, CsrInfo_type = HWLP \<rparr>),
      (0xcc0, \<lparr> CsrInfo_name = ''uhartid'', CsrInfo_readOnly = True, CsrInfo_type = ANY \<rparr>),
      (0xcc1, \<lparr> CsrInfo_name = ''privlv'', CsrInfo_readOnly = True, CsrInfo_type = ANY \<rparr>),
      (0x300, \<lparr> CsrInfo_name = ''mstatus'', CsrInfo_readOnly = False, CsrInfo_type = ANY \<rparr>),
      (0x301, \<lparr> CsrInfo_name = ''misa'', CsrInfo_readOnly = False, CsrInfo_type = ANY \<rparr>),
      (0x304, \<lparr> CsrInfo_name = ''mie'', CsrInfo_readOnly = False, CsrInfo_type = ANY \<rparr>),
      (0x305, \<lparr> CsrInfo_name = ''mtvec'', CsrInfo_readOnly = False, CsrInfo_type = ANY \<rparr>),
      (0x320, \<lparr> CsrInfo_name = ''mcountinhibit'', CsrInfo_readOnly = False, CsrInfo_type = ANY \<rparr>),
      (0x323, \<lparr> CsrInfo_name = ''mhpmevent3'', CsrInfo_readOnly = False, CsrInfo_type = ANY \<rparr>),
      (0x324, \<lparr> CsrInfo_name = ''mhpmevent4'', CsrInfo_readOnly = False, CsrInfo_type = ANY \<rparr>),
      (0x325, \<lparr> CsrInfo_name = ''mhpmevent5'', CsrInfo_readOnly = False, CsrInfo_type = ANY \<rparr>),
      (0x326, \<lparr> CsrInfo_name = ''mhpmevent6'', CsrInfo_readOnly = False, CsrInfo_type = ANY \<rparr>),
      (0x327, \<lparr> CsrInfo_name = ''mhpmevent7'', CsrInfo_readOnly = False, CsrInfo_type = ANY \<rparr>),
      (0x328, \<lparr> CsrInfo_name = ''mhpmevent8'', CsrInfo_readOnly = False, CsrInfo_type = ANY \<rparr>),
      (0x329, \<lparr> CsrInfo_name = ''mhpmevent9'', CsrInfo_readOnly = False, CsrInfo_type = ANY \<rparr>),
      (0x32a, \<lparr> CsrInfo_name = ''mhpmevent10'', CsrInfo_readOnly = False, CsrInfo_type = ANY \<rparr>),
      (0x32b, \<lparr> CsrInfo_name = ''mhpmevent11'', CsrInfo_readOnly = False, CsrInfo_type = ANY \<rparr>),
      (0x32c, \<lparr> CsrInfo_name = ''mhpmevent12'', CsrInfo_readOnly = False, CsrInfo_type = ANY \<rparr>),
      (0x32d, \<lparr> CsrInfo_name = ''mhpmevent13'', CsrInfo_readOnly = False, CsrInfo_type = ANY \<rparr>),
      (0x32e, \<lparr> CsrInfo_name = ''mhpmevent14'', CsrInfo_readOnly = False, CsrInfo_type = ANY \<rparr>),
      (0x32f, \<lparr> CsrInfo_name = ''mhpmevent15'', CsrInfo_readOnly = False, CsrInfo_type = ANY \<rparr>),
      (0x330, \<lparr> CsrInfo_name = ''mhpmevent16'', CsrInfo_readOnly = False, CsrInfo_type = ANY \<rparr>),
      (0x331, \<lparr> CsrInfo_name = ''mhpmevent17'', CsrInfo_readOnly = False, CsrInfo_type = ANY \<rparr>),
      (0x332, \<lparr> CsrInfo_name = ''mhpmevent18'', CsrInfo_readOnly = False, CsrInfo_type = ANY \<rparr>),
      (0x333, \<lparr> CsrInfo_name = ''mhpmevent19'', CsrInfo_readOnly = False, CsrInfo_type = ANY \<rparr>),
      (0x334, \<lparr> CsrInfo_name = ''mhpmevent20'', CsrInfo_readOnly = False, CsrInfo_type = ANY \<rparr>),
      (0x335, \<lparr> CsrInfo_name = ''mhpmevent21'', CsrInfo_readOnly = False, CsrInfo_type = ANY \<rparr>),
      (0x336, \<lparr> CsrInfo_name = ''mhpmevent22'', CsrInfo_readOnly = False, CsrInfo_type = ANY \<rparr>),
      (0x337, \<lparr> CsrInfo_name = ''mhpmevent23'', CsrInfo_readOnly = False, CsrInfo_type = ANY \<rparr>),
      (0x338, \<lparr> CsrInfo_name = ''mhpmevent24'', CsrInfo_readOnly = False, CsrInfo_type = ANY \<rparr>),
      (0x339, \<lparr> CsrInfo_name = ''mhpmevent25'', CsrInfo_readOnly = False, CsrInfo_type = ANY \<rparr>),
      (0x33a, \<lparr> CsrInfo_name = ''mhpmevent26'', CsrInfo_readOnly = False, CsrInfo_type = ANY \<rparr>),
      (0x33b, \<lparr> CsrInfo_name = ''mhpmevent27'', CsrInfo_readOnly = False, CsrInfo_type = ANY \<rparr>),
      (0x33c, \<lparr> CsrInfo_name = ''mhpmevent28'', CsrInfo_readOnly = False, CsrInfo_type = ANY \<rparr>),
      (0x33d, \<lparr> CsrInfo_name = ''mhpmevent29'', CsrInfo_readOnly = False, CsrInfo_type = ANY \<rparr>),
      (0x33e, \<lparr> CsrInfo_name = ''mhpmevent30'', CsrInfo_readOnly = False, CsrInfo_type = ANY \<rparr>),
      (0x33f, \<lparr> CsrInfo_name = ''mhpmevent31'', CsrInfo_readOnly = False, CsrInfo_type = ANY \<rparr>),
      (0x340, \<lparr> CsrInfo_name = ''mscratch'', CsrInfo_readOnly = False, CsrInfo_type = ANY \<rparr>),
      (0x341, \<lparr> CsrInfo_name = ''mepc'', CsrInfo_readOnly = False, CsrInfo_type = ANY \<rparr>),
      (0x342, \<lparr> CsrInfo_name = ''mcause'', CsrInfo_readOnly = False, CsrInfo_type = ANY \<rparr>),
      (0x343, \<lparr> CsrInfo_name = ''mtval'', CsrInfo_readOnly = False, CsrInfo_type = ANY \<rparr>),
      (0x344, \<lparr> CsrInfo_name = ''mip'', CsrInfo_readOnly = False, CsrInfo_type = ANY \<rparr>),
      (0x7a0, \<lparr> CsrInfo_name = ''tselect'', CsrInfo_readOnly = False, CsrInfo_type = ANY \<rparr>),
      (0x7a1, \<lparr> CsrInfo_name = ''tdata1'', CsrInfo_readOnly = False, CsrInfo_type = ANY \<rparr>),
      (0x7a2, \<lparr> CsrInfo_name = ''tdata2'', CsrInfo_readOnly = False, CsrInfo_type = ANY \<rparr>),
      (0x7a3, \<lparr> CsrInfo_name = ''tdata3'', CsrInfo_readOnly = False, CsrInfo_type = ANY \<rparr>),
      (0x7a4, \<lparr> CsrInfo_name = ''tinfo'', CsrInfo_readOnly = True, CsrInfo_type = ANY \<rparr>),
      (0x7a8, \<lparr> CsrInfo_name = ''mcontext'', CsrInfo_readOnly = False, CsrInfo_type = ANY \<rparr>),
      (0x7aa, \<lparr> CsrInfo_name = ''scontext'', CsrInfo_readOnly = False, CsrInfo_type = ANY \<rparr>),
      (0x7b0, \<lparr> CsrInfo_name = ''dcsr'', CsrInfo_readOnly = False, CsrInfo_type = ANY \<rparr>),
      (0x7b1, \<lparr> CsrInfo_name = ''dpc'', CsrInfo_readOnly = False, CsrInfo_type = ANY \<rparr>),
      (0x7b2, \<lparr> CsrInfo_name = ''dscratch0'', CsrInfo_readOnly = False, CsrInfo_type = ANY \<rparr>),
      (0x7b3, \<lparr> CsrInfo_name = ''dscratch1'', CsrInfo_readOnly = False, CsrInfo_type = ANY \<rparr>),
      (0xb00, \<lparr> CsrInfo_name = ''mcycle'', CsrInfo_readOnly = False, CsrInfo_type = ANY \<rparr>),
      (0xb02, \<lparr> CsrInfo_name = ''minstret'', CsrInfo_readOnly = False, CsrInfo_type = ANY \<rparr>),
      (0xb03, \<lparr> CsrInfo_name = ''mhpmcounter3'', CsrInfo_readOnly = False, CsrInfo_type = ANY \<rparr>),
      (0xb04, \<lparr> CsrInfo_name = ''mhpmcounter4'', CsrInfo_readOnly = False, CsrInfo_type = ANY \<rparr>),
      (0xb05, \<lparr> CsrInfo_name = ''mhpmcounter5'', CsrInfo_readOnly = False, CsrInfo_type = ANY \<rparr>),
      (0xb06, \<lparr> CsrInfo_name = ''mhpmcounter6'', CsrInfo_readOnly = False, CsrInfo_type = ANY \<rparr>),
      (0xb07, \<lparr> CsrInfo_name = ''mhpmcounter7'', CsrInfo_readOnly = False, CsrInfo_type = ANY \<rparr>),
      (0xb08, \<lparr> CsrInfo_name = ''mhpmcounter8'', CsrInfo_readOnly = False, CsrInfo_type = ANY \<rparr>),
      (0xb09, \<lparr> CsrInfo_name = ''mhpmcounter9'', CsrInfo_readOnly = False, CsrInfo_type = ANY \<rparr>),
      (0xb0a, \<lparr> CsrInfo_name = ''mhpmcounter10'', CsrInfo_readOnly = False, CsrInfo_type = ANY \<rparr>),
      (0xb0b, \<lparr> CsrInfo_name = ''mhpmcounter11'', CsrInfo_readOnly = False, CsrInfo_type = ANY \<rparr>),
      (0xb0c, \<lparr> CsrInfo_name = ''mhpmcounter12'', CsrInfo_readOnly = False, CsrInfo_type = ANY \<rparr>),
      (0xb0d, \<lparr> CsrInfo_name = ''mhpmcounter13'', CsrInfo_readOnly = False, CsrInfo_type = ANY \<rparr>),
      (0xb0e, \<lparr> CsrInfo_name = ''mhpmcounter14'', CsrInfo_readOnly = False, CsrInfo_type = ANY \<rparr>),
      (0xb0f, \<lparr> CsrInfo_name = ''mhpmcounter15'', CsrInfo_readOnly = False, CsrInfo_type = ANY \<rparr>),
      (0xb10, \<lparr> CsrInfo_name = ''mhpmcounter16'', CsrInfo_readOnly = False, CsrInfo_type = ANY \<rparr>),
      (0xb11, \<lparr> CsrInfo_name = ''mhpmcounter17'', CsrInfo_readOnly = False, CsrInfo_type = ANY \<rparr>),
      (0xb12, \<lparr> CsrInfo_name = ''mhpmcounter18'', CsrInfo_readOnly = False, CsrInfo_type = ANY \<rparr>),
      (0xb13, \<lparr> CsrInfo_name = ''mhpmcounter19'', CsrInfo_readOnly = False, CsrInfo_type = ANY \<rparr>),
      (0xb14, \<lparr> CsrInfo_name = ''mhpmcounter20'', CsrInfo_readOnly = False, CsrInfo_type = ANY \<rparr>),
      (0xb15, \<lparr> CsrInfo_name = ''mhpmcounter21'', CsrInfo_readOnly = False, CsrInfo_type = ANY \<rparr>),
      (0xb16, \<lparr> CsrInfo_name = ''mhpmcounter22'', CsrInfo_readOnly = False, CsrInfo_type = ANY \<rparr>),
      (0xb17, \<lparr> CsrInfo_name = ''mhpmcounter23'', CsrInfo_readOnly = False, CsrInfo_type = ANY \<rparr>),
      (0xb18, \<lparr> CsrInfo_name = ''mhpmcounter24'', CsrInfo_readOnly = False, CsrInfo_type = ANY \<rparr>),
      (0xb19, \<lparr> CsrInfo_name = ''mhpmcounter25'', CsrInfo_readOnly = False, CsrInfo_type = ANY \<rparr>),
      (0xb1a, \<lparr> CsrInfo_name = ''mhpmcounter26'', CsrInfo_readOnly = False, CsrInfo_type = ANY \<rparr>),
      (0xb1b, \<lparr> CsrInfo_name = ''mhpmcounter27'', CsrInfo_readOnly = False, CsrInfo_type = ANY \<rparr>),
      (0xb1c, \<lparr> CsrInfo_name = ''mhpmcounter28'', CsrInfo_readOnly = False, CsrInfo_type = ANY \<rparr>),
      (0xb1d, \<lparr> CsrInfo_name = ''mhpmcounter29'', CsrInfo_readOnly = False, CsrInfo_type = ANY \<rparr>),
      (0xb1e, \<lparr> CsrInfo_name = ''mhpmcounter30'', CsrInfo_readOnly = False, CsrInfo_type = ANY \<rparr>),
      (0xb1f, \<lparr> CsrInfo_name = ''mhpmcounter31'', CsrInfo_readOnly = False, CsrInfo_type = ANY \<rparr>),
      (0xb80, \<lparr> CsrInfo_name = ''mcycleh'', CsrInfo_readOnly = False, CsrInfo_type = ANY \<rparr>),
      (0xb82, \<lparr> CsrInfo_name = ''minstreth'', CsrInfo_readOnly = False, CsrInfo_type = ANY \<rparr>),
      (0xb83, \<lparr> CsrInfo_name = ''mhpmcounterh3'', CsrInfo_readOnly = False, CsrInfo_type = ANY \<rparr>),
      (0xb84, \<lparr> CsrInfo_name = ''mhpmcounterh4'', CsrInfo_readOnly = False, CsrInfo_type = ANY \<rparr>),
      (0xb85, \<lparr> CsrInfo_name = ''mhpmcounterh5'', CsrInfo_readOnly = False, CsrInfo_type = ANY \<rparr>),
      (0xb86, \<lparr> CsrInfo_name = ''mhpmcounterh6'', CsrInfo_readOnly = False, CsrInfo_type = ANY \<rparr>),
      (0xb87, \<lparr> CsrInfo_name = ''mhpmcounterh7'', CsrInfo_readOnly = False, CsrInfo_type = ANY \<rparr>),
      (0xb88, \<lparr> CsrInfo_name = ''mhpmcounterh8'', CsrInfo_readOnly = False, CsrInfo_type = ANY \<rparr>),
      (0xb89, \<lparr> CsrInfo_name = ''mhpmcounterh9'', CsrInfo_readOnly = False, CsrInfo_type = ANY \<rparr>),
      (0xb8a, \<lparr> CsrInfo_name = ''mhpmcounterh10'', CsrInfo_readOnly = False, CsrInfo_type = ANY \<rparr>),
      (0xb8b, \<lparr> CsrInfo_name = ''mhpmcounterh11'', CsrInfo_readOnly = False, CsrInfo_type = ANY \<rparr>),
      (0xb8c, \<lparr> CsrInfo_name = ''mhpmcounterh12'', CsrInfo_readOnly = False, CsrInfo_type = ANY \<rparr>),
      (0xb8d, \<lparr> CsrInfo_name = ''mhpmcounterh13'', CsrInfo_readOnly = False, CsrInfo_type = ANY \<rparr>),
      (0xb8e, \<lparr> CsrInfo_name = ''mhpmcounterh14'', CsrInfo_readOnly = False, CsrInfo_type = ANY \<rparr>),
      (0xb8f, \<lparr> CsrInfo_name = ''mhpmcounterh15'', CsrInfo_readOnly = False, CsrInfo_type = ANY \<rparr>),
      (0xb90, \<lparr> CsrInfo_name = ''mhpmcounterh16'', CsrInfo_readOnly = False, CsrInfo_type = ANY \<rparr>),
      (0xb91, \<lparr> CsrInfo_name = ''mhpmcounterh17'', CsrInfo_readOnly = False, CsrInfo_type = ANY \<rparr>),
      (0xb92, \<lparr> CsrInfo_name = ''mhpmcounterh18'', CsrInfo_readOnly = False, CsrInfo_type = ANY \<rparr>),
      (0xb93, \<lparr> CsrInfo_name = ''mhpmcounterh19'', CsrInfo_readOnly = False, CsrInfo_type = ANY \<rparr>),
      (0xb94, \<lparr> CsrInfo_name = ''mhpmcounterh20'', CsrInfo_readOnly = False, CsrInfo_type = ANY \<rparr>),
      (0xb95, \<lparr> CsrInfo_name = ''mhpmcounterh21'', CsrInfo_readOnly = False, CsrInfo_type = ANY \<rparr>),
      (0xb96, \<lparr> CsrInfo_name = ''mhpmcounterh22'', CsrInfo_readOnly = False, CsrInfo_type = ANY \<rparr>),
      (0xb97, \<lparr> CsrInfo_name = ''mhpmcounterh23'', CsrInfo_readOnly = False, CsrInfo_type = ANY \<rparr>),
      (0xb98, \<lparr> CsrInfo_name = ''mhpmcounterh24'', CsrInfo_readOnly = False, CsrInfo_type = ANY \<rparr>),
      (0xb99, \<lparr> CsrInfo_name = ''mhpmcounterh25'', CsrInfo_readOnly = False, CsrInfo_type = ANY \<rparr>),
      (0xb9a, \<lparr> CsrInfo_name = ''mhpmcounterh26'', CsrInfo_readOnly = False, CsrInfo_type = ANY \<rparr>),
      (0xb9b, \<lparr> CsrInfo_name = ''mhpmcounterh27'', CsrInfo_readOnly = False, CsrInfo_type = ANY \<rparr>),
      (0xb9c, \<lparr> CsrInfo_name = ''mhpmcounterh28'', CsrInfo_readOnly = False, CsrInfo_type = ANY \<rparr>),
      (0xb9d, \<lparr> CsrInfo_name = ''mhpmcounterh29'', CsrInfo_readOnly = False, CsrInfo_type = ANY \<rparr>),
      (0xb9e, \<lparr> CsrInfo_name = ''mhpmcounterh30'', CsrInfo_readOnly = False, CsrInfo_type = ANY \<rparr>),
      (0xb9f, \<lparr> CsrInfo_name = ''mhpmcounterh31'', CsrInfo_readOnly = False, CsrInfo_type = ANY \<rparr>),
      (0xf11, \<lparr> CsrInfo_name = ''mvendorid'', CsrInfo_readOnly = True, CsrInfo_type = ANY \<rparr>),
      (0xf12, \<lparr> CsrInfo_name = ''marchid'', CsrInfo_readOnly = True, CsrInfo_type = ANY \<rparr>),
      (0xf13, \<lparr> CsrInfo_name = ''mimpid'', CsrInfo_readOnly = True, CsrInfo_type = ANY \<rparr>),
      (0xf14, \<lparr> CsrInfo_name = ''mhartid'', CsrInfo_readOnly = True, CsrInfo_type = ANY \<rparr>) ]"

definition Csr_DPC :: "16 word" where "Csr_DPC = 0x7b1"

definition GPR_BASE :: "16 word" where "GPR_BASE = 0x1000"
definition FPR_BASE :: "16 word" where "FPR_BASE = 0x1020"

text \<open>\<open>mCsrMap.at (csrAddr)\<close> throws \<open>std::out_of_range\<close> for a missing key.\<close>

definition csrName :: "16 word \<Rightarrow> string" where
  "csrName csrAddr =
    (case map_of mCsrMap csrAddr of Some info \<Rightarrow> CsrInfo_name info | None \<Rightarrow> ''UNKNOWN'')"

definition csrReadOnly :: "16 word \<Rightarrow> bool" where
  "csrReadOnly csrAddr =
    (case map_of mCsrMap csrAddr of Some info \<Rightarrow> CsrInfo_readOnly info | None \<Rightarrow> True)"

definition csrType :: "16 word \<Rightarrow> CsrType" where
  "csrType csrAddr =
    (case map_of mCsrMap csrAddr of Some info \<Rightarrow> CsrInfo_type info | None \<Rightarrow> NONE)"

subsection \<open>The register objects\<close>

text \<open>
  The cached values of the register classes used below, and the transport they all refer
  to. The pretty-print flags and the registers that no operation below touches are left out.
\<close>

record 'j Dmi =
  mDtm :: 'j
  mDataReg :: "32 word list"
  mDmcontrolReg :: "32 word"
  mCurrentHartsel :: "32 word"
  mAbstractcsReg :: "32 word"
  mCommandReg :: "32 word"
  mSbaddressReg :: "32 word list"
  mSbcsReg :: "32 word"
  mSbdataReg :: "32 word list"

definition Dmcontrol_RESET_VALUE :: "32 word" where "Dmcontrol_RESET_VALUE = 0x0"
definition Abstractcs_CMDERR_MASK :: "32 word" where "Abstractcs_CMDERR_MASK = 0x00000700"
definition Abstractcs_RESET_VALUE :: "32 word" where "Abstractcs_RESET_VALUE = Abstractcs_CMDERR_MASK"
definition Command_RESET_VALUE :: "32 word" where "Command_RESET_VALUE = 0"
definition Sbcs_RESET_VALUE :: "32 word" where "Sbcs_RESET_VALUE = 0x20040000"

text \<open>\<open>Dmi::Dmi\<close>: every register object starts from its reset value.\<close>

definition Dmi_new :: "'j \<Rightarrow> 'j Dmi" where
  "Dmi_new dtm =
    \<lparr> mDtm = dtm, mDataReg = replicate 12 0,
      mDmcontrolReg = Dmcontrol_RESET_VALUE, mCurrentHartsel = 0,
      mAbstractcsReg = Abstractcs_RESET_VALUE, mCommandReg = Command_RESET_VALUE,
      mSbaddressReg = replicate 4 0, mSbcsReg = Sbcs_RESET_VALUE,
      mSbdataReg = replicate 4 0 \<rparr>"

text \<open>Calls through \<open>mDtm\<close>.\<close>

definition viaRead :: "'j IDtm \<Rightarrow> 64 word \<Rightarrow> 'j Dmi \<Rightarrow> (32 word \<times> 'j Dmi) outcome" where
  "viaRead I a s = andThen (IDtm_dmiRead I a (mDtm s)) (\<lambda>(v, j). returns (v, s \<lparr> mDtm := j \<rparr>))"

definition viaWrite :: "'j IDtm \<Rightarrow> 64 word \<Rightarrow> 32 word \<Rightarrow> 'j Dmi \<Rightarrow> 'j Dmi outcome" where
  "viaWrite I a v s = andThen (IDtm_dmiWrite I a v (mDtm s)) (\<lambda>j. returns (s \<lparr> mDtm := j \<rparr>))"

paragraph \<open>Dmi::Data\<close>

definition Data_NUM_REGS :: nat where "Data_NUM_REGS = 12"

definition Data_DMI_ADDR :: "64 word list" where
  "Data_DMI_ADDR = [0x4, 0x5, 0x6, 0x7, 0x8, 0x9, 0xa, 0xb, 0xc, 0xd, 0xe, 0xf]"

definition Data_RESET_VALUE :: "32 word" where "Data_RESET_VALUE = 0x0"

definition Data_read :: "'j IDtm \<Rightarrow> nat \<Rightarrow> 'j Dmi \<Rightarrow> 'j Dmi outcome" where
  "Data_read I n s =
    (if n < Data_NUM_REGS
     then andThen (viaRead I (Data_DMI_ADDR ! n) s) (\<lambda>(v, s'). returns (s' \<lparr> mDataReg := (mDataReg s')[n := v] \<rparr>))
     else returns s)"

definition Data_reset :: "nat \<Rightarrow> 'j Dmi \<Rightarrow> 'j Dmi" where
  "Data_reset n s = (if n < Data_NUM_REGS then s \<lparr> mDataReg := (mDataReg s)[n := Data_RESET_VALUE] \<rparr> else s)"

definition Data_write :: "'j IDtm \<Rightarrow> nat \<Rightarrow> 'j Dmi \<Rightarrow> 'j Dmi outcome" where
  "Data_write I n s =
    (if n < Data_NUM_REGS then viaWrite I (Data_DMI_ADDR ! n) (mDataReg s ! n) s else returns s)"

definition Data_data :: "nat \<Rightarrow> 'j Dmi \<Rightarrow> 32 word" where
  "Data_data n s = (if n < Data_NUM_REGS then mDataReg s ! n else 0)"

definition Data_set_data :: "nat \<Rightarrow> 32 word \<Rightarrow> 'j Dmi \<Rightarrow> 'j Dmi" where
  "Data_set_data n dataVal s = (if n < Data_NUM_REGS then s \<lparr> mDataReg := (mDataReg s)[n := dataVal] \<rparr> else s)"

paragraph \<open>Dmi::Dmcontrol\<close>

definition HALTREQ_MASK :: "32 word" where "HALTREQ_MASK = 0x80000000"
definition RESUMEREQ_MASK :: "32 word" where "RESUMEREQ_MASK = 0x40000000"
definition HARTSELLO_MASK :: "32 word" where "HARTSELLO_MASK = 0x03ff0000"
definition HARTSELHI_MASK :: "32 word" where "HARTSELHI_MASK = 0x0000ffc0"
definition NDMRESET_MASK :: "32 word" where "NDMRESET_MASK = 0x00000002"
definition DMACTIVE_MASK :: "32 word" where "DMACTIVE_MASK = 0x00000001"

definition HARTSELLO_OFFSET :: nat where "HARTSELLO_OFFSET = 16"
definition HARTSELHI_OFFSET :: nat where "HARTSELHI_OFFSET = 6"
definition HARTSELLO_SIZE :: nat where "HARTSELLO_SIZE = 10"
definition HARTSELHI_SIZE :: nat where "HARTSELHI_SIZE = 10"

definition Dmcontrol_DMI_ADDR :: "64 word" where "Dmcontrol_DMI_ADDR = 0x10"

definition Dmcontrol_read :: "'j IDtm \<Rightarrow> 'j Dmi \<Rightarrow> 'j Dmi outcome" where
  "Dmcontrol_read I s =
    andThen (viaRead I Dmcontrol_DMI_ADDR s) (\<lambda>(v, s'). returns (s' \<lparr> mDmcontrolReg := v \<rparr>))"

text \<open>The getter \<open>Dmcontrol::hartsel ()\<close> and the setter \<open>Dmcontrol::hartsel (hartselVal)\<close>.\<close>

definition hartsel :: "'j Dmi \<Rightarrow> 32 word" where
  "hartsel s =
    (let hartsello = drop_bit HARTSELLO_OFFSET (mDmcontrolReg s AND HARTSELLO_MASK);
         hartselhi = drop_bit HARTSELHI_OFFSET (mDmcontrolReg s AND HARTSELHI_MASK)
     in push_bit HARTSELLO_SIZE hartselhi OR hartsello)"

definition set_hartsel :: "32 word \<Rightarrow> 'j Dmi \<Rightarrow> 'j Dmi" where
  "set_hartsel hartselVal s =
    (let hartsello = push_bit HARTSELLO_OFFSET hartselVal AND HARTSELLO_MASK;
         hartselhi = push_bit HARTSELHI_OFFSET (drop_bit HARTSELLO_SIZE hartselVal) AND HARTSELHI_MASK
     in s \<lparr> mCurrentHartsel := hartselVal,
            mDmcontrolReg := (mDmcontrolReg s AND NOT (HARTSELLO_MASK OR HARTSELHI_MASK))
                             OR (hartselhi OR hartsello) \<rparr>)"

definition Dmcontrol_reset :: "'j Dmi \<Rightarrow> 'j Dmi" where
  "Dmcontrol_reset s = set_hartsel (mCurrentHartsel s) (s \<lparr> mDmcontrolReg := Dmcontrol_RESET_VALUE \<rparr>)"

definition Dmcontrol_write :: "'j IDtm \<Rightarrow> 'j Dmi \<Rightarrow> 'j Dmi outcome" where
  "Dmcontrol_write I s = viaWrite I Dmcontrol_DMI_ADDR (mDmcontrolReg s) s"

definition set_haltreq :: "bool \<Rightarrow> 'j Dmi \<Rightarrow> 'j Dmi" where
  "set_haltreq flag s =
    s \<lparr> mDmcontrolReg := (if flag then mDmcontrolReg s OR HALTREQ_MASK
                           else mDmcontrolReg s AND NOT HALTREQ_MASK) \<rparr>"

definition hartselMax :: "32 word" where
  "hartselMax =
    push_bit HARTSELLO_SIZE (drop_bit HARTSELHI_OFFSET HARTSELHI_MASK)
    OR drop_bit HARTSELLO_OFFSET HARTSELLO_MASK"

definition set_ndmreset :: "bool \<Rightarrow> 'j Dmi \<Rightarrow> 'j Dmi" where
  "set_ndmreset flag s =
    s \<lparr> mDmcontrolReg := (if flag then mDmcontrolReg s OR NDMRESET_MASK
                           else mDmcontrolReg s AND NOT NDMRESET_MASK) \<rparr>"

definition set_dmactive :: "bool \<Rightarrow> 'j Dmi \<Rightarrow> 'j Dmi" where
  "set_dmactive flag s =
    s \<lparr> mDmcontrolReg := (if flag then mDmcontrolReg s OR DMACTIVE_MASK
                           else mDmcontrolReg s AND NOT DMACTIVE_MASK) \<rparr>"

paragraph \<open>Dmi::Abstractcs\<close>

datatype CmderrVal =
    CMDERR_NONE | CMDERR_BUSY | CMDERR_UNSUPPORTED | CMDERR_EXCEPT
  | CMDERR_HALT_RESUME | CMDERR_BUS | CMDERR_OTHER | CMDERR_UNKNOWN

definition CMDERR_OFFSET :: nat where "CMDERR_OFFSET = 8"
definition Abstractcs_DMI_ADDR :: "64 word" where "Abstractcs_DMI_ADDR = 0x16"

definition Abstractcs_read :: "'j IDtm \<Rightarrow> 'j Dmi \<Rightarrow> 'j Dmi outcome" where
  "Abstractcs_read I s =
    andThen (viaRead I Abstractcs_DMI_ADDR s) (\<lambda>(v, s'). returns (s' \<lparr> mAbstractcsReg := v \<rparr>))"

definition Abstractcs_write :: "'j IDtm \<Rightarrow> 'j Dmi \<Rightarrow> 'j Dmi outcome" where
  "Abstractcs_write I s = viaWrite I Abstractcs_DMI_ADDR (mAbstractcsReg s) s"

definition cmderr :: "'j Dmi \<Rightarrow> CmderrVal" where
  "cmderr s =
    (let c = drop_bit CMDERR_OFFSET (mAbstractcsReg s AND Abstractcs_CMDERR_MASK)
     in if c = 0 then CMDERR_NONE
        else if c = 1 then CMDERR_BUSY
        else if c = 2 then CMDERR_UNSUPPORTED
        else if c = 3 then CMDERR_EXCEPT
        else if c = 4 then CMDERR_HALT_RESUME
        else if c = 5 then CMDERR_BUS
        else if c = 7 then CMDERR_OTHER
        else CMDERR_UNKNOWN)"

definition cmderrClear :: "'j Dmi \<Rightarrow> 'j Dmi" where
  "cmderrClear s = s \<lparr> mAbstractcsReg := mAbstractcsReg s OR Abstractcs_CMDERR_MASK \<rparr>"

paragraph \<open>Dmi::Command\<close>

datatype CmdtypeEnum = ACCESS_REG | QUICK_ACCESS | ACCESS_MEM

fun CmdtypeEnum_val :: "CmdtypeEnum \<Rightarrow> 32 word" where
  "CmdtypeEnum_val ACCESS_REG = 0"
| "CmdtypeEnum_val QUICK_ACCESS = 1"
| "CmdtypeEnum_val ACCESS_MEM = 2"

datatype AasizeEnum = ACCESS8 | ACCESS16 | ACCESS32 | ACCESS64 | ACCESS128

fun AasizeEnum_val :: "AasizeEnum \<Rightarrow> 32 word" where
  "AasizeEnum_val ACCESS8 = 0"
| "AasizeEnum_val ACCESS16 = 1"
| "AasizeEnum_val ACCESS32 = 2"
| "AasizeEnum_val ACCESS64 = 3"
| "AasizeEnum_val ACCESS128 = 4"

definition CMDTYPE_MASK :: "32 word" where "CMDTYPE_MASK = 0xff000000"
definition AARSIZE_MASK :: "32 word" where "AARSIZE_MASK = 0x00700000"
definition TRANSFER_MASK :: "32 word" where "TRANSFER_MASK = 0x00020000"
definition WRITE_MASK :: "32 word" where "WRITE_MASK = 0x00010000"
definition REGNO_MASK :: "32 word" where "REGNO_MASK = 0x0000ffff"

definition CMDTYPE_OFFSET :: nat where "CMDTYPE_OFFSET = 24"
definition AARSIZE_OFFSET :: nat where "AARSIZE_OFFSET = 20"
definition REGNO_OFFSET :: nat where "REGNO_OFFSET = 0"

definition Command_DMI_ADDR :: "64 word" where "Command_DMI_ADDR = 0x17"

definition Command_reset :: "'j Dmi \<Rightarrow> 'j Dmi" where
  "Command_reset s = s \<lparr> mCommandReg := Command_RESET_VALUE \<rparr>"

definition Command_write :: "'j IDtm \<Rightarrow> 'j Dmi \<Rightarrow> 'j Dmi outcome" where
  "Command_write I s = viaWrite I Command_DMI_ADDR (mCommandReg s) s"

definition cmdtype :: "CmdtypeEnum \<Rightarrow> 'j Dmi \<Rightarrow> 'j Dmi" where
  "cmdtype cmdtypeVal s =
    s \<lparr> mCommandReg := (mCommandReg s AND NOT CMDTYPE_MASK)
                        OR (push_bit CMDTYPE_OFFSET (CmdtypeEnum_val cmdtypeVal) AND CMDTYPE_MASK) \<rparr>"

definition aarsize :: "AasizeEnum \<Rightarrow> 'j Dmi \<Rightarrow> 'j Dmi" where
  "aarsize aarsizeVal s =
    (case aarsizeVal of
       ACCESS8 \<Rightarrow> s
     | ACCESS16 \<Rightarrow> s
     | _ \<Rightarrow> s \<lparr> mCommandReg := (mCommandReg s AND NOT AARSIZE_MASK)
                                OR push_bit AARSIZE_OFFSET (AasizeEnum_val aarsizeVal) \<rparr>)"

definition aatransfer :: "bool \<Rightarrow> 'j Dmi \<Rightarrow> 'j Dmi" where
  "aatransfer flag s =
    s \<lparr> mCommandReg := (if flag then mCommandReg s OR TRANSFER_MASK
                         else mCommandReg s AND NOT TRANSFER_MASK) \<rparr>"

definition aawrite :: "bool \<Rightarrow> 'j Dmi \<Rightarrow> 'j Dmi" where
  "aawrite flag s =
    s \<lparr> mCommandReg := (if flag then mCommandReg s OR WRITE_MASK
                         else mCommandReg s AND NOT WRITE_MASK) \<rparr>"

definition aaregno :: "16 word \<Rightarrow> 'j Dmi \<Rightarrow> 'j Dmi" where
  "aaregno val s =
    s \<lparr> mCommandReg := (mCommandReg s AND NOT REGNO_MASK) OR push_bit REGNO_OFFSET (ucast val) \<rparr>"

paragraph \<open>Dmi::Sbcs\<close>

datatype SbaccessVal =
    SBACCESS_8 | SBACCESS_16 | SBACCESS_32 | SBACCESS_64 | SBACCESS_128 | SBACCESS_UNKNOWN

fun SbaccessVal_val :: "SbaccessVal \<Rightarrow> 8 word" where
  "SbaccessVal_val SBACCESS_8 = 0"
| "SbaccessVal_val SBACCESS_16 = 1"
| "SbaccessVal_val SBACCESS_32 = 2"
| "SbaccessVal_val SBACCESS_64 = 3"
| "SbaccessVal_val SBACCESS_128 = 4"
| "SbaccessVal_val SBACCESS_UNKNOWN = 5"

datatype SberrorVal =
    SBERR_NONE | SBERR_TIMEOUT | SBERR_BAD_ADDR | SBERR_ALIGNMENT
  | SBERR_BAD_SIZE | SBERR_OTHER | SBERR_UNKNOWN

definition SBVERSION_MASK :: "32 word" where "SBVERSION_MASK = 0xe0000000"
definition SBBUSY_MASK :: "32 word" where "SBBUSY_MASK = 0x00200000"
definition SBREADONADDR_MASK :: "32 word" where "SBREADONADDR_MASK = 0x00100000"
definition SBACCESS_MASK :: "32 word" where "SBACCESS_MASK = 0x000e0000"
definition SBAUTOINCREMENT_MASK :: "32 word" where "SBAUTOINCREMENT_MASK = 0x00010000"
definition SBREADONDATA_MASK :: "32 word" where "SBREADONDATA_MASK = 0x00008000"
definition SBERROR_MASK :: "32 word" where "SBERROR_MASK = 0x00007000"

definition SBVERSION_OFFSET :: nat where "SBVERSION_OFFSET = 29"
definition SBACCESS_OFFSET :: nat where "SBACCESS_OFFSET = 17"
definition SBERROR_OFFSET :: nat where "SBERROR_OFFSET = 12"

definition Sbcs_DMI_ADDR :: "64 word" where "Sbcs_DMI_ADDR = 0x38"

definition Sbcs_read :: "'j IDtm \<Rightarrow> 'j Dmi \<Rightarrow> 'j Dmi outcome" where
  "Sbcs_read I s =
    andThen (viaRead I Sbcs_DMI_ADDR s) (\<lambda>(v, s'). returns (s' \<lparr> mSbcsReg := v \<rparr>))"

definition Sbcs_reset :: "'j Dmi \<Rightarrow> 'j Dmi" where
  "Sbcs_reset s = s \<lparr> mSbcsReg := Sbcs_RESET_VALUE \<rparr>"

definition Sbcs_write :: "'j IDtm \<Rightarrow> 'j Dmi \<Rightarrow> 'j Dmi outcome" where
  "Sbcs_write I s = viaWrite I Sbcs_DMI_ADDR (mSbcsReg s) s"

definition sbversion :: "'j Dmi \<Rightarrow> 8 word" where
  "sbversion s = ucast (drop_bit SBVERSION_OFFSET (mSbcsReg s AND SBVERSION_MASK))"

definition sbbusy :: "'j Dmi \<Rightarrow> bool" where
  "sbbusy s = (mSbcsReg s AND SBBUSY_MASK \<noteq> 0)"

definition set_sbreadonaddr :: "bool \<Rightarrow> 'j Dmi \<Rightarrow> 'j Dmi" where
  "set_sbreadonaddr flag s =
    s \<lparr> mSbcsReg := (if flag then mSbcsReg s OR SBREADONADDR_MASK
                      else mSbcsReg s AND NOT SBREADONADDR_MASK) \<rparr>"

definition sbaccess :: "'j Dmi \<Rightarrow> SbaccessVal" where
  "sbaccess s =
    (let val = drop_bit SBACCESS_OFFSET (mSbcsReg s AND SBACCESS_MASK)
     in if val = 0 then SBACCESS_8
        else if val = 1 then SBACCESS_16
        else if val = 2 then SBACCESS_32
        else if val = 3 then SBACCESS_64
        else if val = 4 then SBACCESS_128
        else SBACCESS_UNKNOWN)"

definition set_sbaccess :: "8 word \<Rightarrow> 'j Dmi \<Rightarrow> 'j Dmi" where
  "set_sbaccess val s =
    s \<lparr> mSbcsReg := (mSbcsReg s AND NOT SBACCESS_MASK)
                     OR (push_bit SBACCESS_OFFSET (ucast val) AND SBACCESS_MASK) \<rparr>"

definition set_sbautoincrement :: "bool \<Rightarrow> 'j Dmi \<Rightarrow> 'j Dmi" where
  "set_sbautoincrement flag s =
    s \<lparr> mSbcsReg := (if flag then mSbcsReg s OR SBAUTOINCREMENT_MASK
                      else mSbcsReg s AND NOT SBAUTOINCREMENT_MASK) \<rparr>"

definition set_sbreadondata :: "bool \<Rightarrow> 'j Dmi \<Rightarrow> 'j Dmi" where
  "set_sbreadondata flag s =
    s \<lparr> mSbcsReg := (if flag then mSbcsReg s OR SBREADONDATA_MASK
                      else mSbcsReg s AND NOT SBREADONDATA_MASK) \<rparr>"

definition sberror :: "'j Dmi \<Rightarrow> SberrorVal" where
  "sberror s =
    (let err = drop_bit SBERROR_OFFSET (mSbcsReg s AND SBERROR_MASK)
     in if err = 0 then SBERR_NONE
        else if err = 1 then SBERR_TIMEOUT
        else if err = 2 then SBERR_BAD_ADDR
        else if err = 3 then SBERR_ALIGNMENT
        else if err = 4 then SBERR_BAD_SIZE
        else if err = 7 then SBERR_OTHER
        else SBERR_UNKNOWN)"

definition sberrorClear :: "'j Dmi \<Rightarrow> 'j Dmi" where
  "sberrorClear s = s \<lparr> mSbcsReg := mSbcsReg s OR SBERROR_MASK \<rparr>"

paragraph \<open>Dmi::Sbaddress and Dmi::Sbdata\<close>

definition Sb_NUM_REGS :: nat where "Sb_NUM_REGS = 4"

definition Sbaddress_DMI_ADDR :: "64 word list" where
  "Sbaddress_DMI_ADDR = [0x39, 0x3a, 0x3b, 0x37]"

definition Sbdata_DMI_ADDR :: "64 word list" where
  "Sbdata_DMI_ADDR = [0x3c, 0x3d, 0x3e, 0x3f]"

definition Sbaddress_reset :: "nat \<Rightarrow> 'j Dmi \<Rightarrow> 'j Dmi" where
  "Sbaddress_reset n s = (if n < Sb_NUM_REGS then s \<lparr> mSbaddressReg := (mSbaddressReg s)[n := 0x0] \<rparr> else s)"

definition Sbaddress_write :: "'j IDtm \<Rightarrow> nat \<Rightarrow> 'j Dmi \<Rightarrow> 'j Dmi outcome" where
  "Sbaddress_write I n s =
    (if n < Sb_NUM_REGS then viaWrite I (Sbaddress_DMI_ADDR ! n) (mSbaddressReg s ! n) s else returns s)"

definition set_sbaddress :: "nat \<Rightarrow> 32 word \<Rightarrow> 'j Dmi \<Rightarrow> 'j Dmi" where
  "set_sbaddress n sbaddressVal s =
    (if n < Sb_NUM_REGS then s \<lparr> mSbaddressReg := (mSbaddressReg s)[n := sbaddressVal] \<rparr> else s)"

definition Sbdata_read :: "'j IDtm \<Rightarrow> nat \<Rightarrow> 'j Dmi \<Rightarrow> 'j Dmi outcome" where
  "Sbdata_read I n s =
    (if n < Sb_NUM_REGS
     then andThen (viaRead I (Sbdata_DMI_ADDR ! n) s) (\<lambda>(v, s'). returns (s' \<lparr> mSbdataReg := (mSbdataReg s')[n := v] \<rparr>))
     else returns s)"

definition Sbdata_write :: "'j IDtm \<Rightarrow> nat \<Rightarrow> 'j Dmi \<Rightarrow> 'j Dmi outcome" where
  "Sbdata_write I n s =
    (if n < Sb_NUM_REGS then viaWrite I (Sbdata_DMI_ADDR ! n) (mSbdataReg s ! n) s else returns s)"

definition sbdata :: "nat \<Rightarrow> 'j Dmi \<Rightarrow> 32 word" where
  "sbdata n s = (if n < Sb_NUM_REGS then mSbdataReg s ! n else 0)"

definition set_sbdata :: "nat \<Rightarrow> 32 word \<Rightarrow> 'j Dmi \<Rightarrow> 'j Dmi" where
  "set_sbdata n sbdataVal s =
    (if n < Sb_NUM_REGS then s \<lparr> mSbdataReg := (mSbdataReg s)[n := sbdataVal] \<rparr> else s)"

subsection \<open>Hart selection\<close>

definition selectHart :: "'j IDtm \<Rightarrow> 32 word \<Rightarrow> 'j Dmi \<Rightarrow> 'j Dmi outcome" where
  "selectHart I h s = Dmcontrol_write I (set_dmactive True (set_hartsel h (Dmcontrol_reset s)))"

definition hartsellen :: "'j IDtm \<Rightarrow> 'j Dmi \<Rightarrow> (32 word \<times> 'j Dmi) outcome" where
  "hartsellen I s =
    andThen (selectHart I hartselMax s) (\<lambda>s1.
      (let s2 = Dmcontrol_reset s1 in returns (hartsel s2, s2)))"

definition haltHart :: "'j IDtm \<Rightarrow> 32 word \<Rightarrow> 'j Dmi \<Rightarrow> 'j Dmi outcome" where
  "haltHart I h s =
    Dmcontrol_write I (set_dmactive True (set_hartsel h (set_haltreq True (Dmcontrol_reset s))))"

subsection \<open>Register access by abstract command\<close>

text \<open>
  The recovery from \<open>CMDERR_BUSY\<close> shared by \<open>Dmi::readCsr\<close> and \<open>Dmi::writeCsr\<close>:
  toggle \<open>ndmreset\<close> (true, false), then \<open>dmactive\<close> (false, true).
\<close>

definition busyRecovery :: "'j IDtm \<Rightarrow> 'j Dmi \<Rightarrow> 'j Dmi outcome" where
  "busyRecovery I s =
    andThen (Dmcontrol_write I (set_ndmreset True (Dmcontrol_reset s))) (\<lambda>s1.
    andThen (Dmcontrol_write I (set_ndmreset False (Dmcontrol_reset s1))) (\<lambda>s2.
    andThen (Dmcontrol_write I (set_dmactive False (Dmcontrol_reset s2))) (\<lambda>s3.
      Dmcontrol_write I (set_dmactive True (Dmcontrol_reset s3)))))"

text \<open>
  \<open>Dmi::readCsr (addr, res)\<close>: \<open>res\<close> is the reference argument, assigned only when
  there is no error; the result carries its value after the call.
\<close>

definition readCsr ::
    "'j IDtm \<Rightarrow> 16 word \<Rightarrow> 32 word \<Rightarrow> 'j Dmi \<Rightarrow> (CmderrVal \<times> 32 word \<times> 'j Dmi) outcome" where
  "readCsr I addr res s =
    andThen (Command_write I
              (aaregno addr (aawrite False (aatransfer True
                (aarsize ACCESS32 (cmdtype ACCESS_REG (Command_reset s))))))) (\<lambda>s1.
    andThen (Abstractcs_read I s1) (\<lambda>s2.
      (case cmderr s2 of
         CMDERR_NONE \<Rightarrow>
           andThen (Data_read I 0 s2) (\<lambda>s3. returns (CMDERR_NONE, Data_data 0 s3, s3))
       | CMDERR_BUSY \<Rightarrow>
           andThen (busyRecovery I s2) (\<lambda>s3. returns (CMDERR_BUSY, res, s3))
       | err \<Rightarrow>
           andThen (Abstractcs_write I (cmderrClear s2)) (\<lambda>s3. returns (err, res, s3)))))"

definition writeCsr ::
    "'j IDtm \<Rightarrow> 16 word \<Rightarrow> 32 word \<Rightarrow> 'j Dmi \<Rightarrow> (CmderrVal \<times> 'j Dmi) outcome" where
  "writeCsr I addr val s =
    andThen (Data_write I 0 (Data_set_data 0 val (Data_reset 0 s))) (\<lambda>s0.
    andThen (Command_write I
              (aaregno addr (aawrite True (aatransfer True
                (aarsize ACCESS32 (cmdtype ACCESS_REG (Command_reset s0))))))) (\<lambda>s1.
    andThen (Abstractcs_read I s1) (\<lambda>s2.
      (case cmderr s2 of
         CMDERR_NONE \<Rightarrow> returns (CMDERR_NONE, s2)
       | CMDERR_BUSY \<Rightarrow>
           andThen (busyRecovery I s2) (\<lambda>s3. returns (CMDERR_BUSY, s3))
       | err \<Rightarrow>
           andThen (Abstractcs_write I (cmderrClear s2)) (\<lambda>s3. returns (err, s3))))))"

text \<open>
  The register number is a \<open>size_t\<close>, cast to \<open>uint16_t\<close> and added to the base; the sum
  is passed as a \<open>uint16_t\<close>.
\<close>

definition readGpr ::
    "'j IDtm \<Rightarrow> 64 word \<Rightarrow> 32 word \<Rightarrow> 'j Dmi \<Rightarrow> (CmderrVal \<times> 32 word \<times> 'j Dmi) outcome" where
  "readGpr I regNum res s = readCsr I (GPR_BASE + ucast regNum) res s"

definition writeGpr ::
    "'j IDtm \<Rightarrow> 64 word \<Rightarrow> 32 word \<Rightarrow> 'j Dmi \<Rightarrow> (CmderrVal \<times> 'j Dmi) outcome" where
  "writeGpr I regNum val s = writeCsr I (GPR_BASE + ucast regNum) val s"

definition readFpr ::
    "'j IDtm \<Rightarrow> 64 word \<Rightarrow> 32 word \<Rightarrow> 'j Dmi \<Rightarrow> (CmderrVal \<times> 32 word \<times> 'j Dmi) outcome" where
  "readFpr I regNum res s = (let csrNum = FPR_BASE + ucast regNum in readCsr I csrNum res s)"

definition writeFpr ::
    "'j IDtm \<Rightarrow> 64 word \<Rightarrow> 32 word \<Rightarrow> 'j Dmi \<Rightarrow> (CmderrVal \<times> 'j Dmi) outcome" where
  "writeFpr I regNum val s = (let csrNum = FPR_BASE + ucast regNum in writeCsr I csrNum val s)"

subsection \<open>Memory write over the system bus\<close>

text \<open>The pieces that \<open>Dmi::writeMem\<close> repeats: programming \<open>sbcs\<close>, programming
  \<open>sbaddress[0]\<close>, and the \<open>do \<dots> while (sbbusy)\<close> poll.\<close>

definition sbcsSetup :: "'j IDtm \<Rightarrow> bool \<Rightarrow> bool \<Rightarrow> 'j Dmi \<Rightarrow> 'j Dmi outcome" where
  "sbcsSetup I readonaddr autoincrement s =
    Sbcs_write I (sberrorClear (set_sbreadondata False (set_sbautoincrement autoincrement
      (set_sbaccess (SbaccessVal_val SBACCESS_32) (set_sbreadonaddr readonaddr (Sbcs_reset s))))))"

definition sbaddressSetup :: "'j IDtm \<Rightarrow> 32 word \<Rightarrow> 'j Dmi \<Rightarrow> 'j Dmi outcome" where
  "sbaddressSetup I a s = Sbaddress_write I 0 (set_sbaddress 0 a (Sbaddress_reset 0 s))"

partial_function (option) sbcsPoll :: "'j IDtm \<Rightarrow> 'j Dmi \<Rightarrow> 'j Dmi outcome" where
  "sbcsPoll I s =
    (case Sbcs_read I s of
       None \<Rightarrow> None
     | Some (Inl e) \<Rightarrow> Some (Inl e)
     | Some (Inr s') \<Rightarrow> (if sbbusy s' then sbcsPoll I s' else Some (Inr s')))"

text \<open>
  The two loops that overlay bytes of the buffer on the word \<open>w\<close>
  (\<open>w &= ~(0xff << (8 * i)); w |= buf[bufIndex++] << (8 * i)\<close>), for \<open>i\<close> below \<open>lim\<close>.
\<close>

function overlay_loop :: "8 word list \<Rightarrow> 64 word \<Rightarrow> 64 word \<Rightarrow> 32 word \<Rightarrow> nat \<Rightarrow> error + (32 word \<times> nat)" where
  "overlay_loop buf lim i w bufIndex =
    (if i < lim
     then (if 4 \<le> i then Inl UndefinedShift
           else if length buf \<le> bufIndex then Inl OutOfBounds
           else overlay_loop buf lim (i + 1)
                  ((w AND NOT (push_bit (8 * unat i) 0xff)) OR push_bit (8 * unat i) (ucast (buf ! bufIndex)))
                  (bufIndex + 1))
     else Inr (w, bufIndex))"
  by pat_completeness auto
termination
  by (relation "measure (\<lambda>(buf, lim, i, w, bufIndex). 4 - unat i)")
     (auto simp: unat_word_ariths word_le_nat_alt not_le)

text \<open>The inner loop of the bulk words: \<open>w |= buf[bufIndex++] << (i * 8)\<close> for \<open>i < 4\<close>.\<close>

function pack_loop :: "8 word list \<Rightarrow> nat \<Rightarrow> 32 word \<Rightarrow> nat \<Rightarrow> error + (32 word \<times> nat)" where
  "pack_loop buf i w bufIndex =
    (if i < 4
     then (if length buf \<le> bufIndex then Inl OutOfBounds
           else pack_loop buf (i + 1) (w OR push_bit (i * 8) (ucast (buf ! bufIndex))) (bufIndex + 1))
     else Inr (w, bufIndex))"
  by pat_completeness auto
termination
  by (relation "measure (\<lambda>(buf, i, w, bufIndex). 4 - i)") auto

partial_function (option) bulk_loop ::
    "'j IDtm \<Rightarrow> 8 word list \<Rightarrow> 32 word \<Rightarrow> 32 word \<Rightarrow> 32 word \<Rightarrow> nat \<Rightarrow> 'j Dmi
      \<Rightarrow> (SberrorVal \<times> 32 word \<times> 32 word \<times> nat \<times> 'j Dmi) outcome" where
  "bulk_loop I buf endAddr startAddr w bufIndex s =
    (if startAddr < endAddr - 4
     then (case pack_loop buf 0 0 bufIndex of
             Inl e \<Rightarrow> Some (Inl e)
           | Inr (w', bufIndex') \<Rightarrow>
               (case andThen (Sbdata_write I 0 (set_sbdata 0 w' s)) (sbcsPoll I) of
                  None \<Rightarrow> None
                | Some (Inl e) \<Rightarrow> Some (Inl e)
                | Some (Inr s') \<Rightarrow>
                    (if sberror s' \<noteq> SBERR_NONE
                     then Some (Inr (sberror s', startAddr, w', bufIndex', s'))
                     else bulk_loop I buf endAddr (startAddr + 4) w' bufIndex' s')))
     else Some (Inr (SBERR_NONE, startAddr, w, bufIndex, s)))"

text \<open>The block under \<open>if (!startAligned)\<close>: read the first word, then program the bus again.\<close>

definition readFirstWord ::
    "'j IDtm \<Rightarrow> 32 word \<Rightarrow> bool \<Rightarrow> 32 word \<Rightarrow> 'j Dmi \<Rightarrow> (SberrorVal \<times> 32 word \<times> 'j Dmi) outcome" where
  "readFirstWord I startAddr autoincrement w s =
    andThen (sbcsPoll I s) (\<lambda>s1.
      if sberror s1 \<noteq> SBERR_NONE then returns (sberror s1, w, s1)
      else
        andThen (Sbdata_read I 0 s1) (\<lambda>s2.
        andThen (sbcsSetup I False autoincrement s2) (\<lambda>s3.
        andThen (sbaddressSetup I startAddr s3) (\<lambda>s4.
          returns (SBERR_NONE, sbdata 0 s2, s4)))))"

text \<open>The block under \<open>if (!endAligned)\<close>: read the last word, then program the bus again.\<close>

definition readLastWord ::
    "'j IDtm \<Rightarrow> 32 word \<Rightarrow> bool \<Rightarrow> 32 word \<Rightarrow> 'j Dmi \<Rightarrow> (SberrorVal \<times> 32 word \<times> 'j Dmi) outcome" where
  "readLastWord I startAddr autoincrement w s =
    andThen (sbcsSetup I True False s) (\<lambda>s1.
    andThen (sbaddressSetup I startAddr s1) (\<lambda>s2.
    andThen (sbcsPoll I s2) (\<lambda>s3.
      if sberror s3 \<noteq> SBERR_NONE then returns (sberror s3, w, s3)
      else
        andThen (Sbdata_read I 0 s3) (\<lambda>s4.
        andThen (sbcsSetup I False autoincrement s4) (\<lambda>s5.
          returns (SBERR_NONE, sbdata 0 s4, s5))))))"

text \<open>
  \<open>Dmi::writeMem (addr, nBytes, buf)\<close>. The local \<open>w\<close> is not initialised in the source;
  its indeterminate value is the argument \<open>w0\<close>.
\<close>

definition writeMem ::
    "'j IDtm \<Rightarrow> 64 word \<Rightarrow> 64 word \<Rightarrow> 8 word list \<Rightarrow> 32 word \<Rightarrow> 'j Dmi \<Rightarrow> (SberrorVal \<times> 'j Dmi) outcome" where
  "writeMem I addr nBytes buf w0 s =
    (let startAddr = (ucast (addr AND 0xfffffffc) :: 32 word);
         endAddr = (ucast ((addr + nBytes + 3) AND 0xfffffffc) :: 32 word);
         startAligned = ((ucast startAddr :: 64 word) = addr);
         endAligned = ((ucast endAddr :: 64 word) = addr + nBytes);
         nWords = (ucast ((endAddr - startAddr) div 4) :: 64 word);
         offset = addr - ucast startAddr;
         offsetEnd = ucast endAddr - (addr + nBytes)
     in
     andThen (sbcsSetup I (\<not> startAligned) (1 < nWords) s) (\<lambda>s1.
     andThen (sbaddressSetup I startAddr s1) (\<lambda>s2.
     andThen (if \<not> startAligned then readFirstWord I startAddr (1 < nWords) w0 s2
              else returns (SBERR_NONE, w0, s2)) (\<lambda>(err1, w1, s3).
       if err1 \<noteq> SBERR_NONE then returns (err1, s3)
       else
         (case overlay_loop buf (min (offset + nBytes) 4) offset w1 0 of
            Inl e \<Rightarrow> aborts e
          | Inr (w2, bufIndex2) \<Rightarrow>
              andThen (Sbdata_write I 0 (set_sbdata 0 w2 s3)) (\<lambda>s4.
              andThen (sbcsPoll I s4) (\<lambda>s5.
                if sberror s5 \<noteq> SBERR_NONE then returns (sberror s5, s5)
                else if startAddr + 4 = endAddr then returns (SBERR_NONE, s5)
                else
                  andThen (bulk_loop I buf endAddr (startAddr + 4) w2 bufIndex2 s5)
                    (\<lambda>(err6, startAddr6, w6, bufIndex6, s6).
                      if err6 \<noteq> SBERR_NONE then returns (err6, s6)
                      else
                        andThen (if \<not> endAligned then readLastWord I startAddr6 (1 < nWords) w6 s6
                                 else returns (SBERR_NONE, w6, s6)) (\<lambda>(err7, w7, s7).
                          if err7 \<noteq> SBERR_NONE then returns (err7, s7)
                          else
                            (case overlay_loop buf (4 - offsetEnd) 0 w7 bufIndex6 of
                               Inl e \<Rightarrow> aborts e
                             | Inr (w8, bufIndex8) \<Rightarrow>
                                 andThen (Sbdata_write I 0 (set_sbdata 0 w8 s7)) (\<lambda>s8.
                                 andThen (sbcsPoll I s8) (\<lambda>s9.
                                   returns (sberror s9, s9)))))))))))))"

section \<open>Cv32e40: the target adapter\<close>

text \<open>
  Of the adapter's members only \<open>mDmi\<close> is used below; it is empty after
  \<open>Cv32e40::reset\<close>, which drops the \<open>Dmi\<close>.
\<close>

record 'j Cv32e40 =
  mDmi :: "'j Dmi option"

definition REG_ZERO_GDBNUM :: int where "REG_ZERO_GDBNUM = 0x0"
definition REG_PC_GDBNUM :: int where "REG_PC_GDBNUM = 0x20"
definition REG_FT0_GDBNUM :: int where "REG_FT0_GDBNUM = 0x21"
definition REG_CSR0_GDBNUM :: int where "REG_CSR0_GDBNUM = 0x41"
definition REG_CSR_LAST_GDBNUM :: int where "REG_CSR_LAST_GDBNUM = REG_CSR0_GDBNUM + 0xfff"

definition getRegisterSize :: "64 word" where
  "getRegisterSize = 4"

definition withDmi :: "'j Cv32e40 \<Rightarrow> ('j Dmi \<Rightarrow> 'a outcome) \<Rightarrow> 'a outcome" where
  "withDmi c f = (case mDmi c of None \<Rightarrow> aborts NullDereference | Some d \<Rightarrow> f d)"

text \<open>
  \<open>Cv32e40::readRegister (reg, value)\<close>. The local \<open>readvalue\<close> is not initialised; its
  indeterminate value is the argument \<open>readvalue0\<close>. The result is the return value, the
  value stored through \<open>value\<close>, and the adapter.
\<close>

definition readRegister ::
    "'j IDtm \<Rightarrow> int \<Rightarrow> 32 word \<Rightarrow> 'j Cv32e40 \<Rightarrow> (64 word \<times> 32 word \<times> 'j Cv32e40) outcome" where
  "readRegister I reg readvalue0 c =
    (if REG_ZERO_GDBNUM \<le> reg \<and> reg < REG_PC_GDBNUM
     then withDmi c (\<lambda>d. andThen (readGpr I (word_of_int reg) readvalue0 d) (\<lambda>(err, readvalue, d').
            returns (getRegisterSize, readvalue, c \<lparr> mDmi := Some d' \<rparr>)))
     else if reg = REG_PC_GDBNUM
     then withDmi c (\<lambda>d. andThen (readCsr I Csr_DPC readvalue0 d) (\<lambda>(err, readvalue, d').
            returns (getRegisterSize, readvalue, c \<lparr> mDmi := Some d' \<rparr>)))
     else if REG_FT0_GDBNUM \<le> reg \<and> reg < REG_CSR0_GDBNUM
     then withDmi c (\<lambda>d. andThen (readFpr I (word_of_int reg) readvalue0 d) (\<lambda>(err, readvalue, d').
            returns (getRegisterSize, readvalue, c \<lparr> mDmi := Some d' \<rparr>)))
     else if REG_CSR0_GDBNUM \<le> reg \<and> reg \<le> REG_CSR_LAST_GDBNUM
     then withDmi c (\<lambda>d. andThen (readCsr I (word_of_int (reg - REG_CSR0_GDBNUM)) readvalue0 d)
            (\<lambda>(err, readvalue, d').
              returns (getRegisterSize, readvalue, c \<lparr> mDmi := Some d' \<rparr>)))
     else returns (0, 0, c))"

text \<open>\<open>Cv32e40::writeRegister (reg, value)\<close>, with \<open>value\<close> after its conversion to \<open>uint32_t\<close>.\<close>

definition writeRegister ::
    "'j IDtm \<Rightarrow> int \<Rightarrow> 32 word \<Rightarrow> 'j Cv32e40 \<Rightarrow> (64 word \<times> 'j Cv32e40) outcome" where
  "writeRegister I reg val c =
    (if REG_ZERO_GDBNUM \<le> reg \<and> reg < REG_PC_GDBNUM
     then withDmi c (\<lambda>d. andThen (writeGpr I (word_of_int reg) val d) (\<lambda>(err, d').
            returns (getRegisterSize, c \<lparr> mDmi := Some d' \<rparr>)))
     else if reg = REG_PC_GDBNUM
     then withDmi c (\<lambda>d. andThen (writeCsr I Csr_DPC val d) (\<lambda>(err, d').
            returns (getRegisterSize, c \<lparr> mDmi := Some d' \<rparr>)))
     else if REG_FT0_GDBNUM \<le> reg \<and> reg < REG_CSR0_GDBNUM
     then withDmi c (\<lambda>d. andThen (writeFpr I (word_of_int reg) val d) (\<lambda>(err, d').
            returns (getRegisterSize, c \<lparr> mDmi := Some d' \<rparr>)))
     else if REG_CSR0_GDBNUM \<le> reg \<and> reg \<le> REG_CSR_LAST_GDBNUM
     then withDmi c (\<lambda>d. andThen (writeCsr I (word_of_int (reg - REG_CSR0_GDBNUM)) val d) (\<lambda>(err, d').
            returns (getRegisterSize, c \<lparr> mDmi := Some d' \<rparr>)))
     else returns (0, c))"

text \<open>
  \<open>Cv32e40::write (addr, buffer, size)\<close>. The caller's buffer is a list; copying \<open>size\<close> (here \<open>sizeIn\<close>)
  bytes out of a shorter one reads past its end. \<open>w0\<close> is passed on to \<open>writeMem\<close>.
\<close>

definition Cv32e40_write ::
    "'j IDtm \<Rightarrow> 64 word \<Rightarrow> 8 word list \<Rightarrow> 64 word \<Rightarrow> 32 word \<Rightarrow> 'j Cv32e40 \<Rightarrow> (64 word \<times> 'j Cv32e40) outcome" where
  "Cv32e40_write I addr buffer sizeIn w0 c =
    (if sizeIn = 0 then returns (sizeIn, c)
     else if length buffer < unat sizeIn then aborts OutOfBounds
     else
       (let buf = take (unat sizeIn) buffer
        in withDmi c (\<lambda>d. andThen (writeMem I addr sizeIn buf w0 d) (\<lambda>(err, d').
             returns (sizeIn, c \<lparr> mDmi := Some d' \<rparr>)))))"

section \<open>Observers and concrete inputs\<close>

text \<open>What a call returned, if it returned.\<close>

definition resultOf :: "'a outcome \<Rightarrow> 'a option" where
  "resultOf r = (case r of Some (Inr x) \<Rightarrow> Some x | _ \<Rightarrow> None)"

text \<open>
  A transport that records every DMI write in order and answers every DMI read with 0
  (so \<open>abstractcs\<close> reads back with \<open>cmderr = 0\<close>).
\<close>

definition recordingDtm :: "(64 word \<times> 32 word) list IDtm" where
  "recordingDtm =
    \<lparr> IDtm_reset = (\<lambda>j. returns (True, j)),
      IDtm_dmiRead = (\<lambda>a j. returns (0, j)),
      IDtm_dmiWrite = (\<lambda>a v j. returns (j @ [(a, v)])),
      IDtm_simTimeNs = (\<lambda>j. 0) \<rparr>"

text \<open>
  A debug module with a single hart behind an ideal transport: a register file in which
  the \<open>hartsel\<close> bits of \<open>dmcontrol\<close> (DMI address 0x10) do not latch.
\<close>

definition oneHartDm :: "(64 word \<Rightarrow> 32 word) IDtm" where
  "oneHartDm =
    \<lparr> IDtm_reset = (\<lambda>j. returns (True, j)),
      IDtm_dmiRead = (\<lambda>a j. returns (j a, j)),
      IDtm_dmiWrite = (\<lambda>a v j.
        returns (j (a := (if a = 0x10 then v AND NOT (HARTSELLO_MASK OR HARTSELHI_MASK) else v)))),
      IDtm_simTimeNs = (\<lambda>j. 0) \<rparr>"

text \<open>
  A device under test that counts its evaluations and drives TDO high exactly at the
  listed counts; it never calls \<open>$finish\<close>.
\<close>

definition scriptedDut :: "int list \<Rightarrow> int Vcore_v_mcu" where
  "scriptedDut highs =
    \<lparr> eval_step = (\<lambda>clk rstn tck trst tdi tms d. d + 1),
      jtag_tdo_o = (\<lambda>d. d \<in> set highs),
      finish_called = (\<lambda>d. False) \<rparr>"

text \<open>
  The simulation of that device with a 20 ns main clock, out of reset, after \<open>d\<close>
  evaluations at tick \<open>tick\<close>, on a TCK edge.
\<close>

definition vsimAt :: "int \<Rightarrow> 64 word \<Rightarrow> bool \<Rightarrow> bool \<Rightarrow> int VSim" where
  "vsimAt d tick tckHigh tmsHigh =
    \<lparr> mCpu = d, gotFinish = False, ref_clk_i = True, rstn_i = True,
      jtag_tck_i = tckHigh, jtag_trst_i = True, jtag_tdi_i = False, jtag_tms_i = tmsHigh,
      mClkHalfPeriodTicks = 10, mTckHalfPeriodTicks = 20, mResetPeriodTicks = 200,
      mSimTimeTicks = 0, mTickCount = tick, mTckPosedge = tckHigh, mTckNegedge = (\<not> tckHigh) \<rparr>"

text \<open>A new Tap on a 20 ns clock, the Tap after \<open>reset ()\<close>, after a following access of
  IDCODE, and after \<open>rtiCount (3)\<close> and an access of BYPASS0 (IR value 0).\<close>

definition tapFresh :: "int Tap" where
  "tapFresh = Tap_new 0 TEST_LOGIC_RESET 20 0"

definition tapAfterReset :: "int Tap" where
  "tapAfterReset =
    \<lparr> mMcu = vsimAt 20 200 True False, mCurrState = RUN_TEST_IDLE, mLastIr = 0, mRtiCount = 1 \<rparr>"

definition tapAfterIdcode :: "int Tap" where
  "tapAfterIdcode =
    \<lparr> mMcu = vsimAt 210 2100 False True, mCurrState = UPDATE_DR, mLastIr = 0, mRtiCount = 1 \<rparr>"

definition tapIdle3 :: "int Tap" where
  "tapIdle3 =
    \<lparr> mMcu = vsimAt 170 1700 False True, mCurrState = UPDATE_DR, mLastIr = 0, mRtiCount = 3 \<rparr>"

declare toPosedge.simps [code] toNegedge.simps [code] gotoState_loop.simps [code]
  Tap_reset.simps [code] shiftIr_loop.simps [code] shiftDr_loop.simps [code]
  rtiDwell.simps [code] dmiRead_poll.simps [code] dmiWrite_poll.simps [code]
  sbcsPoll.simps [code] bulk_loop.simps [code]

section \<open>Clock discipline and time budget\<close>

text \<open>
  What the constructor of \<open>VSim\<close> establishes and \<open>advanceHalfPeriod\<close> keeps: the
  half periods are not zero, the TCK half period is two clock half periods, and the TCK pin
  is the level that the tick count dictates.
\<close>

definition clock_ok :: "'d VSim \<Rightarrow> bool" where
  "clock_ok v \<longleftrightarrow>
     0 < unat (mClkHalfPeriodTicks v)
     \<and> unat (mTckHalfPeriodTicks v) = 2 * unat (mClkHalfPeriodTicks v)
     \<and> jtag_tck_i v = even (unat (mTickCount v) div unat (mClkHalfPeriodTicks v) div 2)"

text \<open>The 64-bit tick counter can take \<open>n\<close> more half periods without wrapping.\<close>

definition within_budget :: "nat \<Rightarrow> 'd VSim \<Rightarrow> bool" where
  "within_budget n v \<longleftrightarrow> unat (mTickCount v) + n * unat (mClkHalfPeriodTicks v) < 2 ^ 64"

text \<open>The position inside a TCK period, counted in clock half periods.\<close>

definition phase :: "'d VSim \<Rightarrow> nat" where
  "phase v = (unat (mTickCount v) div unat (mClkHalfPeriodTicks v)) mod 4"

definition tap_ok :: "nat \<Rightarrow> 'd Tap \<Rightarrow> bool" where
  "tap_ok n t \<longleftrightarrow> clock_ok (mMcu t) \<and> within_budget n (mMcu t)"

text \<open>One step of the controller, as \<open>nextState\<close> computes it from the table \<open>trans\<close>.\<close>

definition successor :: "bool \<Rightarrow> State \<Rightarrow> State" where
  "successor tmsIn s = (if tmsIn then snd (trans s) else fst (trans s))"

text \<open>
  Following the routing table \<open>nextStateTab\<close> from \<open>c\<close> arrives at \<open>s\<close> within \<open>n\<close>
  steps.
\<close>

fun reach :: "nat \<Rightarrow> State \<Rightarrow> State \<Rightarrow> bool" where
  "reach 0 c s = (c = s)"
| "reach (Suc n) c s = (c = s \<or> reach n (successor (firstTms c s) c) s)"

definition allStates :: "State list" where
  "allStates = [TEST_LOGIC_RESET, RUN_TEST_IDLE, SELECT_DR_SCAN, CAPTURE_DR, SHIFT_DR, EXIT1_DR,
     PAUSE_DR, EXIT2_DR, UPDATE_DR, SELECT_IR_SCAN, CAPTURE_IR, SHIFT_IR, EXIT1_IR, PAUSE_IR,
     EXIT2_IR, UPDATE_IR]"

section \<open>A debug transport module to run against\<close>

text \<open>
  The device under test is not part of the sources, so the runs below use a small model of
  a RISC-V JTAG debug transport module behind the pins of \<open>Vcore_v_mcu\<close>. It follows
  the table \<open>trans\<close> on every rising edge of TCK, shifts TDI into the selected register in
  the two shift states, and logs the instruction and the value shifted in at every
  Update-DR. A read started over \<open>dmiaccess\<close> takes some TCK cycles; a scan that finds it
  unfinished captures result 3 and sets a flag that stays until bit 16 (\<open>dmireset\<close>) is
  written to \<open>dtmcs\<close>, as the debug specification asks.
\<close>

record dtmDev =
  dTck :: bool
  dState :: State
  dIr :: "8 word"
  dShift :: "64 word"
  dOut :: bool
  dTdo :: bool
  dBusy :: bool
  dWait :: int
  dResp :: "64 word"
  dUpdates :: "(8 word \<times> 64 word) list"

text \<open>The length of the data register that an instruction selects.\<close>

definition drLen :: "8 word \<Rightarrow> nat" where
  "drLen ir = (if ir = DMIACCESS then 41 else if ir = IDCODE \<or> ir = DTMCS then 32 else 1)"

text \<open>
  One shift: the lowest bit goes out, TDI comes in at the top. TDO lags the shift register
  by one cycle, which is when \<open>Tap::shiftDr\<close> samples it.
\<close>

definition shiftIn :: "nat \<Rightarrow> bool \<Rightarrow> dtmDev \<Rightarrow> dtmDev" where
  "shiftIn n tdiIn d =
    d \<lparr> dOut := bit (dShift d) 0,
        dShift := drop_bit 1 (dShift d) OR (if tdiIn then push_bit (n - 1) 1 else 0) \<rparr>"

text \<open>
  Capture-DR. \<open>dtmcs\<close> reads version 1, 7 address bits and one idle cycle; \<open>dmiaccess\<close> reads
  the response of the last operation, with result 3 while it is unfinished or the flag is
  set.
\<close>

definition devCapture :: "dtmDev \<Rightarrow> dtmDev" where
  "devCapture d =
    (if dIr d = IDCODE then d \<lparr> dShift := 0x249511C3 \<rparr>
     else if dIr d = DTMCS then d \<lparr> dShift := 0x1071 OR (if dBusy d then 0xc00 else 0) \<rparr>
     else if dIr d = DMIACCESS
     then (if dBusy d \<or> 0 < dWait d then d \<lparr> dBusy := True, dShift := dResp d OR 3 \<rparr>
           else d \<lparr> dShift := dResp d \<rparr>)
     else d \<lparr> dShift := 0 \<rparr>)"

text \<open>
  The registers behind DMI: address 0x11 reads 0x00400382 and is slow; address 0x7f does
  not exist, so a read of it fails at once with result 2 and stale data.
\<close>

definition devResponse :: "64 word \<Rightarrow> 64 word" where
  "devResponse addr =
    push_bit 34 addr OR
      (if addr = 0x11 then push_bit 2 0x00400382
       else if addr = 0x7f then push_bit 2 0xdeadbeef OR 2
       else 0)"

definition devLatency :: "64 word \<Rightarrow> int" where
  "devLatency addr = (if addr = 0x11 then 60 else 0)"

text \<open>Update-DR: log the scan; \<open>dmireset\<close> clears the flag; a read request starts a read.\<close>

definition devUpdate :: "dtmDev \<Rightarrow> dtmDev" where
  "devUpdate d =
    (let d1 = d \<lparr> dUpdates := dUpdates d @ [(dIr d, dShift d)] \<rparr>
     in if dIr d = DTMCS then (if bit (dShift d) 16 then d1 \<lparr> dBusy := False \<rparr> else d1)
        else if dIr d = DMIACCESS \<and> \<not> dBusy d \<and> dShift d AND 3 = 1
        then d1 \<lparr> dWait := devLatency (drop_bit 34 (dShift d)),
                  dResp := devResponse (drop_bit 34 (dShift d)) \<rparr>
        else d1)"

definition devRising :: "bool \<Rightarrow> bool \<Rightarrow> dtmDev \<Rightarrow> dtmDev" where
  "devRising tdiIn tmsIn d =
    (let s = dState d;
         s' = successor tmsIn s;
         d1 = d \<lparr> dTdo := dOut d, dWait := (if 0 < dWait d then dWait d - 1 else 0) \<rparr>;
         d2 = (if s = TEST_LOGIC_RESET then d1 \<lparr> dIr := IDCODE \<rparr>
               else if s = CAPTURE_IR then d1 \<lparr> dShift := 1 \<rparr>
               else if s = SHIFT_IR then shiftIn 5 tdiIn d1
               else if s = CAPTURE_DR then devCapture d1
               else if s = SHIFT_DR then shiftIn (drLen (dIr d1)) tdiIn d1
               else d1);
         d3 = (if s' = UPDATE_IR then d2 \<lparr> dIr := ucast (dShift d2) \<rparr>
               else if s' = UPDATE_DR then devUpdate d2
               else d2)
     in d3 \<lparr> dState := s' \<rparr>)"

definition dtmDevice :: "dtmDev Vcore_v_mcu" where
  "dtmDevice =
    \<lparr> eval_step = (\<lambda>clk rstn tck trst tdi tms d.
        if tck \<and> \<not> dTck d then devRising tdi tms (d \<lparr> dTck := True \<rparr>) else d \<lparr> dTck := tck \<rparr>),
      jtag_tdo_o = dTdo,
      finish_called = (\<lambda>d. False) \<rparr>"

text \<open>The device at power-on and a new \<open>DtmJtag\<close> on it with a 20 ns clock.\<close>

definition devPowerOn :: dtmDev where
  "devPowerOn = \<lparr> dTck = False, dState = TEST_LOGIC_RESET, dIr = IDCODE, dShift = 0, dOut = False,
     dTdo = False, dBusy = False, dWait = 0, dResp = 0, dUpdates = [] \<rparr>"

definition devFresh :: "dtmDev DtmJtag" where
  "devFresh = DtmJtag_new devPowerOn TEST_LOGIC_RESET 0 20 0"

text \<open>
  The Tap on that device between two accesses, at tick \<open>tick\<close>: host and device are in
  Update-DR. The arguments are the state of the device.
\<close>

definition devAt ::
    "64 word \<Rightarrow> 8 word \<Rightarrow> 64 word \<Rightarrow> bool \<Rightarrow> bool \<Rightarrow> int \<Rightarrow> 64 word \<Rightarrow> (8 word \<times> 64 word) list
      \<Rightarrow> dtmDev Tap" where
  "devAt tick ir shifted tdoHigh busy wait resp updates =
    \<lparr> mMcu =
        \<lparr> mCpu = \<lparr> dTck = True, dState = UPDATE_DR, dIr = ir, dShift = shifted, dOut = tdoHigh,
                   dTdo = tdoHigh, dBusy = busy, dWait = wait, dResp = resp, dUpdates = updates \<rparr>,
          gotFinish = False, ref_clk_i = True, rstn_i = True,
          jtag_tck_i = False, jtag_trst_i = True, jtag_tdi_i = False, jtag_tms_i = True,
          mClkHalfPeriodTicks = 10, mTckHalfPeriodTicks = 20, mResetPeriodTicks = 200,
          mSimTimeTicks = 0, mTickCount = tick, mTckPosedge = False, mTckNegedge = True \<rparr>,
      mCurrState = UPDATE_DR, mLastIr = 0, mRtiCount = 1 \<rparr>"

text \<open>The DTM with the widths that \<open>DtmJtag::reset\<close> reads from this device.\<close>

definition devJ :: "dtmDev Tap \<Rightarrow> diagnostic list \<Rightarrow> dtmDev DtmJtag" where
  "devJ t diags = \<lparr> mTap = t, mDmiWidth = 41, mDmiAddrMask = 0x7f, cerr = diags \<rparr>"

text \<open>The scans of \<open>DtmJtag::reset\<close>: \<open>idcode\<close>, \<open>dtmcs\<close>, and the write of \<open>dmireset\<close>.\<close>

definition resetScans :: "(8 word \<times> 64 word) list" where
  "resetScans = [(0x01, 0), (0x10, 0), (0x10, 0x10000)]"

text \<open>The DTM on this device as \<open>DtmJtag::reset\<close> leaves it.\<close>

definition devReady :: "dtmDev DtmJtag" where
  "devReady = devJ (devAt 5940 0x10 0x10000 False False 0 0 resetScans) []"

section \<open>A probe on the JTAG pins\<close>

text \<open>
  To say what reaches the device, any device can be wrapped in a probe that notes the
  levels of TMS and TDI at every rising edge of TCK it is evaluated with, and is otherwise
  the device itself.
\<close>

record 'd probe =
  pInner :: 'd
  pTck :: bool
  pSeen :: "(bool \<times> bool) list"

definition probed :: "'d Vcore_v_mcu \<Rightarrow> 'd probe Vcore_v_mcu" where
  "probed M =
    \<lparr> eval_step = (\<lambda>clk rstn tck trst tdi tms p.
        \<lparr> pInner = eval_step M clk rstn tck trst tdi tms (pInner p),
          pTck = tck,
          pSeen = (if tck \<and> \<not> pTck p then pSeen p @ [(tms, tdi)] else pSeen p) \<rparr>),
      jtag_tdo_o = (\<lambda>p. jtag_tdo_o M (pInner p)),
      finish_called = (\<lambda>p. finish_called M (pInner p)) \<rparr>"

text \<open>
  The probe is in step with the simulation: the next evaluation shows it a rising edge
  exactly when \<open>mTckPosedge\<close> is set, and the two edge flags are never set together. This
  holds for a new \<open>VSim\<close> with a new probe, and \<open>advanceHalfPeriod\<close> keeps it.
\<close>

definition probe_ok :: "'d probe VSim \<Rightarrow> bool" where
  "probe_ok v \<longleftrightarrow>
     ((jtag_tck_i v \<and> \<not> pTck (mCpu v)) = mTckPosedge v) \<and> \<not> (mTckPosedge v \<and> mTckNegedge v)"

definition pins :: "'d probe Tap \<Rightarrow> (bool \<times> bool) list" where
  "pins t = pSeen (mCpu (mMcu t))"

text \<open>
  The levels \<open>gotoState\<close> drives on the way from \<open>c\<close> to \<open>s\<close> (TDI is low on the way), those
  of the \<open>n\<close> cycles that shift \<open>w\<close>, lowest bit first and TMS high with the last bit, and
  those of a whole \<open>accessReg\<close> that has to shift the instruction.
\<close>

fun route :: "nat \<Rightarrow> State \<Rightarrow> State \<Rightarrow> (bool \<times> bool) list" where
  "route 0 c s = []"
| "route (Suc n) c s =
    (if c = s then [] else (firstTms c s, False) # route n (successor (firstTms c s) c) s)"

definition shiftPins :: "'a::len word \<Rightarrow> nat \<Rightarrow> (bool \<times> bool) list" where
  "shiftPins w n = map (\<lambda>k. (False, bit w k)) [0..<n - 1] @ [(True, bit w (n - 1))]"

definition scanPins :: "State \<Rightarrow> 8 word \<Rightarrow> 64 word \<Rightarrow> nat \<Rightarrow> (bool \<times> bool) list" where
  "scanPins c ir w n =
     route 8 c SHIFT_IR @ shiftPins ir 5 @ route 8 EXIT1_IR UPDATE_IR
     @ route 8 UPDATE_IR SHIFT_DR @ shiftPins w n @ [(False, bit w (n - 1))]
     @ route 8 PAUSE_DR UPDATE_DR"

text \<open>The levels of the DMI reset in the polling loops, which start it from Update-DR.\<close>

definition dmiresetPins :: "(bool \<times> bool) list" where
  "dmiresetPins = scanPins UPDATE_DR 0x10 0x10000 32"

text \<open>The device \<open>dtmDevice\<close> clocked with a list of levels.\<close>

definition devClock :: "(bool \<times> bool) list \<Rightarrow> dtmDev \<Rightarrow> dtmDev" where
  "devClock ps d = foldl (\<lambda>d (tmsIn, tdiIn). devRising tdiIn tmsIn d) d ps"

section \<open>Properties\<close>

lemmas outcome_defs = andThen_def returns_def aborts_def

subsection \<open>The reset value of sbcs\<close>

text \<open>
  C7. After \<open>Sbcs::reset ()\<close> the cached \<open>sbcs\<close> value is 0x20040000, and its fields decode
  to \<open>sbversion = 1\<close> (bits 31:29) and \<open>sbaccess = 2\<close>, the 32-bit access size (bits 19:17).
\<close>

theorem Sbcs_reset_fields:
  "mSbcsReg (Sbcs_reset s) = 0x20040000
   \<and> sbversion (Sbcs_reset s) = 1
   \<and> sbaccess (Sbcs_reset s) = SBACCESS_32
   \<and> SbaccessVal_val (sbaccess (Sbcs_reset s)) = 2
   \<and> drop_bit 29 (mSbcsReg (Sbcs_reset s) AND 0xe0000000) = 1
   \<and> drop_bit 17 (mSbcsReg (Sbcs_reset s) AND 0x000e0000) = 2"
  by (simp add: sbversion_def sbaccess_def Sbcs_reset_def Sbcs_RESET_VALUE_def
        SBVERSION_MASK_def SBVERSION_OFFSET_def SBACCESS_MASK_def SBACCESS_OFFSET_def)

subsection \<open>The hartsel field of dmcontrol\<close>

lemma HARTSELLO_MASK_bits: "HARTSELLO_MASK = push_bit 16 (mask 10)"
  by (simp add: HARTSELLO_MASK_def mask_eq_exp_minus_1)

lemma HARTSELHI_MASK_bits: "HARTSELHI_MASK = push_bit 6 (mask 10)"
  by (simp add: HARTSELHI_MASK_def mask_eq_exp_minus_1)

lemma hartsello_written:
  "((r AND NOT (push_bit 16 (mask 10) OR push_bit 6 (mask 10)))
     OR ((push_bit 6 (drop_bit 10 h) AND push_bit 6 (mask 10)) OR (push_bit 16 h AND push_bit 16 (mask 10))))
    AND push_bit 16 (mask 10)
   = push_bit 16 (h AND mask 10)" for r h :: "32 word"
  by (rule bit_word_eqI) (auto simp add: bit_simps)

lemma hartselhi_written:
  "((r AND NOT (push_bit 16 (mask 10) OR push_bit 6 (mask 10)))
     OR ((push_bit 6 (drop_bit 10 h) AND push_bit 6 (mask 10)) OR (push_bit 16 h AND push_bit 16 (mask 10))))
    AND push_bit 6 (mask 10)
   = push_bit 6 (drop_bit 10 h AND mask 10)" for r h :: "32 word"
  by (rule bit_word_eqI) (auto simp add: bit_simps)

lemma hartsello_read: "drop_bit 16 (push_bit 16 (h AND mask 10)) = h AND mask 10" for h :: "32 word"
  by (rule bit_word_eqI) (auto simp add: bit_simps)

lemma hartselhi_read:
  "drop_bit 6 (push_bit 6 (drop_bit 10 h AND mask 10)) = drop_bit 10 h AND mask 10" for h :: "32 word"
  by (rule bit_word_eqI) (auto simp add: bit_simps)

lemma hartsel_joined:
  "push_bit 10 (drop_bit 10 h AND mask 10) OR (h AND mask 10) = h AND mask 20" for h :: "32 word"
  by (rule bit_word_eqI) (auto simp add: bit_simps)

lemma mDmcontrolReg_set_hartsel:
  "mDmcontrolReg (set_hartsel h s) =
    (mDmcontrolReg s AND NOT (HARTSELLO_MASK OR HARTSELHI_MASK))
    OR ((push_bit HARTSELHI_OFFSET (drop_bit HARTSELLO_SIZE h) AND HARTSELHI_MASK)
        OR (push_bit HARTSELLO_OFFSET h AND HARTSELLO_MASK))"
  by (simp add: set_hartsel_def Let_def)

lemma hartsello_field:
  "drop_bit HARTSELLO_OFFSET (mDmcontrolReg (set_hartsel h s) AND HARTSELLO_MASK) = h AND mask 10"
  unfolding mDmcontrolReg_set_hartsel HARTSELLO_MASK_bits HARTSELHI_MASK_bits HARTSELLO_OFFSET_def
    HARTSELHI_OFFSET_def HARTSELLO_SIZE_def
  by (simp only: hartsello_written hartsello_read)

lemma hartselhi_field:
  "drop_bit HARTSELHI_OFFSET (mDmcontrolReg (set_hartsel h s) AND HARTSELHI_MASK) = drop_bit 10 h AND mask 10"
  unfolding mDmcontrolReg_set_hartsel HARTSELLO_MASK_bits HARTSELHI_MASK_bits HARTSELLO_OFFSET_def
    HARTSELHI_OFFSET_def HARTSELLO_SIZE_def
  by (simp only: hartselhi_written hartselhi_read)

lemma hartsel_set_hartsel: "hartsel (set_hartsel h s) = h AND mask 20"
  unfolding hartsel_def Let_def hartsello_field hartselhi_field HARTSELLO_SIZE_def
  by (simp only: hartsel_joined)

text \<open>
  C8. The setter \<open>Dmcontrol::hartsel (h)\<close> stores bits 9:0 of \<open>h\<close> in \<open>hartsello\<close> (register
  bits 25:16) and bits 19:10 of \<open>h\<close> in \<open>hartselhi\<close> (register bits 15:6); the getter then
  returns the low 20 bits of \<open>h\<close>, which is \<open>h\<close> itself for every \<open>h < 2^20\<close>.
\<close>

theorem hartsel_set_get:
  "drop_bit 16 (mDmcontrolReg (set_hartsel h s) AND 0x03ff0000) = h AND 0x3ff
   \<and> drop_bit 6 (mDmcontrolReg (set_hartsel h s) AND 0x0000ffc0) = drop_bit 10 h AND 0x3ff
   \<and> hartsel (set_hartsel h s) = h AND 0xfffff
   \<and> (h < 2 ^ 20 \<longrightarrow> hartsel (set_hartsel h s) = h)"
proof -
  have m10: "(0x3ff :: 32 word) = mask 10" and m20: "(0xfffff :: 32 word) = mask 20"
    by (simp_all add: mask_eq_exp_minus_1)
  have lo: "drop_bit 16 (mDmcontrolReg (set_hartsel h s) AND 0x03ff0000) = h AND 0x3ff"
    using hartsello_field [of h s] by (simp add: HARTSELLO_OFFSET_def HARTSELLO_MASK_def m10)
  have hi: "drop_bit 6 (mDmcontrolReg (set_hartsel h s) AND 0x0000ffc0) = drop_bit 10 h AND 0x3ff"
    using hartselhi_field [of h s] by (simp add: HARTSELHI_OFFSET_def HARTSELHI_MASK_def m10)
  have rt: "hartsel (set_hartsel h s) = h AND 0xfffff"
    by (simp add: hartsel_set_hartsel m20)
  have small: "h < 2 ^ 20 \<Longrightarrow> h AND mask 20 = h"
    by (rule less_mask_eq)
  show ?thesis
    using lo hi rt small by (simp add: hartsel_set_hartsel)
qed

theorem hartsel_set_get_witness:
  "(0x12345 :: 32 word) < 2 ^ 20 \<and> hartsel (set_hartsel 0x12345 (Dmi_new ())) = 0x12345"
proof -
  have h: "(0x12345 :: 32 word) < 2 ^ 20" by simp
  from hartsel_set_get [of "0x12345" "Dmi_new ()"] h show ?thesis by blast
qed

subsection \<open>The CSR catalogue\<close>

lemma mCsrMap_distinct: "distinct (map fst mCsrMap)"
  unfolding mCsrMap_def by simp

text \<open>
  C9. For a 16-bit address that is not a key of the catalogue, \<open>csrReadOnly\<close> is true,
  \<open>csrName\<close> is "UNKNOWN" and \<open>csrType\<close> is \<open>NONE\<close>; for an address in the catalogue each
  accessor returns the field of the catalogued entry.
\<close>

theorem csr_lookup:
  "(a \<notin> fst ` set mCsrMap \<longrightarrow>
      csrReadOnly a \<and> csrName a = ''UNKNOWN'' \<and> csrType a = NONE)
   \<and> ((a, info) \<in> set mCsrMap \<longrightarrow>
      csrName a = CsrInfo_name info \<and> csrReadOnly a = CsrInfo_readOnly info
      \<and> csrType a = CsrInfo_type info)"
proof (intro conjI impI)
  assume "a \<notin> fst ` set mCsrMap"
  then have none: "map_of mCsrMap a = None"
    by (simp add: map_of_eq_None_iff)
  show "csrReadOnly a" "csrName a = ''UNKNOWN''" "csrType a = NONE"
    by (simp_all add: csrReadOnly_def csrName_def csrType_def none)
next
  assume "(a, info) \<in> set mCsrMap"
  then have some: "map_of mCsrMap a = Some info"
    using mCsrMap_distinct by (rule map_of_is_SomeI [rotated])
  show "csrName a = CsrInfo_name info" "csrReadOnly a = CsrInfo_readOnly info"
       "csrType a = CsrInfo_type info"
    by (simp_all add: csrReadOnly_def csrName_def csrType_def some)
qed

theorem csr_lookup_witness:
  "(0 :: 16 word) \<notin> fst ` set mCsrMap
   \<and> csrReadOnly 0 \<and> csrName 0 = ''UNKNOWN'' \<and> csrType 0 = NONE
   \<and> (0x7b1, \<lparr> CsrInfo_name = ''dpc'', CsrInfo_readOnly = False, CsrInfo_type = ANY \<rparr>) \<in> set mCsrMap
   \<and> csrName 0x7b1 = ''dpc'' \<and> \<not> csrReadOnly 0x7b1 \<and> csrType 0x7b1 = ANY"
proof -
  have absent: "(0 :: 16 word) \<notin> fst ` set mCsrMap"
    unfolding mCsrMap_def by simp
  have present: "(0x7b1, \<lparr> CsrInfo_name = ''dpc'', CsrInfo_readOnly = False, CsrInfo_type = ANY \<rparr>)
                   \<in> set mCsrMap"
    unfolding mCsrMap_def by simp
  from csr_lookup [of 0 undefined] absent
  have a: "csrReadOnly 0 \<and> csrName 0 = ''UNKNOWN'' \<and> csrType 0 = NONE"
    by blast
  from csr_lookup [of "0x7b1" "\<lparr> CsrInfo_name = ''dpc'', CsrInfo_readOnly = False, CsrInfo_type = ANY \<rparr>"]
    present
  have b: "csrName 0x7b1 = ''dpc'' \<and> \<not> csrReadOnly 0x7b1 \<and> csrType 0x7b1 = ANY"
    by simp
  from absent present a b show ?thesis by blast
qed

subsection \<open>Zero-length memory writes\<close>

text \<open>
  C10. For every address, buffer and adapter state, \<open>Cv32e40::write\<close> with size 0 returns 0
  at once: the adapter, and with it the \<open>Dmi\<close> and the transport below it, is unchanged, so
  \<open>Dmi::writeMem\<close> was not entered and no DMI access was made.
\<close>

theorem write_zero_length:
  "Cv32e40_write I addr buffer 0 w0 c = returns (0, c)"
  by (simp add: Cv32e40_write_def)

subsection \<open>hartsellen\<close>

lemmas Dmcontrol_defs =
  selectHart_def hartsellen_def Dmcontrol_reset_def Dmcontrol_write_def Dmcontrol_read_def
  set_hartsel_def hartsel_def set_dmactive_def viaWrite_def viaRead_def hartselMax_def
  HARTSELLO_MASK_def HARTSELHI_MASK_def HARTSELLO_OFFSET_def HARTSELHI_OFFSET_def
  HARTSELLO_SIZE_def Dmcontrol_RESET_VALUE_def DMACTIVE_MASK_def Dmcontrol_DMI_ADDR_def

text \<open>
  C4. On the single-hart debug module, where a read of \<open>dmcontrol\<close> after the write of the
  maximum \<open>hartsel\<close> gives \<open>hartsel = 0\<close>, \<open>hartsellen ()\<close> returns 0xfffff: it calls
  \<open>Dmcontrol::reset ()\<close>, which restores the value just requested, where the algorithm
  reads the register back.
\<close>

theorem hartsellen_ignores_device:
  "map_option fst (resultOf (hartsellen oneHartDm (Dmi_new (\<lambda>a. 0)))) = Some 0xfffff
   \<and> map_option hartsel
       (Option.bind (resultOf (selectHart oneHartDm hartselMax (Dmi_new (\<lambda>a. 0))))
                    (resultOf \<circ> Dmcontrol_read oneHartDm)) = Some 0"
  by (simp add: Dmcontrol_defs outcome_defs resultOf_def oneHartDm_def Dmi_new_def Let_def)

subsection \<open>Floating-point registers\<close>

lemmas readCsr_defs =
  readFpr_def readCsr_def writeFpr_def writeCsr_def withDmi_def
  REG_ZERO_GDBNUM_def REG_PC_GDBNUM_def REG_FT0_GDBNUM_def REG_CSR0_GDBNUM_def
  REG_CSR_LAST_GDBNUM_def Command_write_def Command_reset_def cmdtype_def aarsize_def
  aatransfer_def aawrite_def aaregno_def Abstractcs_read_def cmderr_def
  Data_read_def Data_data_def Data_write_def Data_set_data_def Data_reset_def Data_RESET_VALUE_def
  viaWrite_def viaRead_def Dmi_new_def FPR_BASE_def getRegisterSize_def Command_RESET_VALUE_def
  CMDTYPE_MASK_def CMDTYPE_OFFSET_def AARSIZE_MASK_def AARSIZE_OFFSET_def TRANSFER_MASK_def
  WRITE_MASK_def REGNO_MASK_def REGNO_OFFSET_def Command_DMI_ADDR_def Abstractcs_DMI_ADDR_def
  Abstractcs_CMDERR_MASK_def CMDERR_OFFSET_def Data_NUM_REGS_def Data_DMI_ADDR_def
  Abstractcs_RESET_VALUE_def Sbcs_RESET_VALUE_def Dmcontrol_RESET_VALUE_def

text \<open>
  C5. For debugger register 33 (the first floating-point register) \<open>readRegister\<close> and
  \<open>writeRegister\<close> write the command register (DMI address 0x17) with
  \<open>regno = 0x1041 = 0x1020 + 33\<close>, not \<open>0x1020 + (33 - 33)\<close>: the register index is passed
  to \<open>readFpr\<close> and \<open>writeFpr\<close> without subtracting the first FPR number.
\<close>

theorem fpr_regno_not_rebased:
  "map_option (\<lambda>(n, v, c). (n, map_option mDtm (mDmi c)))
     (resultOf (readRegister recordingDtm 33 0 \<lparr> mDmi = Some (Dmi_new []) \<rparr>))
     = Some (4, Some [(0x17, 0x00221041)])
   \<and> map_option (\<lambda>(n, c). (n, map_option mDtm (mDmi c)))
     (resultOf (writeRegister recordingDtm 33 0xdeadbeef \<lparr> mDmi = Some (Dmi_new []) \<rparr>))
     = Some (4, Some [(0x4, 0xdeadbeef), (0x17, 0x00231041)])
   \<and> (0x00221041 :: 32 word) AND 0xffff = 0x1020 + 33"
  by (simp add: readRegister_def writeRegister_def readCsr_defs outcome_defs resultOf_def
        recordingDtm_def Let_def)

subsection \<open>The TCK period\<close>

text \<open>
  C1. For a main-clock period of 20 ns the constructor sets the TCK half period to 20 ticks,
  and \<open>advanceHalfPeriod\<close> drives TCK high, low, low, high over the next four half periods
  of the main clock (10 ns each): TCK has a period of 40 ns, twice the main-clock period and
  not ten times.
\<close>

theorem tck_period_is_twice_clock:
  "mClkHalfPeriodTicks (VSim_new () 20 0) = 10
   \<and> mTckHalfPeriodTicks (VSim_new () 20 0) = 20
   \<and> (\<exists>v1 v2 v3 v4.
        advanceHalfPeriod (VSim_new () 20 0) = Inr v1 \<and> advanceHalfPeriod v1 = Inr v2
        \<and> advanceHalfPeriod v2 = Inr v3 \<and> advanceHalfPeriod v3 = Inr v4
        \<and> map jtag_tck_i [VSim_new () 20 0, v1, v2, v3, v4] = [True, True, False, False, True]
        \<and> map mTickCount [VSim_new () 20 0, v1, v2, v3, v4] = [0, 10, 20, 30, 40]
        \<and> mTckNegedge v2 \<and> mTckPosedge v4)"
  by (simp add: advanceHalfPeriod_def VSim_new_def Let_def)

subsection \<open>The TAP state on exit\<close>

lemma andThen_returns_iff:
  "andThen m f = Some (Inr y) \<longleftrightarrow> (\<exists>x. m = Some (Inr x) \<and> f x = Some (Inr y))"
  by (auto simp: andThen_def split: option.splits sum.splits)

lemma andThen_returns: "andThen (returns x) f = f x"
  by (simp add: andThen_def returns_def)

lemma gotoState_loop_exit:
  assumes "gotoState_loop M s b t = Some y"
  shows "\<forall>b' t'. y = Inr (b', t') \<longrightarrow> mCurrState t' = s"
  using assms
  by (rule gotoState_loop.raw_induct [rotated 1,
        where P = "\<lambda>M s b t y. \<forall>b' t'. y = Inr (b', t') \<longrightarrow> mCurrState t' = s"])
     (auto split: if_splits option.splits sum.splits prod.splits)

lemma gotoState_exit: "gotoState M s t = Some (Inr (b, t')) \<Longrightarrow> mCurrState t' = s"
  using gotoState_loop_exit by (fastforce simp: gotoState_def)

lemma Tap_reset_exit:
  assumes "Tap_reset M t = Some y"
  shows "\<forall>t'. y = Inr (True, t') \<longrightarrow> mCurrState t' = RUN_TEST_IDLE"
  using assms
  by (rule Tap_reset.raw_induct [rotated 1,
        where P = "\<lambda>M t y. \<forall>t'. y = Inr (True, t') \<longrightarrow> mCurrState t' = RUN_TEST_IDLE"])
     (auto split: if_splits option.splits sum.splits prod.splits)

lemma accessReg_exit:
  "accessReg M ir wdata len t = Some (Inr (reg, t')) \<Longrightarrow> mCurrState t' = UPDATE_DR"
  by (auto simp: accessReg_def andThen_returns_iff returns_def aborts_def
           split: if_splits dest: gotoState_exit)

lemma reset_run: "Tap_reset (scriptedDut []) tapFresh = returns (True, tapAfterReset)"
  by code_simp

lemma idcode_run: "accessReg (scriptedDut []) IDCODE 0 32 tapAfterReset = returns (0, tapAfterIdcode)"
  by code_simp

text \<open>
  C2, as stated: after \<open>reset ()\<close>, the access \<open>accessReg (IDCODE, 0, 32)\<close> returns with the
  TAP in Update-DR, which is neither Run-Test/Idle nor Test-Logic-Reset.
\<close>

theorem accessReg_exit_counterexample:
  "map_option (mCurrState \<circ> snd) (resultOf (accessReg (scriptedDut []) IDCODE 0 32 tapAfterReset))
     = Some UPDATE_DR
   \<and> UPDATE_DR \<noteq> RUN_TEST_IDLE \<and> UPDATE_DR \<noteq> TEST_LOGIC_RESET"
  by (simp add: idcode_run resultOf_def returns_def tapAfterIdcode_def)

text \<open>
  C2, amended. When \<open>reset ()\<close> returns true the TAP state is Run-Test/Idle; when
  \<open>accessReg\<close>, \<open>writeReg\<close> or \<open>readReg\<close> returns, the TAP state is Update-DR.
  That these calls do return, for registers of 2 to 64 bits under the clock that the
  constructor sets up, is \<open>accessReg_returns\<close> and \<open>Tap_reset_returns\<close> in the last
  subsection.
\<close>

theorem tap_exit_states:
  "(Tap_reset M t = returns (True, t1) \<longrightarrow> mCurrState t1 = RUN_TEST_IDLE)
   \<and> (accessReg M ir wdata len t = returns (reg, t2) \<longrightarrow> mCurrState t2 = UPDATE_DR)
   \<and> (writeReg M ir wdata len t = returns t3 \<longrightarrow> mCurrState t3 = UPDATE_DR)
   \<and> (readReg M ir len t = returns (reg', t4) \<longrightarrow> mCurrState t4 = UPDATE_DR)"
  using Tap_reset_exit [of M t] accessReg_exit [of M ir wdata len t] accessReg_exit [of M ir 0 len t]
  by (auto simp: writeReg_def readReg_def returns_def andThen_returns_iff)

theorem tap_exit_states_witness:
  "Tap_reset (scriptedDut []) tapFresh = returns (True, tapAfterReset)
   \<and> mCurrState tapAfterReset = RUN_TEST_IDLE
   \<and> accessReg (scriptedDut []) IDCODE 0 32 tapAfterReset = returns (0, tapAfterIdcode)
   \<and> writeReg (scriptedDut []) IDCODE 0 32 tapAfterReset = returns tapAfterIdcode
   \<and> readReg (scriptedDut []) IDCODE 32 tapAfterReset = returns (0, tapAfterIdcode)
   \<and> mCurrState tapAfterIdcode = UPDATE_DR"
proof -
  have w: "writeReg (scriptedDut []) IDCODE 0 32 tapAfterReset = returns tapAfterIdcode"
    by (simp add: writeReg_def idcode_run outcome_defs)
  have r: "readReg (scriptedDut []) IDCODE 32 tapAfterReset = returns (0, tapAfterIdcode)"
    by (simp add: readReg_def idcode_run)
  from tap_exit_states [of "scriptedDut []" tapFresh tapAfterReset] reset_run
  have a: "mCurrState tapAfterReset = RUN_TEST_IDLE"
    by blast
  from tap_exit_states [of "scriptedDut []" tapAfterReset _ IDCODE 0 32 0 tapAfterIdcode
                           tapAfterIdcode 0 tapAfterIdcode] idcode_run w r
  have b: "mCurrState tapAfterIdcode = UPDATE_DR"
    by blast
  from reset_run idcode_run w r a b show ?thesis by blast
qed

subsection \<open>Dwelling in Run-Test/Idle\<close>

lemma gotoState_there: "mCurrState t = s \<Longrightarrow> gotoState M s t = returns (get_tdo M (mMcu t), t)"
  by (simp add: gotoState_def gotoState_loop.simps returns_def)

text \<open>Once the TAP is in Run-Test/Idle, the remaining iterations of the dwell loop do nothing.\<close>

lemma rtiDwell_there:
  "mCurrState t = RUN_TEST_IDLE \<Longrightarrow> rtiDwell M i t = returns t"
proof (induction "unat (mRtiCount t) - unat i" arbitrary: i)
  case 0
  then have "\<not> i < mRtiCount t" by (simp add: word_less_nat_alt)
  then show ?case by (simp add: rtiDwell.simps returns_def)
next
  case (Suc k)
  then have lt: "i < mRtiCount t" by (simp add: word_less_nat_alt)
  then have "i \<noteq> - 1" by (metis word_order.extremum_strict)
  then have "unat (i + 1) = unat i + 1"
    by (metis add.commute unatSuc Suc_eq_plus1 add_eq_0_iff2)
  with Suc have "k = unat (mRtiCount t) - unat (i + 1)" by simp
  from Suc.hyps(1) [OF this Suc.prems] lt Suc.prems show ?case
    by (subst rtiDwell.simps) (simp add: gotoState_there returns_def)
qed

text \<open>So for every count above the loop index the loop is one \<open>gotoState (RUN_TEST_IDLE)\<close>.\<close>

lemma rtiDwell_once:
  assumes "i < mRtiCount t"
  shows "rtiDwell M i t = andThen (gotoState M RUN_TEST_IDLE t) (\<lambda>(b, t'). returns t')"
proof (cases "gotoState M RUN_TEST_IDLE t")
  case None
  then show ?thesis using assms by (subst rtiDwell.simps) (simp add: andThen_def)
next
  case (Some r)
  show ?thesis
  proof (cases r)
    case (Inl e)
    with Some assms show ?thesis by (subst rtiDwell.simps) (simp add: andThen_def)
  next
    case (Inr p)
    obtain b t' where p: "p = (b, t')" by (cases p)
    from Some Inr p have g: "gotoState M RUN_TEST_IDLE t = Some (Inr (b, t'))" by simp
    then have "mCurrState t' = RUN_TEST_IDLE" by (rule gotoState_exit)
    then have "rtiDwell M (i + 1) t' = returns t'" by (rule rtiDwell_there)
    with g assms show ?thesis by (subst rtiDwell.simps) (simp add: andThen_def returns_def)
  qed
qed

lemma bypass_run:
  "accessReg (scriptedDut []) BYPASS0 0 32 (rtiCount 3 tapAfterReset) = returns (0, tapIdle3)"
  by code_simp

text \<open>
  C3. With the idle-cycle count set to 3 and the TAP in Update-DR after an access of IR 0,
  the dwell loop of the next access of IR 0 is a single TCK cycle (40 ns on the 20 ns
  clock, where three cycles are 120 ns): it equals one \<open>advanceState\<close> with TMS low, and
  the whole access ends at the same tick as with the count set to 1.
\<close>

theorem rtiDwell_single_cycle:
  "mRtiCount tapIdle3 = 3 \<and> mLastIr tapIdle3 = BYPASS0 \<and> mCurrState tapIdle3 = UPDATE_DR
   \<and> 2 * mTckHalfPeriodTicks (mMcu tapIdle3) = 40
   \<and> map_option mCurrState (resultOf (rtiDwell (scriptedDut []) 0 tapIdle3)) = Some RUN_TEST_IDLE
   \<and> map_option (mTickCount \<circ> mMcu) (resultOf (rtiDwell (scriptedDut []) 0 tapIdle3))
       = Some (mTickCount (mMcu tapIdle3) + 40)
   \<and> resultOf (rtiDwell (scriptedDut []) 0 tapIdle3)
       = map_option snd (resultOf (advanceState (scriptedDut []) False False tapIdle3))
   \<and> map_option (mTickCount \<circ> mMcu \<circ> snd) (resultOf (accessReg (scriptedDut []) BYPASS0 0 32 tapIdle3))
       = map_option (mTickCount \<circ> mMcu \<circ> snd)
           (resultOf (accessReg (scriptedDut []) BYPASS0 0 32 (rtiCount 1 tapIdle3)))"
  by code_simp

subsection \<open>dmiRead\<close>

text \<open>What the polling loop has done when it returns: its last scan did not answer RETRY.\<close>

lemma dmiRead_poll_final:
  assumes "dmiRead_poll M j = Some y"
  shows "\<forall>reg j'. y = Inr (reg, j') \<longrightarrow> reg AND 3 \<noteq> RES_RETRY \<and>
     (\<exists>jl. readReg M DMIACCESS (mDmiWidth jl) (mTap jl) = Some (Inr (reg, mTap j'))
           \<and> j' = jl \<lparr> mTap := mTap j' \<rparr>)"
  using assms
  by (rule dmiRead_poll.raw_induct [rotated 1,
        where P = "\<lambda>M j y. \<forall>reg j'. y = Inr (reg, j') \<longrightarrow> reg AND 3 \<noteq> RES_RETRY \<and>
     (\<exists>jl. readReg M DMIACCESS (mDmiWidth jl) (mTap jl) = Some (Inr (reg, mTap j'))
           \<and> j' = jl \<lparr> mTap := mTap j' \<rparr>)"])
   (auto split: if_splits option.splits sum.splits prod.splits)

text \<open>The two ways a scan that returned is followed up.\<close>

lemma dmiRead_poll_retry:
  "readReg M DMIACCESS (mDmiWidth j) (mTap j) = returns (reg, t) \<Longrightarrow> reg AND 0x3 = RES_RETRY \<Longrightarrow>
   dmiRead_poll M j =
     andThen (writeDtmcs M 0x10000 (j \<lparr> mTap := t, cerr := cerr j @ [ReadRetryRequested] \<rparr>))
       (dmiRead_poll M)"
  by (subst dmiRead_poll.simps) (simp add: outcome_defs split: option.splits sum.splits)

lemma dmiRead_poll_last:
  "readReg M DMIACCESS (mDmiWidth j) (mTap j) = returns (reg, t) \<Longrightarrow> reg AND 0x3 \<noteq> RES_RETRY \<Longrightarrow>
   dmiRead_poll M j = returns (reg, j \<lparr> mTap := t \<rparr>)"
  by (subst dmiRead_poll.simps) (simp add: outcome_defs)

text \<open>The DMI reset is a 32-bit write of \<open>dtmcs\<close> (instruction 0x10) with bit 16 alone.\<close>

lemma writeDtmcs_dmireset:
  "writeDtmcs M 0x10000 j =
     andThen (writeReg M 0x10 (push_bit 16 1) 32 (mTap j)) (\<lambda>t'. returns (j \<lparr> mTap := t' \<rparr>))"
  by (simp add: writeDtmcs_def DTMCS_def)

lemma data_field_bits:
  "n < 32 \<Longrightarrow> bit (ucast (drop_bit 2 r AND 0xffffffff) :: 32 word) n = bit r (n + 2)"
  for r :: "64 word"
proof -
  assume n: "n < 32"
  have m: "(0xffffffff :: 64 word) = mask 32" by (simp add: mask_eq_exp_minus_1)
  show ?thesis unfolding m using n by (simp add: bit_simps)
qed

text \<open>
  The whole of \<open>dmiRead\<close>: the second loop of the source is never entered, and after the
  polling loop nothing can fail any more.
\<close>

lemma dmiRead_unfolded:
  "dmiRead M address j =
     andThen (writeReg M DMIACCESS (OP_READ OR push_bit 34 (address AND mDmiAddrMask j))
                (mDmiWidth j) (mTap j)) (\<lambda>t0.
     andThen (dmiRead_poll M (j \<lparr> mTap := t0 \<rparr>)) (\<lambda>(regf, jf).
       returns (ucast (drop_bit 2 regf AND 0xffffffff),
                if regf AND 0x3 = RES_OK then jf
                else jf \<lparr> cerr := cerr jf @ [UnknownReadResult (regf AND 0x3)] \<rparr>)))"
proof -
  let ?w = "writeReg M DMIACCESS (OP_READ OR push_bit 34 (address AND mDmiAddrMask j))
                (mDmiWidth j) (mTap j)"
  show ?thesis
  proof (cases ?w)
    case None
    then show ?thesis by (simp add: dmiRead_def Let_def andThen_def)
  next
    case (Some y)
    show ?thesis
    proof (cases y)
      case (Inl e)
      with Some show ?thesis by (simp add: dmiRead_def Let_def andThen_def)
    next
      case (Inr t0)
      show ?thesis
      proof (cases "dmiRead_poll M (j \<lparr> mTap := t0 \<rparr>)")
        case None
        with Some Inr show ?thesis by (simp add: dmiRead_def Let_def andThen_def)
      next
        case poll: (Some z)
        show ?thesis
        proof (cases z)
          case (Inl e)
          with Some Inr poll show ?thesis by (simp add: dmiRead_def Let_def andThen_def)
        next
          case p: (Inr p)
          obtain reg j1 where pr: "p = (reg, j1)" by (cases p)
          from dmiRead_poll_final [OF poll] p pr have "reg AND 3 \<noteq> RES_RETRY" by simp
          with Some Inr poll p pr show ?thesis by (simp add: dmiRead_def Let_def andThen_def)
        qed
      qed
    qed
  qed
qed

text \<open>
  C6. In the polling loop of \<open>dmiRead\<close>, a scan of \<open>dmiaccess\<close> whose result field is RETRY
  is followed by a DMI reset and another poll; the DMI reset is the write of bit 16 alone to
  \<open>dtmcs\<close>, 32 bits under instruction 0x10. A scan whose result field is not RETRY ends the
  loop. \<open>dmiRead\<close> is the request, the polling loop and then a return that cannot fail: the
  value is bits 33:2 of the last scan, and a result field other than OK adds a diagnostic
  to \<open>cerr\<close> and nothing else. So when the request returns and the first scan answers anything
  but RETRY, \<open>dmiRead\<close> returns that scan's data. And whenever \<open>dmiRead\<close> returns, its value is
  bits 33:2 of a scan of \<open>dmiaccess\<close> whose result field is not RETRY, the scan that left the
  TAP as it is on return. That the request and the scans themselves return is
  \<open>dmiRead_first_scan\<close>, and what the DMI reset drives on TMS and TDI is
  \<open>dmiRead_retry_pins\<close>, both in the last subsections.
\<close>

theorem dmiRead_returns_final_scan:
  fixes M :: "'d Vcore_v_mcu"
  shows
   "(readReg M DMIACCESS (mDmiWidth j) (mTap j) = returns (reg, t) \<and> reg AND 0x3 = RES_RETRY \<longrightarrow>
      dmiRead_poll M j =
        andThen (writeDtmcs M 0x10000 (j \<lparr> mTap := t, cerr := cerr j @ [ReadRetryRequested] \<rparr>))
          (dmiRead_poll M))
   \<and> writeDtmcs M 0x10000 jw =
        andThen (writeReg M 0x10 (push_bit 16 1) 32 (mTap jw)) (\<lambda>t'. returns (jw \<lparr> mTap := t' \<rparr>))
   \<and> (readReg M DMIACCESS (mDmiWidth j) (mTap j) = returns (reg, t) \<and> reg AND 0x3 \<noteq> RES_RETRY \<longrightarrow>
        dmiRead_poll M j = returns (reg, j \<lparr> mTap := t \<rparr>))
   \<and> dmiRead M address j =
        andThen (writeReg M DMIACCESS (OP_READ OR push_bit 34 (address AND mDmiAddrMask j))
                   (mDmiWidth j) (mTap j)) (\<lambda>t0.
        andThen (dmiRead_poll M (j \<lparr> mTap := t0 \<rparr>)) (\<lambda>(regf, jf).
          returns (ucast (drop_bit 2 regf AND 0xffffffff),
                   if regf AND 0x3 = RES_OK then jf
                   else jf \<lparr> cerr := cerr jf @ [UnknownReadResult (regf AND 0x3)] \<rparr>)))
   \<and> (writeReg M DMIACCESS (OP_READ OR push_bit 34 (address AND mDmiAddrMask j))
          (mDmiWidth j) (mTap j) = returns t0
        \<and> readReg M DMIACCESS (mDmiWidth j) t0 = returns (reg, t) \<and> reg AND 0x3 \<noteq> RES_RETRY \<longrightarrow>
        dmiRead M address j =
          returns (ucast (drop_bit 2 reg AND 0xffffffff),
                   if reg AND 0x3 = RES_OK then j \<lparr> mTap := t \<rparr>
                   else j \<lparr> mTap := t, cerr := cerr j @ [UnknownReadResult (reg AND 0x3)] \<rparr>))
   \<and> (dmiRead M address j = returns (v, j') \<longrightarrow>
        (\<exists>regl (jl :: 'd DtmJtag). readReg M DMIACCESS (mDmiWidth jl) (mTap jl) = returns (regl, mTap j')
           \<and> regl AND 0x3 \<noteq> RES_RETRY
           \<and> v = ucast (drop_bit 2 regl AND 0xffffffff)
           \<and> (\<forall>n < 32. bit v n = bit regl (n + 2))
           \<and> cerr j' = (if regl AND 0x3 = RES_OK then cerr jl
                         else cerr jl @ [UnknownReadResult (regl AND 0x3)])))"
proof (intro conjI impI)
  assume "readReg M DMIACCESS (mDmiWidth j) (mTap j) = returns (reg, t) \<and> reg AND 0x3 = RES_RETRY"
  then show "dmiRead_poll M j =
        andThen (writeDtmcs M 0x10000 (j \<lparr> mTap := t, cerr := cerr j @ [ReadRetryRequested] \<rparr>))
          (dmiRead_poll M)"
    using dmiRead_poll_retry by blast
next
  show "writeDtmcs M 0x10000 jw =
        andThen (writeReg M 0x10 (push_bit 16 1) 32 (mTap jw)) (\<lambda>t'. returns (jw \<lparr> mTap := t' \<rparr>))"
    by (rule writeDtmcs_dmireset)
next
  assume "readReg M DMIACCESS (mDmiWidth j) (mTap j) = returns (reg, t) \<and> reg AND 0x3 \<noteq> RES_RETRY"
  then show "dmiRead_poll M j = returns (reg, j \<lparr> mTap := t \<rparr>)"
    using dmiRead_poll_last by blast
next
  show "dmiRead M address j =
        andThen (writeReg M DMIACCESS (OP_READ OR push_bit 34 (address AND mDmiAddrMask j))
                   (mDmiWidth j) (mTap j)) (\<lambda>t0.
        andThen (dmiRead_poll M (j \<lparr> mTap := t0 \<rparr>)) (\<lambda>(regf, jf).
          returns (ucast (drop_bit 2 regf AND 0xffffffff),
                   if regf AND 0x3 = RES_OK then jf
                   else jf \<lparr> cerr := cerr jf @ [UnknownReadResult (regf AND 0x3)] \<rparr>)))"
    by (rule dmiRead_unfolded)
next
  assume a: "writeReg M DMIACCESS (OP_READ OR push_bit 34 (address AND mDmiAddrMask j))
          (mDmiWidth j) (mTap j) = returns t0
        \<and> readReg M DMIACCESS (mDmiWidth j) t0 = returns (reg, t) \<and> reg AND 0x3 \<noteq> RES_RETRY"
  then have "dmiRead_poll M (j \<lparr> mTap := t0 \<rparr>) = returns (reg, j \<lparr> mTap := t0 \<rparr> \<lparr> mTap := t \<rparr>)"
    by (intro dmiRead_poll_last) simp_all
  with a show "dmiRead M address j =
          returns (ucast (drop_bit 2 reg AND 0xffffffff),
                   if reg AND 0x3 = RES_OK then j \<lparr> mTap := t \<rparr>
                   else j \<lparr> mTap := t, cerr := cerr j @ [UnknownReadResult (reg AND 0x3)] \<rparr>)"
    by (simp only: dmiRead_unfolded [of M address j] andThen_returns) simp
next
  assume r: "dmiRead M address j = returns (v, j')"
  then obtain t1 regl j1 where
      poll: "dmiRead_poll M (j \<lparr> mTap := t1 \<rparr>) = Some (Inr (regl, j1))"
    and nr: "regl AND 0x3 \<noteq> RES_RETRY"
    and v: "v = ucast (drop_bit 2 regl AND 0xffffffff)"
    and j': "j' = (if regl AND 0x3 \<noteq> RES_OK
                   then j1 \<lparr> cerr := cerr j1 @ [UnknownReadResult (regl AND 0x3)] \<rparr> else j1)"
    by (auto simp: dmiRead_def Let_def andThen_returns_iff returns_def split: if_splits)
  from dmiRead_poll_final [OF poll] obtain jl where
      scan: "readReg M DMIACCESS (mDmiWidth jl) (mTap jl) = Some (Inr (regl, mTap j1))"
    and j1: "j1 = jl \<lparr> mTap := mTap j1 \<rparr>"
    by blast
  have tap: "mTap j' = mTap j1" using j' by simp
  have ce: "cerr j1 = cerr jl" by (subst j1) simp
  have bits: "\<forall>n < 32. bit v n = bit regl (n + 2)"
    unfolding v using data_field_bits by blast
  have c: "cerr j' = (if regl AND 0x3 = RES_OK then cerr jl
                         else cerr jl @ [UnknownReadResult (regl AND 0x3)])"
    using j' ce by simp
  from scan tap have scan': "readReg M DMIACCESS (mDmiWidth jl) (mTap jl) = returns (regl, mTap j')"
    by (simp add: returns_def)
  show "\<exists>regl (jl :: 'd DtmJtag). readReg M DMIACCESS (mDmiWidth jl) (mTap jl) = returns (regl, mTap j')
           \<and> regl AND 0x3 \<noteq> RES_RETRY
           \<and> v = ucast (drop_bit 2 regl AND 0xffffffff)
           \<and> (\<forall>n < 32. bit v n = bit regl (n + 2))
           \<and> cerr j' = (if regl AND 0x3 = RES_OK then cerr jl
                         else cerr jl @ [UnknownReadResult (regl AND 0x3)])"
  proof (intro exI conjI)
    show "readReg M DMIACCESS (mDmiWidth jl) (mTap jl) = returns (regl, mTap j')" by (fact scan')
    show "regl AND 0x3 \<noteq> RES_RETRY" by (fact nr)
    show "v = ucast (drop_bit 2 regl AND 0xffffffff)" by (fact v)
    show "\<forall>n < 32. bit v n = bit regl (n + 2)" by (fact bits)
    show "cerr j' = (if regl AND 0x3 = RES_OK then cerr jl
                         else cerr jl @ [UnknownReadResult (regl AND 0x3)])" by (fact c)
  qed
qed

text \<open>
  Runs on the device \<open>dtmDevice\<close>. After \<open>DtmJtag::reset\<close> a read of address 0x11 is
  requested; the first poll comes too early and scans out result 3; the write of \<open>dmireset\<close>
  clears the flag in the device and the second poll scans out the data with result 0. A
  read of address 0x7f is answered at once with result 2.
\<close>

lemma dev_reset_run:
  "DtmJtag_reset dtmDevice devFresh = returns (True, devReady)"
  by code_simp

lemma dev_request_run:
  "writeReg dtmDevice DMIACCESS (OP_READ OR push_bit 34 (0x11 AND mDmiAddrMask devReady))
     (mDmiWidth devReady) (mTap devReady)
   = returns (devAt 8220 0x11 0x4400000001 False False 60 0x4401000E08
                (resetScans @ [(0x11, 0x4400000001)]))"
  by code_simp

lemma dev_busy_scan:
  "readReg dtmDevice DMIACCESS 41
     (devAt 8220 0x11 0x4400000001 False False 60 0x4401000E08 (resetScans @ [(0x11, 0x4400000001)]))
   = returns (0x4401000E0B,
       devAt 10500 0x11 0 False True 3 0x4401000E08
         (resetScans @ [(0x11, 0x4400000001), (0x11, 0)]))"
  by code_simp

lemma dev_dmireset_run:
  "writeReg dtmDevice 0x10 (push_bit 16 1) 32
     (devAt 10500 0x11 0 False True 3 0x4401000E08 (resetScans @ [(0x11, 0x4400000001), (0x11, 0)]))
   = returns (devAt 12420 0x10 0x10000 False False 0 0x4401000E08
       (resetScans @ [(0x11, 0x4400000001), (0x11, 0), (0x10, 0x10000)]))"
  by code_simp

lemma dev_final_scan:
  "readReg dtmDevice DMIACCESS 41
     (devAt 12420 0x10 0x10000 False False 0 0x4401000E08
       (resetScans @ [(0x11, 0x4400000001), (0x11, 0), (0x10, 0x10000)]))
   = returns (0x4401000E08,
       devAt 14700 0x11 0 False False 0 0x4401000E08
         (resetScans @ [(0x11, 0x4400000001), (0x11, 0), (0x10, 0x10000), (0x11, 0)]))"
  by code_simp

lemma dev_request_failing:
  "writeReg dtmDevice DMIACCESS (OP_READ OR push_bit 34 (0x7f AND mDmiAddrMask devReady))
     (mDmiWidth devReady) (mTap devReady)
   = returns (devAt 8220 0x11 0x1FC00000001 False False 0 0x1FF7AB6FBBE
                (resetScans @ [(0x11, 0x1FC00000001)]))"
  by code_simp

lemma dev_failed_scan:
  "readReg dtmDevice DMIACCESS (mDmiWidth devReady)
     (devAt 8220 0x11 0x1FC00000001 False False 0 0x1FF7AB6FBBE (resetScans @ [(0x11, 0x1FC00000001)]))
   = returns (0x1FF7AB6FBBE,
       devAt 10500 0x11 0 True False 0 0x1FF7AB6FBBE
         (resetScans @ [(0x11, 0x1FC00000001), (0x11, 0)]))"
  by code_simp

lemma dev_words:
  "(0x4401000E0B :: 64 word) AND 0x3 = RES_RETRY"
  "(0x4401000E08 :: 64 word) AND 0x3 = RES_OK"
  "(0x4401000E08 :: 64 word) AND 0x3 \<noteq> RES_RETRY"
  "(0x1FF7AB6FBBE :: 64 word) AND 0x3 = 2"
  "(0x1FF7AB6FBBE :: 64 word) AND 0x3 \<noteq> RES_RETRY"
  "(0x1FF7AB6FBBE :: 64 word) AND 0x3 \<noteq> RES_OK"
  "(ucast (drop_bit 2 (0x4401000E08 :: 64 word) AND 0xffffffff) :: 32 word) = 0x00400382"
  "(ucast (drop_bit 2 (0x1FF7AB6FBBE :: 64 word) AND 0xffffffff) :: 32 word) = 0xdeadbeef"
  by (simp_all add: RES_RETRY_def RES_OK_def)

theorem dmiRead_returns_final_scan_witness:
  "readReg dtmDevice DMIACCESS 41
     (devAt 8220 0x11 0x4400000001 False False 60 0x4401000E08 (resetScans @ [(0x11, 0x4400000001)]))
     = returns (0x4401000E0B,
         devAt 10500 0x11 0 False True 3 0x4401000E08
           (resetScans @ [(0x11, 0x4400000001), (0x11, 0)]))
   \<and> (0x4401000E0B :: 64 word) AND 0x3 = RES_RETRY
   \<and> dmiRead dtmDevice 0x11 devReady
       = returns (0x00400382,
           devJ (devAt 14700 0x11 0 False False 0 0x4401000E08
                  (resetScans @ [(0x11, 0x4400000001), (0x11, 0), (0x10, 0x10000), (0x11, 0)]))
                [ReadRetryRequested])
   \<and> dmiRead dtmDevice 0x7f devReady
       = returns (0xdeadbeef,
           devJ (devAt 10500 0x11 0 True False 0 0x1FF7AB6FBBE
                  (resetScans @ [(0x11, 0x1FC00000001), (0x11, 0)]))
                [UnknownReadResult 2])
   \<and> (\<exists>regl (jl :: dtmDev DtmJtag).
         readReg dtmDevice DMIACCESS (mDmiWidth jl) (mTap jl)
           = returns (regl, devAt 14700 0x11 0 False False 0 0x4401000E08
                  (resetScans @ [(0x11, 0x4400000001), (0x11, 0), (0x10, 0x10000), (0x11, 0)]))
         \<and> regl AND 0x3 \<noteq> RES_RETRY
         \<and> (0x00400382 :: 32 word) = ucast (drop_bit 2 regl AND 0xffffffff))"
proof -
  let ?M = dtmDevice
  let ?tReq = "devAt 8220 0x11 0x4400000001 False False 60 0x4401000E08
                 (resetScans @ [(0x11, 0x4400000001)])"
  let ?t1 = "devAt 10500 0x11 0 False True 3 0x4401000E08
               (resetScans @ [(0x11, 0x4400000001), (0x11, 0)])"
  let ?tRst = "devAt 12420 0x10 0x10000 False False 0 0x4401000E08
                 (resetScans @ [(0x11, 0x4400000001), (0x11, 0), (0x10, 0x10000)])"
  let ?t2 = "devAt 14700 0x11 0 False False 0 0x4401000E08
               (resetScans @ [(0x11, 0x4400000001), (0x11, 0), (0x10, 0x10000), (0x11, 0)])"
  let ?tReqF = "devAt 8220 0x11 0x1FC00000001 False False 0 0x1FF7AB6FBBE
                  (resetScans @ [(0x11, 0x1FC00000001)])"
  let ?tF = "devAt 10500 0x11 0 True False 0 0x1FF7AB6FBBE
               (resetScans @ [(0x11, 0x1FC00000001), (0x11, 0)])"
  let ?jP = "devJ ?tReq []"
  let ?jP1 = "devJ ?t1 [ReadRetryRequested]"
  let ?jP2 = "devJ ?tRst [ReadRetryRequested]"
  note T = dmiRead_returns_final_scan [where M = ?M]
  have w: "mDmiWidth (devJ t ds) = 41" "mTap (devJ t ds) = t" "cerr (devJ t ds) = ds"
    "(devJ t ds) \<lparr> mTap := t' \<rparr> = devJ t' ds"
    "(devJ t ds) \<lparr> mTap := t', cerr := ds' \<rparr> = devJ t' ds'"
    "(devJ t ds) \<lparr> cerr := ds' \<rparr> = devJ t ds'"
    for t t' :: "dtmDev Tap" and ds ds'
    by (simp_all add: devJ_def)
  have ready: "devReady \<lparr> mTap := t' \<rparr> = devJ t' []"
    "devReady \<lparr> mTap := t', cerr := ds' \<rparr> = devJ t' ds'" "cerr devReady = []" for t' ds'
    by (simp_all add: devReady_def devJ_def)
  have "dmiRead ?M 0x7f devReady =
          returns (ucast (drop_bit 2 (0x1FF7AB6FBBE :: 64 word) AND 0xffffffff),
                   if (0x1FF7AB6FBBE :: 64 word) AND 0x3 = RES_OK then devReady \<lparr> mTap := ?tF \<rparr>
                   else devReady \<lparr> mTap := ?tF,
                          cerr := cerr devReady @ [UnknownReadResult (0x1FF7AB6FBBE AND 0x3)] \<rparr>)"
    using dev_request_failing dev_failed_scan dev_words(5)
    by (intro T [where address = "0x7f" and j = devReady and ?t0.0 = ?tReqF
               and reg = "0x1FF7AB6FBBE" and t = ?tF, THEN conjunct2, THEN conjunct2,
               THEN conjunct2, THEN conjunct2, THEN conjunct1, THEN mp] conjI)
  then have failing:
    "dmiRead ?M 0x7f devReady = returns (0xdeadbeef, devJ ?tF [UnknownReadResult 2])"
    by (simp add: dev_words ready w RES_OK_def)
  have "readReg ?M DMIACCESS (mDmiWidth ?jP) (mTap ?jP) = returns (0x4401000E0B, ?t1)"
    by (simp only: w dev_busy_scan)
  with dev_words(1) have "dmiRead_poll ?M ?jP =
      andThen (writeDtmcs ?M 0x10000 (?jP \<lparr> mTap := ?t1, cerr := cerr ?jP @ [ReadRetryRequested] \<rparr>))
        (dmiRead_poll ?M)"
    by (intro T [where j = ?jP and reg = "0x4401000E0B" and t = ?t1, THEN conjunct1, THEN mp] conjI)
  then have poll1: "dmiRead_poll ?M ?jP = andThen (writeDtmcs ?M 0x10000 ?jP1) (dmiRead_poll ?M)"
    by (simp only: w append_Nil)
  have "writeDtmcs ?M 0x10000 ?jP1 =
      andThen (writeReg ?M 0x10 (push_bit 16 1) 32 (mTap ?jP1)) (\<lambda>t'. returns (?jP1 \<lparr> mTap := t' \<rparr>))"
    by (rule T [where jw = ?jP1, THEN conjunct2, THEN conjunct1])
  then have rst: "writeDtmcs ?M 0x10000 ?jP1 = returns ?jP2"
    by (simp only: w dev_dmireset_run andThen_returns)
  have "readReg ?M DMIACCESS (mDmiWidth ?jP2) (mTap ?jP2) = returns (0x4401000E08, ?t2)"
    by (simp only: w dev_final_scan)
  with dev_words(3) have "dmiRead_poll ?M ?jP2 = returns (0x4401000E08, ?jP2 \<lparr> mTap := ?t2 \<rparr>)"
    by (intro T [where j = ?jP2 and reg = "0x4401000E08" and t = ?t2,
                 THEN conjunct2, THEN conjunct2, THEN conjunct1, THEN mp] conjI)
  then have poll2: "dmiRead_poll ?M ?jP2 = returns (0x4401000E08, devJ ?t2 [ReadRetryRequested])"
    by (simp only: w)
  have poll: "dmiRead_poll ?M ?jP = returns (0x4401000E08, devJ ?t2 [ReadRetryRequested])"
    by (simp only: poll1 rst andThen_returns poll2)
  have "dmiRead ?M 0x11 devReady =
      andThen (writeReg ?M DMIACCESS (OP_READ OR push_bit 34 (0x11 AND mDmiAddrMask devReady))
                   (mDmiWidth devReady) (mTap devReady)) (\<lambda>t0.
        andThen (dmiRead_poll ?M (devReady \<lparr> mTap := t0 \<rparr>)) (\<lambda>(regf, jf).
          returns (ucast (drop_bit 2 regf AND 0xffffffff),
                   if regf AND 0x3 = RES_OK then jf
                   else jf \<lparr> cerr := cerr jf @ [UnknownReadResult (regf AND 0x3)] \<rparr>)))"
    by (rule T [where address = "0x11" and j = devReady, THEN conjunct2, THEN conjunct2,
                THEN conjunct2, THEN conjunct1])
  then have slow: "dmiRead ?M 0x11 devReady = returns (0x00400382, devJ ?t2 [ReadRetryRequested])"
    unfolding dev_request_run andThen_returns ready poll
    by (simp add: dev_words w RES_OK_def)
  have "\<exists>regl (jl :: dtmDev DtmJtag).
         readReg ?M DMIACCESS (mDmiWidth jl) (mTap jl)
           = returns (regl, mTap (devJ ?t2 [ReadRetryRequested]))
         \<and> regl AND 0x3 \<noteq> RES_RETRY
         \<and> (0x00400382 :: 32 word) = ucast (drop_bit 2 regl AND 0xffffffff)
         \<and> (\<forall>n < 32. bit (0x00400382 :: 32 word) n = bit regl (n + 2))
         \<and> cerr (devJ ?t2 [ReadRetryRequested]) = (if regl AND 0x3 = RES_OK then cerr jl
                         else cerr jl @ [UnknownReadResult (regl AND 0x3)])"
    using slow
    by (rule T [where address = "0x11" and j = devReady and v = "0x00400382"
            and j' = "devJ ?t2 [ReadRetryRequested]", THEN conjunct2, THEN conjunct2,
            THEN conjunct2, THEN conjunct2, THEN conjunct2, THEN mp])
  then have last: "\<exists>regl (jl :: dtmDev DtmJtag).
         readReg ?M DMIACCESS (mDmiWidth jl) (mTap jl) = returns (regl, ?t2)
         \<and> regl AND 0x3 \<noteq> RES_RETRY
         \<and> (0x00400382 :: 32 word) = ucast (drop_bit 2 regl AND 0xffffffff)"
    unfolding w by blast
  from dev_busy_scan dev_words(1) slow failing last show ?thesis by blast
qed

text \<open>
  The device tells the value written to \<open>dtmcs\<close> apart: had the write after the first poll
  carried 0 instead of bit 16, the next poll would have scanned out result 3 again.
\<close>

lemma dev_no_dmireset:
  "andThen (writeReg dtmDevice 0x10 0 32
     (devAt 10500 0x11 0 False True 3 0x4401000E08 (resetScans @ [(0x11, 0x4400000001), (0x11, 0)])))
     (readReg dtmDevice DMIACCESS 41)
   = returns (0x4401000E0B,
       devAt 14700 0x11 0 False True 0 0x4401000E08
         (resetScans @ [(0x11, 0x4400000001), (0x11, 0), (0x10, 0), (0x11, 0)]))"
  by code_simp

subsection \<open>The TAP operations return\<close>

text \<open>
  The loops of \<open>Tap\<close> wait for clock edges, so the properties above speak of calls that
  return. Under the clock discipline, and as long as the tick counter does not wrap, they
  all do: a rising and a falling edge of TCK each arrive within four clock half periods, the
  routing table reaches every state within eight steps, and the shift loops are counted.
\<close>

lemma word_mod2_even: "(w mod 2 = 0) \<longleftrightarrow> even (unat w)" for w :: "64 word"
proof -
  have "unat (w mod 2) = unat w mod 2" by (simp add: unat_mod)
  moreover have "(w mod 2 = 0) \<longleftrightarrow> unat (w mod 2) = 0" by (simp add: unat_eq_zero)
  ultimately show ?thesis by presburger
qed

lemma parity_phase:
  "(odd (q div 2) \<and> even (Suc q div 2)) \<longleftrightarrow> q mod 4 = 3"
  "(even (q div 2) \<and> odd (Suc q div 2)) \<longleftrightarrow> q mod 4 = 1"
  by presburger+

lemma nat_div_step:
  fixes T h :: nat
  assumes "0 < h"
  shows "(T + h) div h = Suc (T div h)" and "(T + h) div (2 * h) = Suc (T div h) div 2"
proof -
  from assms have "h \<noteq> 0" by simp
  then have "(T + h) div h = T div h + 1" by (rule div_add_self2)
  then show a: "(T + h) div h = Suc (T div h)" by simp
  have "(T + h) div (2 * h) = (T + h) div h div 2"
    by (metis div_mult2_eq mult.commute)
  with a show "(T + h) div (2 * h) = Suc (T div h) div 2" by simp
qed

text \<open>One half period under the clock discipline: no error, the discipline is kept, and TCK
  rises exactly when leaving phase 3 and falls exactly when leaving phase 1.\<close>

lemma half_step:
  assumes ok: "clock_ok v" and b: "within_budget (Suc n) v"
  shows "\<exists>v'. advanceHalfPeriod (VSim_eval M v) = Inr v'
          \<and> clock_ok v' \<and> within_budget n v'
          \<and> mClkHalfPeriodTicks v' = mClkHalfPeriodTicks v
          \<and> unat (mTickCount v') = unat (mTickCount v) + unat (mClkHalfPeriodTicks v)
          \<and> mTckPosedge v' = (phase v = 3) \<and> mTckNegedge v' = (phase v = 1)
          \<and> phase v' = Suc (phase v) mod 4
          \<and> jtag_tms_i v' = jtag_tms_i v \<and> jtag_tdi_i v' = jtag_tdi_i v"
proof -
  let ?h = "mClkHalfPeriodTicks v" and ?T = "mTickCount v"
  from ok have h0: "0 < unat ?h" and tck: "unat (mTckHalfPeriodTicks v) = 2 * unat ?h"
    and pin: "jtag_tck_i v = even (unat ?T div unat ?h div 2)"
    by (simp_all add: clock_ok_def)
  from b have nov: "unat ?T + unat ?h < 2 ^ 64"
    by (simp add: within_budget_def)
  then have sum: "unat (?T + ?h) = unat ?T + unat ?h"
    by (simp add: unat_add_lem [THEN iffD1])
  have hz: "?h \<noteq> 0" "mTckHalfPeriodTicks v \<noteq> 0"
    using h0 tck by (auto simp: unat_eq_zero [symmetric] simp del: unat_eq_zero)
  have q: "(unat ?T + unat ?h) div unat ?h = Suc (unat ?T div unat ?h)"
    and d2: "(unat ?T + unat ?h) div (2 * unat ?h) = Suc (unat ?T div unat ?h) div 2"
    using nat_div_step [OF h0] by blast+
  have newpin: "((?T + ?h) div mTckHalfPeriodTicks v mod 2 = 0)
                 \<longleftrightarrow> even (Suc (unat ?T div unat ?h) div 2)"
    by (simp add: word_mod2_even unat_div sum tck d2)
  have newpin1: "((?T + ?h) div mTckHalfPeriodTicks v mod 2 = 1)
                 \<longleftrightarrow> odd (Suc (unat ?T div unat ?h) div 2)"
    using newpin by (metis not_mod_2_eq_0_eq_1)
  show ?thesis
    using h0 tck pin hz b parity_phase [of "unat ?T div unat ?h"]
    by (simp add: advanceHalfPeriod_def VSim_eval_def Let_def clock_ok_def within_budget_def
                  phase_def sum q newpin newpin1 mod_Suc)
qed

lemma VSim_set_ok:
  "clock_ok (set_tdi a (set_tms b v)) = clock_ok v"
  "within_budget n (set_tdi a (set_tms b v)) = within_budget n v"
  "phase (set_tdi a (set_tms b v)) = phase v"
  by (simp_all add: clock_ok_def within_budget_def phase_def set_tdi_def set_tms_def)

lemma within_budget_mono: "within_budget n v \<Longrightarrow> m \<le> n \<Longrightarrow> within_budget m v"
proof -
  assume a: "within_budget n v" and b: "m \<le> n"
  have "m * unat (mClkHalfPeriodTicks v) \<le> n * unat (mClkHalfPeriodTicks v)"
    using b by (rule mult_le_mono1)
  with a show ?thesis unfolding within_budget_def by linarith
qed

text \<open>
  The waiting loops, counted in half periods: with \<open>k\<close> half periods to go before phase 3
  the rising edge arrives after \<open>k + 1\<close> of them, and likewise the falling edge after
  phase 1.
\<close>

lemma toPosedge_wait:
  assumes "clock_ok v" "within_budget (Suc k + n) v" "(phase v + k) mod 4 = 3" "k \<le> 3" "\<not> mTckPosedge v"
  shows "\<exists>v'. toPosedge M v = returns v' \<and> clock_ok v' \<and> within_budget n v'
           \<and> mClkHalfPeriodTicks v' = mClkHalfPeriodTicks v \<and> mTckPosedge v' \<and> phase v' = 0
           \<and> jtag_tms_i v' = jtag_tms_i v \<and> jtag_tdi_i v' = jtag_tdi_i v"
  using assms
proof (induction k arbitrary: v)
  case 0
  then have ph: "phase v = 3" by (simp add: phase_def)
  from 0 have "within_budget (Suc n) v" by simp
  from half_step [OF "0.prems"(1) this, of M] obtain v' where
    s: "advanceHalfPeriod (VSim_eval M v) = Inr v'" and p: "clock_ok v'" "within_budget n v'"
       "mClkHalfPeriodTicks v' = mClkHalfPeriodTicks v" "mTckPosedge v' = (phase v = 3)"
       "phase v' = Suc (phase v) mod 4" "jtag_tms_i v' = jtag_tms_i v" "jtag_tdi_i v' = jtag_tdi_i v"
    by blast
  have "toPosedge M v = toPosedge M v'"
    using "0.prems"(5) s by (subst toPosedge.simps) (simp add: tapPosedge_def)
  also have "\<dots> = returns v'"
    using p ph by (subst toPosedge.simps) (simp add: tapPosedge_def returns_def)
  finally show ?case using p ph by (intro exI [of _ v']) simp
next
  case (Suc k)
  from Suc.prems(3,4) have ph: "phase v \<noteq> 3" by presburger
  from Suc.prems have "within_budget (Suc (Suc k + n)) v" by simp
  from half_step [OF Suc.prems(1) this, of M] obtain v' where
    s: "advanceHalfPeriod (VSim_eval M v) = Inr v'" and p: "clock_ok v'" "within_budget (Suc k + n) v'"
       "mClkHalfPeriodTicks v' = mClkHalfPeriodTicks v" "mTckPosedge v' = (phase v = 3)"
       "phase v' = Suc (phase v) mod 4" "jtag_tms_i v' = jtag_tms_i v" "jtag_tdi_i v' = jtag_tdi_i v"
    by blast
  have step: "toPosedge M v = toPosedge M v'"
    using Suc.prems(5) s by (subst toPosedge.simps) (simp add: tapPosedge_def)
  have "(phase v' + k) mod 4 = 3"
    using Suc.prems(3) p(5) by (simp add: mod_Suc_eq)  presburger
  from Suc.IH [OF p(1) p(2) this] Suc.prems(4) p(4) ph obtain v'' where
    "toPosedge M v' = returns v''" "clock_ok v''" "within_budget n v''"
    "mClkHalfPeriodTicks v'' = mClkHalfPeriodTicks v'" "mTckPosedge v''" "phase v'' = 0"
    "jtag_tms_i v'' = jtag_tms_i v'" "jtag_tdi_i v'' = jtag_tdi_i v'"
    by auto
  with step p show ?case by (intro exI [of _ v'']) simp
qed

lemma toNegedge_wait:
  assumes "clock_ok v" "within_budget (Suc k + n) v" "(phase v + k) mod 4 = 1" "k \<le> 3" "\<not> mTckNegedge v"
  shows "\<exists>v'. toNegedge M v = returns v' \<and> clock_ok v' \<and> within_budget n v'
           \<and> mClkHalfPeriodTicks v' = mClkHalfPeriodTicks v \<and> mTckNegedge v' \<and> phase v' = 2
           \<and> jtag_tms_i v' = jtag_tms_i v \<and> jtag_tdi_i v' = jtag_tdi_i v"
  using assms
proof (induction k arbitrary: v)
  case 0
  then have ph: "phase v = 1" by (simp add: phase_def)
  from 0 have "within_budget (Suc n) v" by simp
  from half_step [OF "0.prems"(1) this, of M] obtain v' where
    s: "advanceHalfPeriod (VSim_eval M v) = Inr v'" and p: "clock_ok v'" "within_budget n v'"
       "mClkHalfPeriodTicks v' = mClkHalfPeriodTicks v" "mTckNegedge v' = (phase v = 1)"
       "phase v' = Suc (phase v) mod 4" "jtag_tms_i v' = jtag_tms_i v" "jtag_tdi_i v' = jtag_tdi_i v"
    by blast
  have "toNegedge M v = toNegedge M v'"
    using "0.prems"(5) s by (subst toNegedge.simps) (simp add: tapNegedge_def)
  also have "\<dots> = returns v'"
    using p ph by (subst toNegedge.simps) (simp add: tapNegedge_def returns_def)
  finally show ?case using p ph by (intro exI [of _ v']) simp
next
  case (Suc k)
  from Suc.prems(3,4) have ph: "phase v \<noteq> 1" by presburger
  from Suc.prems have "within_budget (Suc (Suc k + n)) v" by simp
  from half_step [OF Suc.prems(1) this, of M] obtain v' where
    s: "advanceHalfPeriod (VSim_eval M v) = Inr v'" and p: "clock_ok v'" "within_budget (Suc k + n) v'"
       "mClkHalfPeriodTicks v' = mClkHalfPeriodTicks v" "mTckNegedge v' = (phase v = 1)"
       "phase v' = Suc (phase v) mod 4" "jtag_tms_i v' = jtag_tms_i v" "jtag_tdi_i v' = jtag_tdi_i v"
    by blast
  have step: "toNegedge M v = toNegedge M v'"
    using Suc.prems(5) s by (subst toNegedge.simps) (simp add: tapNegedge_def)
  have "(phase v' + k) mod 4 = 1"
    using Suc.prems(3) p(5) by (simp add: mod_Suc_eq)  presburger
  from Suc.IH [OF p(1) p(2) this] Suc.prems(4) p(4) ph obtain v'' where
    "toNegedge M v' = returns v''" "clock_ok v''" "within_budget n v''"
    "mClkHalfPeriodTicks v'' = mClkHalfPeriodTicks v'" "mTckNegedge v''" "phase v'' = 2"
    "jtag_tms_i v'' = jtag_tms_i v'" "jtag_tdi_i v'' = jtag_tdi_i v'"
    by auto
  with step p show ?case by (intro exI [of _ v'']) simp
qed

lemma phase_lt: "phase v < 4"
  by (simp add: phase_def)

text \<open>So each of the two waiting loops ends within four half periods.\<close>

lemma toPosedge_returns:
  assumes "clock_ok v" "within_budget (4 + n) v"
  shows "\<exists>v'. toPosedge M v = returns v' \<and> clock_ok v' \<and> within_budget n v'
           \<and> mClkHalfPeriodTicks v' = mClkHalfPeriodTicks v
           \<and> jtag_tms_i v' = jtag_tms_i v \<and> jtag_tdi_i v' = jtag_tdi_i v"
proof (cases "mTckPosedge v")
  case True
  then have "toPosedge M v = returns v"
    by (subst toPosedge.simps) (simp add: tapPosedge_def returns_def)
  moreover have "within_budget n v" using assms(2) by (rule within_budget_mono) simp
  ultimately show ?thesis using assms(1) by (intro exI [of _ v]) simp
next
  case False
  define k where "k = 3 - phase v"
  have k: "(phase v + k) mod 4 = 3" "k \<le> 3"
    using phase_lt [of v] by (simp_all add: k_def)
  have "within_budget (Suc k + n) v" using assms(2) by (rule within_budget_mono) (use k(2) in simp)
  from toPosedge_wait [OF assms(1) this k False, of M] show ?thesis by blast
qed

lemma toNegedge_returns:
  assumes "clock_ok v" "within_budget (4 + n) v"
  shows "\<exists>v'. toNegedge M v = returns v' \<and> clock_ok v' \<and> within_budget n v'
           \<and> mClkHalfPeriodTicks v' = mClkHalfPeriodTicks v
           \<and> jtag_tms_i v' = jtag_tms_i v \<and> jtag_tdi_i v' = jtag_tdi_i v"
proof (cases "mTckNegedge v")
  case True
  then have "toNegedge M v = returns v"
    by (subst toNegedge.simps) (simp add: tapNegedge_def returns_def)
  moreover have "within_budget n v" using assms(2) by (rule within_budget_mono) simp
  ultimately show ?thesis using assms(1) by (intro exI [of _ v]) simp
next
  case False
  consider "phase v = 0" | "phase v = 1" | "phase v = 2" | "phase v = 3"
    using phase_lt [of v] by linarith
  then obtain k where k: "(phase v + k) mod 4 = 1" "k \<le> 3"
  proof cases
    case 1 then show ?thesis using that [of 1] by simp
  next
    case 2 then show ?thesis using that [of 0] by simp
  next
    case 3 then show ?thesis using that [of 3] by simp
  next
    case 4 then show ?thesis using that [of 2] by simp
  qed
  have "within_budget (Suc k + n) v" using assms(2) by (rule within_budget_mono) (use k(2) in simp)
  from toNegedge_wait [OF assms(1) this k False, of M] show ?thesis by blast
qed

text \<open>A TCK cycle of \<open>advanceState\<close> costs at most eight half periods.\<close>

lemma advanceState_returns:
  assumes "tap_ok (8 + n) t"
  shows "\<exists>x t'. advanceState M a b t = returns (x, t') \<and> tap_ok n t'
           \<and> mCurrState t' = successor a (mCurrState t)
           \<and> mRtiCount t' = mRtiCount t \<and> mLastIr t' = mLastIr t"
proof -
  from assms have ok: "clock_ok (mMcu t)" and bud: "within_budget (4 + (4 + n)) (mMcu t)"
    by (simp_all add: tap_ok_def add.assoc)
  from toPosedge_returns [OF ok bud, of M] obtain v1 where
    v1: "toPosedge M (mMcu t) = returns v1" "clock_ok v1" "within_budget (4 + n) v1"
    by blast
  let ?v1 = "set_tdi b (set_tms a v1)"
  from v1 have "clock_ok ?v1" "within_budget (4 + n) ?v1"
    by (simp_all add: VSim_set_ok)
  from toNegedge_returns [OF this, of M] obtain v2 where
    v2: "toNegedge M ?v1 = returns v2" "clock_ok v2" "within_budget n v2" "jtag_tms_i v2 = jtag_tms_i ?v1"
    by blast
  have tms: "get_tms v2 = a" using v2(4) by (simp add: get_tms_def set_tdi_def set_tms_def)
  show ?thesis
    using v1 v2 tms
    by (simp add: advanceState_def andThen_def returns_def nextState_def tap_ok_def successor_def)
qed

lemma returns_inject [simp]: "returns x = returns y \<longleftrightarrow> x = y"
  by (simp add: returns_def)

lemma tap_ok_mono: "tap_ok n t \<Longrightarrow> m \<le> n \<Longrightarrow> tap_ok m t"
  using within_budget_mono by (auto simp: tap_ok_def)

lemma allStates_all: "c \<in> set allStates"
  by (cases c) (simp_all add: allStates_def)

text \<open>The routing table brings every state to every state within eight steps.\<close>

lemma reach_table: "\<forall>c \<in> set allStates. \<forall>s \<in> set allStates. reach 8 c s"
  by code_simp

lemma reach_8: "reach 8 c s"
  using reach_table allStates_all by blast

lemma gotoState_loop_returns:
  "reach k (mCurrState t) s \<Longrightarrow> tap_ok (8 * k + n) t \<Longrightarrow>
   \<exists>x t'. gotoState_loop M s b t = returns (x, t') \<and> tap_ok n t' \<and> mCurrState t' = s
          \<and> mRtiCount t' = mRtiCount t \<and> mLastIr t' = mLastIr t"
proof (induction k arbitrary: t b)
  case 0
  then have "mCurrState t = s" by simp
  then have "gotoState_loop M s b t = returns (b, t)"
    by (subst gotoState_loop.simps) (simp add: returns_def)
  with 0 show ?case by simp
next
  case (Suc k)
  show ?case
  proof (cases "mCurrState t = s")
    case True
    then have "gotoState_loop M s b t = returns (b, t)"
      by (subst gotoState_loop.simps) (simp add: returns_def)
    moreover have "tap_ok n t" using Suc.prems(2) by (rule tap_ok_mono) simp
    ultimately show ?thesis using True by simp
  next
    case False
    from Suc.prems(2) have "tap_ok (8 + (8 * k + n)) t" by (simp add: add.assoc)
    from advanceState_returns [OF this, of M "firstTms (mCurrState t) s" False] obtain x t1 where
      a: "advanceState M (firstTms (mCurrState t) s) False t = returns (x, t1)"
         "tap_ok (8 * k + n) t1" "mCurrState t1 = successor (firstTms (mCurrState t) s) (mCurrState t)"
         "mRtiCount t1 = mRtiCount t" "mLastIr t1 = mLastIr t"
      by blast
    from Suc.prems(1) False a(3) have "reach k (mCurrState t1) s" by simp
    from Suc.IH [OF this a(2), of x] obtain y t' where
      r: "gotoState_loop M s x t1 = returns (y, t')" "tap_ok n t'" "mCurrState t' = s"
         "mRtiCount t' = mRtiCount t1" "mLastIr t' = mLastIr t1"
      by blast
    have "gotoState_loop M s b t = gotoState_loop M s x t1"
      using False a(1) by (subst gotoState_loop.simps) (simp add: returns_def)
    with r a show ?thesis by simp
  qed
qed

text \<open>Hence \<open>gotoState\<close> returns, in the state asked for.\<close>

lemma gotoState_returns:
  assumes "tap_ok (64 + n) t"
  shows "\<exists>x t'. gotoState M s t = returns (x, t') \<and> tap_ok n t' \<and> mCurrState t' = s
          \<and> mRtiCount t' = mRtiCount t \<and> mLastIr t' = mLastIr t"
  unfolding gotoState_def
  using gotoState_loop_returns [OF reach_8, where t = t and s = s and n = n and M = M] assms by simp

lemma shiftIr_loop_returns:
  "d = 4 - i \<Longrightarrow> i \<le> 4 \<Longrightarrow> tap_ok (8 * d + n) t \<Longrightarrow>
   \<exists>t'. shiftIr_loop M ireg i t = returns t' \<and> tap_ok n t'
        \<and> mRtiCount t' = mRtiCount t \<and> mLastIr t' = mLastIr t"
proof (induction d arbitrary: i t)
  case 0
  then have "\<not> i < IR_LEN - 1" by (simp add: IR_LEN_def)
  then have "shiftIr_loop M ireg i t = returns t"
    by (subst shiftIr_loop.simps) (simp add: returns_def)
  with 0 show ?case by simp
next
  case (Suc d)
  then have lt: "i < IR_LEN - 1" by (simp add: IR_LEN_def)
  from Suc.prems(3) have "tap_ok (8 + (8 * d + n)) t" by (simp add: add.assoc)
  from advanceState_returns [OF this, of M False "ireg AND push_bit i 1 \<noteq> 0"] obtain x t1 where
    a: "advanceState M False (ireg AND push_bit i 1 \<noteq> 0) t = returns (x, t1)"
       "tap_ok (8 * d + n) t1" "mRtiCount t1 = mRtiCount t" "mLastIr t1 = mLastIr t"
    by blast
  from Suc.prems have "d = 4 - (i + 1)" "i + 1 \<le> 4" by simp_all
  from Suc.IH [OF this a(2)] obtain t' where
    r: "shiftIr_loop M ireg (i + 1) t1 = returns t'" "tap_ok n t'"
       "mRtiCount t' = mRtiCount t1" "mLastIr t' = mLastIr t1"
    by blast
  have "shiftIr_loop M ireg i t = shiftIr_loop M ireg (i + 1) t1"
    using lt a(1) by (subst shiftIr_loop.simps) (simp add: returns_def)
  with r a show ?case by simp
qed

declare andThen_returns [simp]

lemma shiftIr_returns:
  assumes "tap_ok (168 + n) t"
  shows "\<exists>t'. shiftIr M ireg t = returns t' \<and> tap_ok n t'
        \<and> mRtiCount t' = mRtiCount t \<and> mLastIr t' = mLastIr t"
proof -
  from assms have "tap_ok (64 + (104 + n)) t" by (simp add: add.assoc)
  from gotoState_returns [OF this, of M SHIFT_IR] obtain b0 t0 where
    g0: "gotoState M SHIFT_IR t = returns (b0, t0)" "tap_ok (104 + n) t0"
        "mRtiCount t0 = mRtiCount t" "mLastIr t0 = mLastIr t"
    by blast
  from g0(2) have "tap_ok (8 * 4 + (72 + n)) t0" by (simp add: add.assoc)
  from shiftIr_loop_returns [OF _ _ this, of 0 M ireg] obtain t1 where
    l: "shiftIr_loop M ireg 0 t0 = returns t1" "tap_ok (72 + n) t1"
       "mRtiCount t1 = mRtiCount t0" "mLastIr t1 = mLastIr t0"
    by auto
  from l(2) have "tap_ok (8 + (64 + n)) t1" by (simp add: add.assoc)
  from advanceState_returns [OF this, of M True "ireg AND push_bit (IR_LEN - 1) 1 \<noteq> 0"] obtain b2 t2 where
    a: "advanceState M True (ireg AND push_bit (IR_LEN - 1) 1 \<noteq> 0) t1 = returns (b2, t2)"
       "tap_ok (64 + n) t2" "mRtiCount t2 = mRtiCount t1" "mLastIr t2 = mLastIr t1"
    by blast
  from gotoState_returns [OF a(2), of M UPDATE_IR] obtain b3 t3 where
    g3: "gotoState M UPDATE_IR t2 = returns (b3, t3)" "tap_ok n t3"
        "mRtiCount t3 = mRtiCount t2" "mLastIr t3 = mLastIr t2"
    by blast
  show ?thesis
    using g0 l a g3 by (simp add: shiftIr_def)
qed

lemma loop_bound:
  fixes len :: "64 word"
  assumes "1 \<le> unat len" "unat len \<le> 64" "i \<le> 64"
  shows "(word_of_nat i < len - 1) \<longleftrightarrow> i < unat len - 1"
proof -
  from assms(1) have "len \<noteq> 0" by (auto simp: unat_eq_zero)
  then have m: "unat (len - 1) = unat len - 1" by (rule unat_minus_one)
  have "unat (word_of_nat i :: 64 word) = i"
    using assms(3) by (simp add: unat_of_nat)
  with m show ?thesis by (simp add: word_less_nat_alt)
qed

lemma shiftDr_loop_returns:
  fixes len :: "64 word"
  shows "d = unat len - 1 - i \<Longrightarrow> 1 \<le> unat len \<Longrightarrow> unat len \<le> 64 \<Longrightarrow> i \<le> unat len - 1 \<Longrightarrow>
   tap_ok (8 * d + n) t \<Longrightarrow>
   \<exists>r t'. shiftDr_loop M dreg len i regOut t = returns (r, t') \<and> tap_ok n t'
        \<and> mRtiCount t' = mRtiCount t \<and> mLastIr t' = mLastIr t"
proof (induction d arbitrary: i t regOut)
  case 0
  then have "\<not> word_of_nat i < len - 1" by (simp add: loop_bound)
  then have "shiftDr_loop M dreg len i regOut t = returns (regOut, t)"
    by (subst shiftDr_loop.simps) (simp add: returns_def)
  with 0 show ?case by simp
next
  case (Suc d)
  then have lt: "word_of_nat i < len - 1" and i64: "\<not> 64 \<le> i"
    by (simp_all add: loop_bound)
  from Suc.prems(5) have "tap_ok (8 + (8 * d + n)) t" by (simp add: add.assoc)
  from advanceState_returns [OF this, of M False "dreg AND push_bit i 1 \<noteq> 0"] obtain x t1 where
    a: "advanceState M False (dreg AND push_bit i 1 \<noteq> 0) t = returns (x, t1)"
       "tap_ok (8 * d + n) t1" "mRtiCount t1 = mRtiCount t" "mLastIr t1 = mLastIr t"
    by blast
  from Suc.prems have "d = unat len - 1 - (i + 1)" "i + 1 \<le> unat len - 1" by simp_all
  from Suc.IH [OF this(1) Suc.prems(2,3) this(2) a(2)] obtain r t' where
    r: "shiftDr_loop M dreg len (i + 1) (if x then regOut OR push_bit (i - 1) 1 else regOut) t1
          = returns (r, t')" "tap_ok n t'"
       "mRtiCount t' = mRtiCount t1" "mLastIr t' = mLastIr t1"
    by blast
  have "shiftDr_loop M dreg len i regOut t
          = shiftDr_loop M dreg len (i + 1) (if x then regOut OR push_bit (i - 1) 1 else regOut) t1"
    using lt i64 a(1) by (subst shiftDr_loop.simps) (simp add: returns_def)
  with r a show ?case by simp
qed

lemma shl1_small: "unat n < 64 \<Longrightarrow> shl1 n = Inr (push_bit (unat n) 1)"
  by (simp add: shl1_def word_less_nat_alt)

lemma orBitIf_small: "unat n < 64 \<Longrightarrow> \<exists>r. orBitIf b regOut n = Inr r"
  by (simp add: orBitIf_def shl1_small)

text \<open>Shifting a data register of 2 to 64 bits returns.\<close>

lemma shiftDr_returns:
  fixes len :: "64 word"
  assumes len: "2 \<le> unat len" "unat len \<le> 64" and ok: "tap_ok (648 + n) t"
  shows "\<exists>r t'. shiftDr M dreg len t = returns (r, t') \<and> tap_ok n t'
        \<and> mRtiCount t' = mRtiCount t \<and> mLastIr t' = mLastIr t"
proof -
  from len have l0: "len \<noteq> 0" "len - 1 \<noteq> 0" 
    by (auto simp: unat_eq_zero unat_minus_one)
  then have m1: "unat (len - 1) = unat len - 1"
    by (simp add: unat_minus_one)
  have m2: "unat (len - 2) = unat len - 2"
    using unat_minus_one [OF l0(2)] m1 by (simp add: diff_diff_eq)
  from m1 m2 len have small: "unat (len - 1) < 64" "unat (len - 2) < 64" by simp_all
  from ok have "tap_ok (64 + (584 + n)) t" by (simp add: add.assoc)
  from gotoState_returns [OF this, of M SHIFT_DR] obtain b0 t0 where
    g0: "gotoState M SHIFT_DR t = returns (b0, t0)" "tap_ok (584 + n) t0"
        "mRtiCount t0 = mRtiCount t" "mLastIr t0 = mLastIr t"
    by blast
  from g0(2) have "tap_ok (8 + (576 + n)) t0" by (simp add: add.assoc)
  from advanceState_returns [OF this, of M False "dreg AND 1 \<noteq> 0"] obtain b1 t1 where
    a1: "advanceState M False (dreg AND 1 \<noteq> 0) t0 = returns (b1, t1)" "tap_ok (576 + n) t1"
        "mRtiCount t1 = mRtiCount t0" "mLastIr t1 = mLastIr t0"
    by blast
  have "8 * (unat len - 1 - 1) + (80 + n) \<le> 576 + n" using len by simp
  with a1(2) have "tap_ok (8 * (unat len - 1 - 1) + (80 + n)) t1" by (rule tap_ok_mono)
  moreover from len have "1 \<le> unat len" "1 \<le> unat len - 1" by simp_all
  ultimately have "\<exists>r t'. shiftDr_loop M dreg len 1 0 t1 = returns (r, t') \<and> tap_ok (80 + n) t'
        \<and> mRtiCount t' = mRtiCount t1 \<and> mLastIr t' = mLastIr t1"
    using len(2) by (intro shiftDr_loop_returns [where d = "unat len - 1 - 1"]) simp_all
  then obtain r2 t2 where
    l2: "shiftDr_loop M dreg len 1 0 t1 = returns (r2, t2)" "tap_ok (80 + n) t2"
        "mRtiCount t2 = mRtiCount t1" "mLastIr t2 = mLastIr t1"
    by blast
  from l2(2) have "tap_ok (8 + (72 + n)) t2" by (simp add: add.assoc)
  from advanceState_returns [OF this, of M True "dreg AND push_bit (unat (len - 1)) 1 \<noteq> 0"]
  obtain b3 t3 where
    a3: "advanceState M True (dreg AND push_bit (unat (len - 1)) 1 \<noteq> 0) t2 = returns (b3, t3)"
        "tap_ok (72 + n) t3" "mRtiCount t3 = mRtiCount t2" "mLastIr t3 = mLastIr t2"
    by blast
  from orBitIf_small [OF small(2)] obtain r3 where o3: "orBitIf b3 r2 (len - 2) = Inr r3" by blast
  from a3(2) have "tap_ok (8 + (64 + n)) t3" by (simp add: add.assoc)
  from advanceState_returns [OF this, of M False "dreg AND push_bit (unat (len - 1)) 1 \<noteq> 0"]
  obtain b4 t4 where
    a4: "advanceState M False (dreg AND push_bit (unat (len - 1)) 1 \<noteq> 0) t3 = returns (b4, t4)"
        "tap_ok (64 + n) t4" "mRtiCount t4 = mRtiCount t3" "mLastIr t4 = mLastIr t3"
    by blast
  from orBitIf_small [OF small(1)] obtain r4 where o4: "orBitIf b4 r3 (len - 1) = Inr r4" by blast
  from gotoState_returns [OF a4(2), of M UPDATE_DR] obtain b5 t5 where
    g5: "gotoState M UPDATE_DR t4 = returns (b5, t5)" "tap_ok n t5"
        "mRtiCount t5 = mRtiCount t4" "mLastIr t5 = mLastIr t4"
    by blast
  show ?thesis
    using g0 a1 l2 a3 o3 a4 o4 g5 by (simp add: shiftDr_def shl1_small [OF small(1)])
qed

lemma rtiDwell_returns:
  assumes "tap_ok (64 + n) t"
  shows "\<exists>t'. rtiDwell M i t = returns t' \<and> tap_ok n t'
          \<and> mRtiCount t' = mRtiCount t \<and> mLastIr t' = mLastIr t"
proof (cases "i < mRtiCount t")
  case True
  from gotoState_returns [OF assms, of M RUN_TEST_IDLE] obtain x t' where
    "gotoState M RUN_TEST_IDLE t = returns (x, t')" "tap_ok n t'"
    "mRtiCount t' = mRtiCount t" "mLastIr t' = mLastIr t"
    by blast
  then show ?thesis by (simp add: rtiDwell_once [OF True])
next
  case False
  then have "rtiDwell M i t = returns t" by (subst rtiDwell.simps) (simp add: returns_def)
  moreover from assms have "tap_ok n t" by (rule tap_ok_mono) simp
  ultimately show ?thesis by simp
qed

text \<open>An access of 2 to 64 bits returns within 880 half periods, in Update-DR.\<close>

lemma accessReg_returns:
  fixes len :: "8 word"
  assumes len: "2 \<le> unat len" "unat len \<le> 64" and ok: "tap_ok (880 + n) t"
  shows "\<exists>reg t'. accessReg M ir wdata len t = returns (reg, t') \<and> tap_ok n t'
          \<and> mCurrState t' = UPDATE_DR
          \<and> mRtiCount t' = mRtiCount t \<and> mLastIr t' = mLastIr t"
proof -
  from len(2) have le: "\<not> 64 < len" by (simp add: word_less_nat_alt)
  have ulen: "unat (ucast len :: 64 word) = unat len"
  proof -
    from len(2) have "unat len < 2 ^ 64" by simp
    then show ?thesis by (simp add: unsigned_ucast_eq take_bit_nat_eq_self)
  qed
  have "\<exists>t1. (if mLastIr t = ir then rtiDwell M 0 t else shiftIr M ir t) = returns t1
          \<and> tap_ok (712 + n) t1 \<and> mRtiCount t1 = mRtiCount t \<and> mLastIr t1 = mLastIr t"
  proof (cases "mLastIr t = ir")
    case True
    from ok have "tap_ok (64 + (712 + n)) t" by (rule tap_ok_mono) simp
    from rtiDwell_returns [OF this, of M 0] True show ?thesis by simp
  next
    case False
    from ok have "tap_ok (168 + (712 + n)) t" by (simp add: add.assoc)
    from shiftIr_returns [OF this, of M ir] False show ?thesis by auto
  qed
  then obtain t1 where
    s1: "(if mLastIr t = ir then rtiDwell M 0 t else shiftIr M ir t) = returns t1"
        "tap_ok (712 + n) t1" "mRtiCount t1 = mRtiCount t" "mLastIr t1 = mLastIr t"
    by blast
  from s1(2) have "tap_ok (648 + (64 + n)) t1" by (simp add: add.assoc)
  from shiftDr_returns [of "ucast len", OF _ _ this, of M wdata] len ulen obtain reg t2 where
    s2: "shiftDr M wdata (ucast len) t1 = returns (reg, t2)" "tap_ok (64 + n) t2"
        "mRtiCount t2 = mRtiCount t1" "mLastIr t2 = mLastIr t1"
    by auto
  from gotoState_returns [OF s2(2), of M UPDATE_DR] obtain b t3 where
    s3: "gotoState M UPDATE_DR t2 = returns (b, t3)" "tap_ok n t3" "mCurrState t3 = UPDATE_DR"
        "mRtiCount t3 = mRtiCount t2" "mLastIr t3 = mLastIr t2"
    by blast
  from le s1 s2 s3 show ?thesis
    unfolding accessReg_def by simp
qed

lemma advanceHalfPeriod_reset_period:
  "advanceHalfPeriod (VSim_eval M v) = Inr v' \<Longrightarrow> mResetPeriodTicks v' = mResetPeriodTicks v"
  by (auto simp: advanceHalfPeriod_def VSim_eval_def Let_def split: if_splits)

text \<open>The reset loop ends: the tick count grows by a half period at every turn.\<close>

lemma Tap_reset_returns:
  assumes "k = unat (mResetPeriodTicks (mMcu t)) - unat (mTickCount (mMcu t))"
    and "clock_ok (mMcu t)" and "within_budget n (mMcu t)"
    and "unat (mResetPeriodTicks (mMcu t)) + Suc n * unat (mClkHalfPeriodTicks (mMcu t)) < 2 ^ 64"
  shows "\<exists>b t'. Tap_reset M t = returns (b, t') \<and> tap_ok n t'
          \<and> (b \<longrightarrow> mCurrState t' = RUN_TEST_IDLE)
          \<and> mRtiCount t' = mRtiCount t \<and> mLastIr t' = mLastIr t"
  using assms
proof (induction k arbitrary: t rule: less_induct)
  case (less k)
  let ?v = "mMcu t"
  show ?case
  proof (cases "inReset ?v")
    case False
    then have "Tap_reset M t = returns (True, t \<lparr> mCurrState := RUN_TEST_IDLE \<rparr>)"
      by (subst Tap_reset.simps) (simp add: returns_def)
    with less.prems show ?thesis by (auto simp add: tap_ok_def)
  next
    case True
    then have lt: "unat (mTickCount ?v) < unat (mResetPeriodTicks ?v)"
      by (simp add: inReset_def word_less_nat_alt)
    show ?thesis
    proof (cases "allDone ?v")
      case True
      with \<open>inReset ?v\<close> have "Tap_reset M t = returns (False, t)"
        by (subst Tap_reset.simps) (simp add: returns_def)
      with less.prems show ?thesis by (auto simp add: tap_ok_def)
    next
      case False
      let ?w = "set_tdi (jtag_tdi_i ?v) (set_tms False ?v)"
      have w: "?w = set_tms False ?v" by (simp add: set_tdi_def set_tms_def)
      from less.prems lt have "within_budget (Suc n) ?v"
        by (simp add: within_budget_def)
      with less.prems have "clock_ok ?w" "within_budget (Suc n) ?w"
        by (simp_all only: VSim_set_ok)
      from half_step [OF this, of M] obtain v' where
        v': "advanceHalfPeriod (VSim_eval M ?w) = Inr v'" "clock_ok v'" "within_budget n v'"
            "mClkHalfPeriodTicks v' = mClkHalfPeriodTicks ?w"
            "unat (mTickCount v') = unat (mTickCount ?w) + unat (mClkHalfPeriodTicks ?w)"
        by blast
      from advanceHalfPeriod_reset_period [OF v'(1)]
      have r: "mResetPeriodTicks v' = mResetPeriodTicks ?v" by (simp add: set_tdi_def set_tms_def)
      from v'(4) have h: "mClkHalfPeriodTicks v' = mClkHalfPeriodTicks ?v"
        by (simp add: set_tdi_def set_tms_def)
      from v'(5) have T: "unat (mTickCount v') = unat (mTickCount ?v) + unat (mClkHalfPeriodTicks ?v)"
        by (simp add: set_tdi_def set_tms_def)
      from less.prems(2) have "0 < unat (mClkHalfPeriodTicks ?v)" by (simp add: clock_ok_def)
      with T lt r less.prems(1)
      have dec: "unat (mResetPeriodTicks v') - unat (mTickCount v') < k" by simp
      let ?t = "t \<lparr> mMcu := v' \<rparr>"
      from less.IH [OF dec, of ?t] v'(2,3) r h less.prems(4)
      obtain b t' where
        "Tap_reset M ?t = returns (b, t')" "tap_ok n t'" "b \<longrightarrow> mCurrState t' = RUN_TEST_IDLE"
        "mRtiCount t' = mRtiCount t" "mLastIr t' = mLastIr t"
        by auto
      moreover from v'(1) w \<open>inReset ?v\<close> False
      have "Tap_reset M t = Tap_reset M ?t"
        by (subst Tap_reset.simps) simp
      ultimately show ?thesis by simp
    qed
  qed
qed

lemma VSim_new_periods:
  fixes clkPeriodNs :: "64 word"
  assumes "unat clkPeriodNs * 10 < 2 ^ 64"
  shows "unat (mClkHalfPeriodTicks (VSim_new d0 clkPeriodNs simTimeNs)) = unat clkPeriodNs div 2"
    and "unat (mTckHalfPeriodTicks (VSim_new d0 clkPeriodNs simTimeNs)) = 2 * (unat clkPeriodNs div 2)"
    and "unat (mResetPeriodTicks (VSim_new d0 clkPeriodNs simTimeNs)) = 20 * (unat clkPeriodNs div 2)"
    and "mTickCount (VSim_new d0 clkPeriodNs simTimeNs) = 0"
    and "jtag_tck_i (VSim_new d0 clkPeriodNs simTimeNs)"
proof -
  let ?h = "clkPeriodNs div 2"
  have h: "unat ?h = unat clkPeriodNs div 2" by (simp add: unat_div)
  with assms have "unat ?h * unat (2 :: 64 word) < 2 ^ LENGTH(64)" by simp
  then have "unat (?h * 2) = unat ?h * unat (2 :: 64 word)"
    by (rule unat_mult_lem [THEN iffD1])
  then have t: "unat (?h * 2) = unat ?h * 2" by simp
  with h assms have "unat (?h * 2) * unat (10 :: 64 word) < 2 ^ LENGTH(64)" by simp
  then have "unat (?h * 2 * 10) = unat (?h * 2) * unat (10 :: 64 word)"
    by (rule unat_mult_lem [THEN iffD1])
  then have r: "unat (?h * 2 * 10) = unat (?h * 2) * 10" by simp
  show "unat (mClkHalfPeriodTicks (VSim_new d0 clkPeriodNs simTimeNs)) = unat clkPeriodNs div 2"
    using h by (simp add: VSim_new_def Let_def)
  show "unat (mTckHalfPeriodTicks (VSim_new d0 clkPeriodNs simTimeNs)) = 2 * (unat clkPeriodNs div 2)"
    using h t by (simp add: VSim_new_def Let_def)
  show "unat (mResetPeriodTicks (VSim_new d0 clkPeriodNs simTimeNs)) = 20 * (unat clkPeriodNs div 2)"
    using h t r by (simp add: VSim_new_def Let_def)
  show "mTickCount (VSim_new d0 clkPeriodNs simTimeNs) = 0"
    by (simp add: VSim_new_def Let_def)
  show "jtag_tck_i (VSim_new d0 clkPeriodNs simTimeNs)"
    by (simp add: VSim_new_def Let_def)
qed

text \<open>A controller as the constructor builds it, for a clock period of at least 2 ns, meets the
  clock discipline, so its reset returns.\<close>

lemma Tap_new_reset_returns:
  fixes clkPeriodNs :: "64 word"
  assumes "2 \<le> unat clkPeriodNs" and "unat clkPeriodNs * (n + 21) < 2 ^ 64"
  shows "\<exists>b t'. Tap_reset M (Tap_new d0 s0 clkPeriodNs simTimeNs) = returns (b, t') \<and> tap_ok n t'
          \<and> (b \<longrightarrow> mCurrState t' = RUN_TEST_IDLE)"
proof -
  let ?t = "Tap_new d0 s0 clkPeriodNs simTimeNs"
  let ?v = "VSim_new d0 clkPeriodNs simTimeNs"
  have v: "mMcu ?t = ?v" by (simp add: Tap_new_def)
  have "unat clkPeriodNs * 10 \<le> unat clkPeriodNs * (n + 21)" by simp
  with assms(2) have "unat clkPeriodNs * 10 < 2 ^ 64" by linarith
  note p = VSim_new_periods [OF this, of d0 simTimeNs]
  from assms(1) have h0: "0 < unat clkPeriodNs div 2" by simp
  have hle: "unat clkPeriodNs div 2 \<le> unat clkPeriodNs" by simp
  have ok: "clock_ok ?v"
    using p h0 by (simp add: clock_ok_def)
  have "(n + 21) * (unat clkPeriodNs div 2) \<le> (n + 21) * unat clkPeriodNs"
    by (rule mult_le_mono2) (rule hle)
  also have "\<dots> = unat clkPeriodNs * (n + 21)" by (rule mult.commute)
  also note assms(2)
  finally have b: "(n + 21) * (unat clkPeriodNs div 2) < 2 ^ 64" .
  have "n * (unat clkPeriodNs div 2) \<le> (n + 21) * (unat clkPeriodNs div 2)"
    by (rule mult_le_mono1) simp
  also note b
  finally have "n * (unat clkPeriodNs div 2) < 2 ^ 64" .
  then have wb: "within_budget n ?v"
    using p by (simp add: within_budget_def)
  from b have "unat (mResetPeriodTicks ?v) + Suc n * unat (mClkHalfPeriodTicks ?v) < 2 ^ 64"
    using p by (simp add: algebra_simps)
  from Tap_reset_returns [OF refl, of ?t n M] ok wb this v show ?thesis
    by auto
qed

text \<open>After that reset, every access of 2 to 64 bits returns, in Update-DR.\<close>

lemma Tap_new_accessReg_returns:
  fixes clkPeriodNs :: "64 word" and len :: "8 word"
  assumes "2 \<le> unat clkPeriodNs" and "unat clkPeriodNs * 901 < 2 ^ 64"
    and "2 \<le> unat len" and "unat len \<le> 64"
    and "Tap_reset M (Tap_new d0 s0 clkPeriodNs simTimeNs) = returns (True, t)"
  shows "\<exists>reg t'. accessReg M ir wdata len t = returns (reg, t') \<and> mCurrState t' = UPDATE_DR"
proof -
  from assms(2) have "unat clkPeriodNs * (880 + 21) < 2 ^ 64" by simp
  from Tap_new_reset_returns [OF assms(1) this, of M d0 s0 simTimeNs] assms(5)
  have "tap_ok (880 + 0) t" by auto
  from accessReg_returns [OF assms(3,4) this, of M ir wdata] show ?thesis by blast
qed

subsection \<open>dmiRead returns\<close>

text \<open>
  Under the clock discipline the request and the first poll of \<open>dmiRead\<close> return, so a first
  scan that answers anything but RETRY makes \<open>dmiRead\<close> return its data.
\<close>

lemma dmiRead_first_scan:
  assumes ok: "tap_ok (1760 + n) (mTap j)"
    and width: "2 \<le> unat (mDmiWidth j)" "unat (mDmiWidth j) \<le> 64"
  shows "\<exists>t0 reg t.
      writeReg M DMIACCESS (OP_READ OR push_bit 34 (address AND mDmiAddrMask j))
        (mDmiWidth j) (mTap j) = returns t0
    \<and> readReg M DMIACCESS (mDmiWidth j) t0 = returns (reg, t)
    \<and> tap_ok n t
    \<and> (reg AND 0x3 \<noteq> RES_RETRY \<longrightarrow>
          dmiRead M address j =
            returns (ucast (drop_bit 2 reg AND 0xffffffff),
                     if reg AND 0x3 = RES_OK then j \<lparr> mTap := t \<rparr>
                     else j \<lparr> mTap := t, cerr := cerr j @ [UnknownReadResult (reg AND 0x3)] \<rparr>))"
proof -
  let ?req = "OP_READ OR push_bit 34 (address AND mDmiAddrMask j)"
  from ok have "tap_ok (880 + (880 + n)) (mTap j)" by (simp add: add.assoc)
  from accessReg_returns [OF width this, of M DMIACCESS ?req] obtain r0 t0 where
    a0: "accessReg M DMIACCESS ?req (mDmiWidth j) (mTap j) = returns (r0, t0)"
        "tap_ok (880 + n) t0"
    by blast
  then have w: "writeReg M DMIACCESS ?req (mDmiWidth j) (mTap j) = returns t0"
    by (simp add: writeReg_def)
  from accessReg_returns [OF width a0(2), of M DMIACCESS 0] obtain reg t where
    a1: "accessReg M DMIACCESS 0 (mDmiWidth j) t0 = returns (reg, t)" "tap_ok n t"
    by blast
  then have r: "readReg M DMIACCESS (mDmiWidth j) t0 = returns (reg, t)"
    by (simp add: readReg_def)
  have "dmiRead M address j =
            returns (ucast (drop_bit 2 reg AND 0xffffffff),
                     if reg AND 0x3 = RES_OK then j \<lparr> mTap := t \<rparr>
                     else j \<lparr> mTap := t, cerr := cerr j @ [UnknownReadResult (reg AND 0x3)] \<rparr>)"
    if nr: "reg AND 0x3 \<noteq> RES_RETRY"
  proof -
    from r nr have "dmiRead_poll M (j \<lparr> mTap := t0 \<rparr>) = returns (reg, j \<lparr> mTap := t0 \<rparr> \<lparr> mTap := t \<rparr>)"
      by (intro dmiRead_poll_last) simp_all
    with w show ?thesis
      by (simp add: dmiRead_unfolded [of M address j])
  qed
  with w r a1(2) show ?thesis by blast
qed

subsection \<open>The DMI reset on the pins\<close>

text \<open>
  What a device sees of an access, for every device and every clock. One half period shows
  the probe a rising edge exactly when \<open>mTckPosedge\<close> was set.
\<close>

lemma probe_step:
  assumes "advanceHalfPeriod (VSim_eval (probed M) v) = Inr v'" and "probe_ok v"
  shows "probe_ok v'"
    and "pSeen (mCpu v') =
           pSeen (mCpu v) @ (if mTckPosedge v then [(jtag_tms_i v, jtag_tdi_i v)] else [])"
    and "jtag_tms_i v' = jtag_tms_i v" and "jtag_tdi_i v' = jtag_tdi_i v"
    and "jtag_tck_i v \<Longrightarrow> \<not> mTckPosedge v'"
    and "mTckNegedge v' \<longleftrightarrow> jtag_tck_i v \<and> \<not> jtag_tck_i v'"
  using assms
  by (auto simp: advanceHalfPeriod_def VSim_eval_def probed_def probe_ok_def Let_def
           split: if_splits)

text \<open>
  Waiting for the rising edge shows the device none; waiting for the falling edge from
  there shows it the one rising edge, with the levels set in between.
\<close>

lemma toPosedge_pins_aux:
  assumes "toPosedge M' v = Some y"
  shows "M' = probed M \<longrightarrow> (\<forall>v1. y = Inr v1 \<longrightarrow> probe_ok v \<longrightarrow>
           probe_ok v1 \<and> mTckPosedge v1 \<and> pSeen (mCpu v1) = pSeen (mCpu v)
           \<and> jtag_tms_i v1 = jtag_tms_i v \<and> jtag_tdi_i v1 = jtag_tdi_i v)"
  using assms
proof (rule toPosedge.raw_induct [rotated 1,
        where P = "\<lambda>M' v y. M' = probed M \<longrightarrow> (\<forall>v1. y = Inr v1 \<longrightarrow> probe_ok v \<longrightarrow>
           probe_ok v1 \<and> mTckPosedge v1 \<and> pSeen (mCpu v1) = pSeen (mCpu v)
           \<and> jtag_tms_i v1 = jtag_tms_i v \<and> jtag_tdi_i v1 = jtag_tdi_i v)"],
       intro impI allI, goal_cases)
  case (1 f M' v y v1)
  then have IH: "\<And>w z. f M' w = Some (Inr z) \<Longrightarrow> probe_ok w \<Longrightarrow>
           probe_ok z \<and> mTckPosedge z \<and> pSeen (mCpu z) = pSeen (mCpu w)
           \<and> jtag_tms_i z = jtag_tms_i w \<and> jtag_tdi_i z = jtag_tdi_i w"
    and eq: "(if \<not> tapPosedge v
      then case advanceHalfPeriod (VSim_eval M' v) of Inl e \<Rightarrow> Some (Inl e)
           | Inr v' \<Rightarrow> f M' v'
      else Some (Inr v)) = Some (Inr v1)"
    and M': "M' = probed M" and ok: "probe_ok v"
    by blast+
  show ?case
  proof (cases "tapPosedge v")
    case True
    with eq ok show ?thesis by (simp add: tapPosedge_def)
  next
    case False
    with eq obtain v' where
      step: "advanceHalfPeriod (VSim_eval M' v) = Inr v'" and rec: "f M' v' = Some (Inr v1)"
      by (auto split: sum.splits)
    from False have np: "\<not> mTckPosedge v" by (simp add: tapPosedge_def)
    note s = probe_step [OF step [unfolded M'] ok]
    from IH [OF rec s(1)] s np show ?thesis by simp
  qed
qed

lemma toPosedge_pins:
  assumes "toPosedge (probed M) v = returns v1" and "probe_ok v"
  shows "probe_ok v1" "mTckPosedge v1" "pSeen (mCpu v1) = pSeen (mCpu v)"
    "jtag_tms_i v1 = jtag_tms_i v" "jtag_tdi_i v1 = jtag_tdi_i v"
  using toPosedge_pins_aux [of "probed M" v "Inr v1" M] assms by (simp_all add: returns_def)

lemma toNegedge_pins_aux:
  assumes "toNegedge M' v = Some y"
  shows "M' = probed M \<longrightarrow> (\<forall>v2. y = Inr v2 \<longrightarrow> probe_ok v \<longrightarrow> jtag_tck_i v \<or> mTckNegedge v \<longrightarrow>
           probe_ok v2
           \<and> pSeen (mCpu v2) = pSeen (mCpu v)
                @ (if mTckPosedge v \<and> \<not> mTckNegedge v then [(jtag_tms_i v, jtag_tdi_i v)] else [])
           \<and> jtag_tms_i v2 = jtag_tms_i v)"
  using assms
proof (rule toNegedge.raw_induct [rotated 1,
        where P = "\<lambda>M' v y. M' = probed M \<longrightarrow> (\<forall>v2. y = Inr v2 \<longrightarrow> probe_ok v \<longrightarrow> jtag_tck_i v \<or> mTckNegedge v \<longrightarrow>
           probe_ok v2
           \<and> pSeen (mCpu v2) = pSeen (mCpu v)
                @ (if mTckPosedge v \<and> \<not> mTckNegedge v then [(jtag_tms_i v, jtag_tdi_i v)] else [])
           \<and> jtag_tms_i v2 = jtag_tms_i v)"],
       intro impI allI, goal_cases)
  case (1 f M' v y v2)
  then have IH: "\<And>w z. f M' w = Some (Inr z) \<Longrightarrow> probe_ok w \<Longrightarrow> jtag_tck_i w \<or> mTckNegedge w \<Longrightarrow>
           probe_ok z
           \<and> pSeen (mCpu z) = pSeen (mCpu w)
                @ (if mTckPosedge w \<and> \<not> mTckNegedge w then [(jtag_tms_i w, jtag_tdi_i w)] else [])
           \<and> jtag_tms_i z = jtag_tms_i w"
    and eq: "(if \<not> tapNegedge v
      then case advanceHalfPeriod (VSim_eval M' v) of Inl e \<Rightarrow> Some (Inl e)
           | Inr v' \<Rightarrow> f M' v'
      else Some (Inr v)) = Some (Inr v2)"
    and M': "M' = probed M" and ok: "probe_ok v" and hn: "jtag_tck_i v \<or> mTckNegedge v"
    by blast+
  show ?case
  proof (cases "tapNegedge v")
    case True
    with eq ok show ?thesis by (simp add: tapNegedge_def)
  next
    case False
    with eq obtain v' where
      step: "advanceHalfPeriod (VSim_eval M' v) = Inr v'" and rec: "f M' v' = Some (Inr v2)"
      by (auto split: sum.splits)
    from False have nn: "\<not> mTckNegedge v" by (simp add: tapNegedge_def)
    with hn have hi: "jtag_tck_i v" by simp
    note s = probe_step [OF step [unfolded M'] ok]
    from s(5) [OF hi] have np': "\<not> mTckPosedge v'" .
    from s(6) hi have "jtag_tck_i v' \<or> mTckNegedge v'" by blast
    from IH [OF rec s(1) this] s np' nn show ?thesis by simp
  qed
qed

text \<open>So the device sees one rising edge per \<open>advanceState\<close>, with the levels passed to it.\<close>

lemma advanceState_pins:
  assumes "advanceState (probed M) a b t = returns (x, t')" and "probe_ok (mMcu t)"
  shows "probe_ok (mMcu t')" and "pins t' = pins t @ [(a, b)]"
    and "mCurrState t' = successor a (mCurrState t)"
    and "mLastIr t' = mLastIr t" and "mRtiCount t' = mRtiCount t"
proof -
  from assms(1) obtain v1 v2 where
    p: "toPosedge (probed M) (mMcu t) = returns v1"
    and n: "toNegedge (probed M) (set_tdi b (set_tms a v1)) = returns v2"
    and t': "t' = nextState (get_tms v2) (t \<lparr> mMcu := v2 \<rparr>)"
    by (auto simp: advanceState_def andThen_returns_iff returns_def)
  note q = toPosedge_pins [OF p assms(2)]
  let ?w = "set_tdi b (set_tms a v1)"
  from q have w: "probe_ok ?w" "mTckPosedge ?w" "\<not> mTckNegedge ?w" "jtag_tck_i ?w"
    "pSeen (mCpu ?w) = pSeen (mCpu (mMcu t))" "jtag_tms_i ?w = a" "jtag_tdi_i ?w = b"
    by (auto simp: probe_ok_def set_tdi_def set_tms_def)
  from toNegedge_pins_aux [of "probed M" ?w "Inr v2" M] n w have r:
    "probe_ok v2" "pSeen (mCpu v2) = pSeen (mCpu (mMcu t)) @ [(a, b)]" "jtag_tms_i v2 = a"
    by (simp_all add: returns_def)
  from t' r show "probe_ok (mMcu t')" "pins t' = pins t @ [(a, b)]"
    "mCurrState t' = successor a (mCurrState t)" "mLastIr t' = mLastIr t" "mRtiCount t' = mRtiCount t"
    by (simp_all add: nextState_def pins_def get_tms_def successor_def)
qed

lemma route_stable: "reach n c s \<Longrightarrow> route (n + m) c s = route n c s"
proof (induction n arbitrary: c)
  case 0
  then show ?case by (cases m) simp_all
next
  case (Suc n)
  then show ?case by auto
qed

lemma route_step:
  assumes "c \<noteq> s"
  shows "route 8 c s = (firstTms c s, False) # route 8 (successor (firstTms c s) c) s"
proof -
  have "route 8 c s = route (8 + 1) c s"
    using route_stable [OF reach_8, where c = c and s = s and m = 1] by simp
  also have "\<dots> = route (Suc 8) c s" by simp
  also have "\<dots> = (firstTms c s, False) # route 8 (successor (firstTms c s) c) s"
    using assms by (simp only: route.simps if_False)
  finally show ?thesis .
qed

lemma route_there: "route 8 s s = []"
  by (simp add: eval_nat_numeral)

lemma gotoState_loop_pins_aux:
  assumes "gotoState_loop M' s x t = Some y"
  shows "M' = probed M \<longrightarrow> (\<forall>r t'. y = Inr (r, t') \<longrightarrow> probe_ok (mMcu t) \<longrightarrow>
           probe_ok (mMcu t') \<and> pins t' = pins t @ route 8 (mCurrState t) s \<and> mCurrState t' = s
           \<and> mLastIr t' = mLastIr t \<and> mRtiCount t' = mRtiCount t)"
  using assms
proof (rule gotoState_loop.raw_induct [rotated 1,
        where P = "\<lambda>M' s x t y. M' = probed M \<longrightarrow> (\<forall>r t'. y = Inr (r, t') \<longrightarrow> probe_ok (mMcu t) \<longrightarrow>
           probe_ok (mMcu t') \<and> pins t' = pins t @ route 8 (mCurrState t) s \<and> mCurrState t' = s
           \<and> mLastIr t' = mLastIr t \<and> mRtiCount t' = mRtiCount t)"],
       intro impI allI, goal_cases)
  case (1 f M' s x t y r t')
  then have IH: "\<And>x1 t1 r' z. f M' s x1 t1 = Some (Inr (r', z)) \<Longrightarrow> probe_ok (mMcu t1) \<Longrightarrow>
           probe_ok (mMcu z) \<and> pins z = pins t1 @ route 8 (mCurrState t1) s \<and> mCurrState z = s
           \<and> mLastIr z = mLastIr t1 \<and> mRtiCount z = mRtiCount t1"
    and eq: "(if mCurrState t \<noteq> s
      then case advanceState M' (firstTms (mCurrState t) s) False t of
           None \<Rightarrow> None | Some (Inl e) \<Rightarrow> Some (Inl e)
           | Some (Inr (tdo_reg', t')) \<Rightarrow> f M' s tdo_reg' t'
      else Some (Inr (x, t))) = Some (Inr (r, t'))"
    and M': "M' = probed M" and ok: "probe_ok (mMcu t)"
    by blast+
  show ?case
  proof (cases "mCurrState t = s")
    case True
    with eq ok show ?thesis by (auto simp: route_there)
  next
    case False
    with eq obtain x1 t1 where
      step: "advanceState M' (firstTms (mCurrState t) s) False t = returns (x1, t1)"
      and rec: "f M' s x1 t1 = Some (Inr (r, t'))"
      by (auto simp: returns_def split: option.splits sum.splits prod.splits)
    note a = advanceState_pins [OF step [unfolded M'] ok]
    from IH [OF rec a(1)] a route_step [OF False] show ?thesis by simp
  qed
qed

lemma gotoState_pins:
  assumes "gotoState (probed M) s t = returns (r, t')" and "probe_ok (mMcu t)"
  shows "probe_ok (mMcu t')" "pins t' = pins t @ route 8 (mCurrState t) s" "mCurrState t' = s"
    "mLastIr t' = mLastIr t" "mRtiCount t' = mRtiCount t"
  using gotoState_loop_pins_aux [of "probed M" s _ t "Inr (r, t')" M] assms
  by (simp_all add: gotoState_def returns_def)

lemma tdi_bit: "(w AND push_bit i 1 \<noteq> 0) = bit w i" for w :: "'a::len word"
  by (simp add: bit_iff_and_push_bit_not_eq_0)

lemma shiftIr_loop_pins_aux:
  assumes "shiftIr_loop M' ireg i t = Some y"
  shows "M' = probed M \<longrightarrow> (\<forall>t'. y = Inr t' \<longrightarrow> probe_ok (mMcu t) \<longrightarrow> mCurrState t = SHIFT_IR \<longrightarrow>
           probe_ok (mMcu t') \<and> pins t' = pins t @ map (\<lambda>k. (False, bit ireg k)) [i..<4]
           \<and> mCurrState t' = SHIFT_IR \<and> mLastIr t' = mLastIr t \<and> mRtiCount t' = mRtiCount t)"
  using assms
proof (rule shiftIr_loop.raw_induct [rotated 1,
        where P = "\<lambda>M' ireg i t y. M' = probed M \<longrightarrow> (\<forall>t'. y = Inr t' \<longrightarrow> probe_ok (mMcu t) \<longrightarrow> mCurrState t = SHIFT_IR \<longrightarrow>
           probe_ok (mMcu t') \<and> pins t' = pins t @ map (\<lambda>k. (False, bit ireg k)) [i..<4]
           \<and> mCurrState t' = SHIFT_IR \<and> mLastIr t' = mLastIr t \<and> mRtiCount t' = mRtiCount t)"],
       intro impI allI, goal_cases)
  case (1 f M' ireg i t y t')
  then have IH: "\<And>i1 t1 z. f M' ireg i1 t1 = Some (Inr z) \<Longrightarrow> probe_ok (mMcu t1) \<Longrightarrow>
           mCurrState t1 = SHIFT_IR \<Longrightarrow>
           probe_ok (mMcu z) \<and> pins z = pins t1 @ map (\<lambda>k. (False, bit ireg k)) [i1..<4]
           \<and> mCurrState z = SHIFT_IR \<and> mLastIr z = mLastIr t1 \<and> mRtiCount z = mRtiCount t1"
    and eq: "(if i < IR_LEN - 1
     then (case advanceState M' False (ireg AND push_bit i 1 \<noteq> 0) t of
             None \<Rightarrow> None
           | Some (Inl e) \<Rightarrow> Some (Inl e)
           | Some (Inr (b, t')) \<Rightarrow> f M' ireg (i + 1) t')
     else Some (Inr t)) = Some (Inr t')"
    and M': "M' = probed M" and ok: "probe_ok (mMcu t)" and st: "mCurrState t = SHIFT_IR"
    by blast+
  show ?case
  proof (cases "i < 4")
    case False
    with eq ok st show ?thesis by (auto simp: IR_LEN_def)
  next
    case True
    with eq obtain x1 t1 where
      step: "advanceState M' False (ireg AND push_bit i 1 \<noteq> 0) t = returns (x1, t1)"
      and rec: "f M' ireg (i + 1) t1 = Some (Inr t')"
      by (auto simp: returns_def IR_LEN_def split: option.splits sum.splits prod.splits)
    note a = advanceState_pins [OF step [unfolded M'] ok]
    from a(3) st have st1: "mCurrState t1 = SHIFT_IR" by (simp add: successor_def)
    from a(2) have p1: "pins t1 = pins t @ [(False, bit ireg i)]" by (simp only: tdi_bit)
    from IH [OF rec a(1) st1] p1 a(4,5) True show ?thesis
      by (simp add: upt_conv_Cons [of i 4])
  qed
qed

lemma shiftDr_loop_pins_aux:
  assumes "shiftDr_loop M' dreg len i regOut t = Some y"
  shows "M' = probed M \<longrightarrow> (\<forall>r t'. y = Inr (r, t') \<longrightarrow> probe_ok (mMcu t) \<longrightarrow>
           mCurrState t = SHIFT_DR \<longrightarrow> 1 \<le> unat len \<longrightarrow> unat len \<le> 64 \<longrightarrow> i \<le> 64 \<longrightarrow>
           probe_ok (mMcu t')
           \<and> pins t' = pins t @ map (\<lambda>k. (False, bit dreg k)) [i..<unat len - 1]
           \<and> mCurrState t' = SHIFT_DR \<and> mLastIr t' = mLastIr t \<and> mRtiCount t' = mRtiCount t)"
  using assms
proof (rule shiftDr_loop.raw_induct [rotated 1,
        where P = "\<lambda>M' dreg len i regOut t y. M' = probed M \<longrightarrow> (\<forall>r t'. y = Inr (r, t') \<longrightarrow> probe_ok (mMcu t) \<longrightarrow>
           mCurrState t = SHIFT_DR \<longrightarrow> 1 \<le> unat len \<longrightarrow> unat len \<le> 64 \<longrightarrow> i \<le> 64 \<longrightarrow>
           probe_ok (mMcu t')
           \<and> pins t' = pins t @ map (\<lambda>k. (False, bit dreg k)) [i..<unat len - 1]
           \<and> mCurrState t' = SHIFT_DR \<and> mLastIr t' = mLastIr t \<and> mRtiCount t' = mRtiCount t)"],
       intro impI allI, goal_cases)
  case (1 f M' dreg len i regOut t y r t')
  then have IH: "\<And>i1 r1 t1 r' z. f M' dreg len i1 r1 t1 = Some (Inr (r', z)) \<Longrightarrow>
           probe_ok (mMcu t1) \<Longrightarrow> mCurrState t1 = SHIFT_DR \<Longrightarrow> i1 \<le> 64 \<Longrightarrow>
           probe_ok (mMcu z)
           \<and> pins z = pins t1 @ map (\<lambda>k. (False, bit dreg k)) [i1..<unat len - 1]
           \<and> mCurrState z = SHIFT_DR \<and> mLastIr z = mLastIr t1 \<and> mRtiCount z = mRtiCount t1"
    and eq: "(if word_of_nat i < len - 1
     then (if 64 \<le> i then Some (Inl UndefinedShift)
           else (case advanceState M' False (dreg AND push_bit i 1 \<noteq> 0) t of
                   None \<Rightarrow> None
                 | Some (Inl e) \<Rightarrow> Some (Inl e)
                 | Some (Inr (b, t')) \<Rightarrow>
                     f M' dreg len (i + 1)
                       (if b then regOut OR push_bit (i - 1) 1 else regOut) t'))
     else Some (Inr (regOut, t))) = Some (Inr (r, t'))"
    and M': "M' = probed M" and ok: "probe_ok (mMcu t)" and st: "mCurrState t = SHIFT_DR"
    and len: "1 \<le> unat len" "unat len \<le> 64" and i: "i \<le> 64"
    by blast+
  note lb = loop_bound [OF len i]
  show ?case
  proof (cases "i < unat len - 1")
    case False
    with eq ok st lb show ?thesis by auto
  next
    case True
    with eq lb obtain x1 t1 r1 where
      step: "advanceState M' False (dreg AND push_bit i 1 \<noteq> 0) t = returns (x1, t1)"
      and rec: "f M' dreg len (i + 1) r1 t1 = Some (Inr (r, t'))"
      by (auto simp: returns_def split: if_splits option.splits sum.splits prod.splits)
    note a = advanceState_pins [OF step [unfolded M'] ok]
    from a(3) st have st1: "mCurrState t1 = SHIFT_DR" by (simp add: successor_def)
    from True len have "i + 1 \<le> 64" by simp
    from a(2) have p1: "pins t1 = pins t @ [(False, bit dreg i)]" by (simp only: tdi_bit)
    from True have u: "[i..<unat len - 1] = i # [Suc i..<unat len - 1]" by (rule upt_conv_Cons)
    from IH [OF rec a(1) st1 \<open>i + 1 \<le> 64\<close>] p1 a(4,5)
    have "probe_ok (mMcu t')
           \<and> pins t' = pins t @ (False, bit dreg i) # map (\<lambda>k. (False, bit dreg k)) [Suc i..<unat len - 1]
           \<and> mCurrState t' = SHIFT_DR \<and> mLastIr t' = mLastIr t \<and> mRtiCount t' = mRtiCount t"
      by simp
    then show ?thesis unfolding u by simp
  qed
qed

lemma shiftIr_pins:
  assumes "shiftIr (probed M) ireg t = returns t'" and ok: "probe_ok (mMcu t)"
  shows "probe_ok (mMcu t')"
    and "pins t' = pins t @ route 8 (mCurrState t) SHIFT_IR @ shiftPins ireg 5
                     @ route 8 EXIT1_IR UPDATE_IR"
    and "mCurrState t' = UPDATE_IR" and "mLastIr t' = mLastIr t"
proof -
  from assms(1) obtain b0 t0 t1 b2 t2 b3 where
    g0: "gotoState (probed M) SHIFT_IR t = returns (b0, t0)"
    and l1: "shiftIr_loop (probed M) ireg 0 t0 = Some (Inr t1)"
    and a2: "advanceState (probed M) True (ireg AND push_bit (IR_LEN - 1) 1 \<noteq> 0) t1 = returns (b2, t2)"
    and g3: "gotoState (probed M) UPDATE_IR t2 = returns (b3, t')"
    by (auto simp: shiftIr_def andThen_returns_iff returns_def)
  note p0 = gotoState_pins [OF g0 ok]
  from shiftIr_loop_pins_aux [OF l1, of M] p0 have p1:
    "probe_ok (mMcu t1)" "pins t1 = pins t0 @ map (\<lambda>k. (False, bit ireg k)) [0..<4]"
    "mCurrState t1 = SHIFT_IR" "mLastIr t1 = mLastIr t0"
    by simp_all
  note p2 = advanceState_pins [OF a2 p1(1)]
  from p2(2) have q2: "pins t2 = pins t1 @ [(True, bit ireg 4)]"
    by (simp only: tdi_bit IR_LEN_def) simp
  from p2(3) p1(3) have s2: "mCurrState t2 = EXIT1_IR" by (simp add: successor_def)
  note p3 = gotoState_pins [OF g3 p2(1)]
  from p3 show "probe_ok (mMcu t')" "mCurrState t' = UPDATE_IR" by simp_all
  from p3(4) p2(4) p1(4) p0(4) show "mLastIr t' = mLastIr t" by simp
  from p3(2) s2 q2 p1(2) p0(2)
  show "pins t' = pins t @ route 8 (mCurrState t) SHIFT_IR @ shiftPins ireg 5
                     @ route 8 EXIT1_IR UPDATE_IR"
    by (simp add: shiftPins_def)
qed

lemma shiftDr_pins:
  fixes len :: "64 word"
  assumes "shiftDr (probed M) dreg len t = returns (r, t')" and ok: "probe_ok (mMcu t)"
    and len: "2 \<le> unat len" "unat len \<le> 64"
  shows "probe_ok (mMcu t')"
    and "pins t' = pins t @ route 8 (mCurrState t) SHIFT_DR @ shiftPins dreg (unat len)
                     @ [(False, bit dreg (unat len - 1))] @ route 8 PAUSE_DR UPDATE_DR"
    and "mCurrState t' = UPDATE_DR" and "mLastIr t' = mLastIr t"
proof -
  from len have l0: "len \<noteq> 0" "len - 1 \<noteq> 0"
    by (auto simp: unat_eq_zero unat_minus_one)
  then have m1: "unat (len - 1) = unat len - 1"
    by (simp add: unat_minus_one)
  with len have sm: "unat (len - 1) < 64" by simp
  have m2: "unat (len - 2) = unat len - 2"
    using unat_minus_one [OF l0(2)] m1 by (simp add: diff_diff_eq)
  with len have sm2: "unat (len - 2) < 64" by simp
  note sh = shl1_small [OF sm] shl1_small [OF sm2]
  from assms(1) obtain b0 t0 b1 t1 r2 t2 b3 t3 b4 t4 b5 where
    g0: "gotoState (probed M) SHIFT_DR t = returns (b0, t0)"
    and a1: "advanceState (probed M) False (dreg AND 1 \<noteq> 0) t0 = returns (b1, t1)"
    and l2: "shiftDr_loop (probed M) dreg len 1 0 t1 = Some (Inr (r2, t2))"
    and a3: "advanceState (probed M) True (dreg AND push_bit (unat (len - 1)) 1 \<noteq> 0) t2
               = returns (b3, t3)"
    and a4: "advanceState (probed M) False (dreg AND push_bit (unat (len - 1)) 1 \<noteq> 0) t3
               = returns (b4, t4)"
    and g5: "gotoState (probed M) UPDATE_DR t4 = returns (b5, t')"
    by (auto simp: shiftDr_def andThen_returns_iff returns_def aborts_def orBitIf_def sh
             split: if_splits)
  note p0 = gotoState_pins [OF g0 ok]
  note p1 = advanceState_pins [OF a1 p0(1)]
  have "(dreg AND 1 \<noteq> 0) = bit dreg 0" using tdi_bit [of dreg 0] by simp
  with p1(2) have q1: "pins t1 = pins t0 @ [(False, bit dreg 0)]" by simp
  from p1(3) p0(3) have s1: "mCurrState t1 = SHIFT_DR" by (simp add: successor_def)
  from len have "1 \<le> unat len" by simp
  with shiftDr_loop_pins_aux [OF l2, of M] p1(1) s1 len(2) have p2:
    "probe_ok (mMcu t2)" "pins t2 = pins t1 @ map (\<lambda>k. (False, bit dreg k)) [1..<unat len - 1]"
    "mCurrState t2 = SHIFT_DR" "mLastIr t2 = mLastIr t1"
    by simp_all
  note p3 = advanceState_pins [OF a3 p2(1)]
  from p3(2) have q3: "pins t3 = pins t2 @ [(True, bit dreg (unat len - 1))]"
    by (simp only: tdi_bit m1)
  from p3(3) p2(3) have s3: "mCurrState t3 = EXIT1_DR" by (simp add: successor_def)
  note p4 = advanceState_pins [OF a4 p3(1)]
  from p4(2) have q4: "pins t4 = pins t3 @ [(False, bit dreg (unat len - 1))]"
    by (simp only: tdi_bit m1)
  from p4(3) s3 have s4: "mCurrState t4 = PAUSE_DR" by (simp add: successor_def)
  note p5 = gotoState_pins [OF g5 p4(1)]
  from len have u: "[0..<unat len - 1] = 0 # [1..<unat len - 1]"
    by (simp add: upt_conv_Cons)
  from p5 show "probe_ok (mMcu t')" "mCurrState t' = UPDATE_DR" by simp_all
  from p5(4) p4(4) p3(4) p2(4) p1(4) p0(4) show "mLastIr t' = mLastIr t" by simp
  from p5(2) s4 q4 q3 p2(2) q1 p0(2)
  show "pins t' = pins t @ route 8 (mCurrState t) SHIFT_DR @ shiftPins dreg (unat len)
                     @ [(False, bit dreg (unat len - 1))] @ route 8 PAUSE_DR UPDATE_DR"
    unfolding shiftPins_def u by simp
qed

text \<open>
  An access of 2 to 64 bits that shifts its instruction drives \<open>scanPins\<close>: the instruction
  and then the bits of \<open>wdata\<close> on TDI, lowest first.
\<close>

lemma accessReg_pins:
  fixes len :: "8 word"
  assumes "accessReg (probed M) ir wdata len t = returns (r, t')" and ok: "probe_ok (mMcu t)"
    and ir: "mLastIr t \<noteq> ir" and len: "2 \<le> unat len" "unat len \<le> 64"
  shows "probe_ok (mMcu t')"
    and "pins t' = pins t @ scanPins (mCurrState t) ir wdata (unat len)"
    and "mCurrState t' = UPDATE_DR" and "mLastIr t' = mLastIr t"
proof -
  have ulen: "unat (ucast len :: 64 word) = unat len"
  proof -
    from len(2) have "unat len < 2 ^ 64" by simp
    then show ?thesis by (simp add: unsigned_ucast_eq take_bit_nat_eq_self)
  qed
  from len(2) have le: "\<not> 64 < len" by (simp add: word_less_nat_alt)
  from assms(1) ir le obtain t1 t2 b3 where
    s1: "shiftIr (probed M) ir t = returns t1"
    and s2: "shiftDr (probed M) wdata (ucast len) t1 = returns (r, t2)"
    and s3: "gotoState (probed M) UPDATE_DR t2 = returns (b3, t')"
    by (auto simp: accessReg_def andThen_returns_iff returns_def split: prod.splits)
  note p1 = shiftIr_pins [OF s1 ok]
  from len ulen have "2 \<le> unat (ucast len :: 64 word)" "unat (ucast len :: 64 word) \<le> 64"
    by simp_all
  note p2 = shiftDr_pins [OF s2 p1(1) this]
  note p3 = gotoState_pins [OF s3 p2(1)]
  from p3 show "probe_ok (mMcu t')" "mCurrState t' = UPDATE_DR" by simp_all
  from p3(4) p2(4) p1(4) show "mLastIr t' = mLastIr t" by simp
  from p3(2) p2(2,3) p1(2,3) ulen
  show "pins t' = pins t @ scanPins (mCurrState t) ir wdata (unat len)"
    by (simp add: scanPins_def route_there)
qed

text \<open>The probe is in step from the start, and \<open>Tap::reset\<close> keeps it so.\<close>

lemma probe_ok_new:
  "probe_ok (VSim_new \<lparr> pInner = d0, pTck = False, pSeen = [] \<rparr> clkPeriodNs simTimeNs)"
  by (simp add: probe_ok_def VSim_new_def Let_def)

lemma Tap_reset_pins_aux:
  assumes "Tap_reset M' t = Some y"
  shows "M' = probed M \<longrightarrow> (\<forall>b t'. y = Inr (b, t') \<longrightarrow> probe_ok (mMcu t) \<longrightarrow>
           probe_ok (mMcu t') \<and> mLastIr t' = mLastIr t)"
  using assms
proof (rule Tap_reset.raw_induct [rotated 1,
        where P = "\<lambda>M' t y. M' = probed M \<longrightarrow> (\<forall>b t'. y = Inr (b, t') \<longrightarrow> probe_ok (mMcu t) \<longrightarrow>
           probe_ok (mMcu t') \<and> mLastIr t' = mLastIr t)"],
       intro impI allI, goal_cases)
  case (1 f M' t y b t')
  then have IH: "\<And>t1 b' z. f M' t1 = Some (Inr (b', z)) \<Longrightarrow> probe_ok (mMcu t1) \<Longrightarrow>
           probe_ok (mMcu z) \<and> mLastIr z = mLastIr t1"
    and eq: "(if inReset (mMcu t)
     then (if allDone (mMcu t) then Some (Inr (False, t))
           else (case advanceHalfPeriod (VSim_eval M' (set_tms False (mMcu t))) of
                   Inl e \<Rightarrow> Some (Inl e)
                 | Inr v' \<Rightarrow> f M' (t \<lparr> mMcu := v' \<rparr>)))
     else Some (Inr (True, t \<lparr> mCurrState := RUN_TEST_IDLE \<rparr>))) = Some (Inr (b, t'))"
    and M': "M' = probed M" and ok: "probe_ok (mMcu t)"
    by blast+
  show ?case
  proof (cases "inReset (mMcu t) \<and> \<not> allDone (mMcu t)")
    case False
    with eq ok show ?thesis by (auto split: if_splits)
  next
    case True
    with eq obtain v' where
      step: "advanceHalfPeriod (VSim_eval M' (set_tms False (mMcu t))) = Inr v'"
      and rec: "f M' (t \<lparr> mMcu := v' \<rparr>) = Some (Inr (b, t'))"
      by (auto split: sum.splits)
    from ok have "probe_ok (set_tms False (mMcu t))" by (simp add: probe_ok_def set_tms_def)
    from probe_step(1) [OF step [unfolded M'] this] IH [OF rec] show ?thesis by simp
  qed
qed

lemma Tap_reset_pins:
  assumes "Tap_reset (probed M) t = returns (b, t')" and "probe_ok (mMcu t)"
  shows "probe_ok (mMcu t')" "mLastIr t' = mLastIr t"
  using Tap_reset_pins_aux [of "probed M" t "Inr (b, t')" M] assms by (simp_all add: returns_def)

text \<open>
  \<open>mLastIr\<close> is 0 from the constructor on and nothing assigns it, so every write of \<open>dtmcs\<close>
  shifts the instruction 0x10 and then 0x10000.
\<close>

lemma dmireset_pins:
  assumes "writeDtmcs (probed M) 0x10000 j = returns j'"
    and "probe_ok (mMcu (mTap j))" and "mLastIr (mTap j) = 0"
  shows "pins (mTap j') = pins (mTap j) @ scanPins (mCurrState (mTap j)) 0x10 0x10000 32"
    and "probe_ok (mMcu (mTap j'))"
proof -
  from assms(1) obtain r t' where
    a: "accessReg (probed M) 0x10 0x10000 32 (mTap j) = returns (r, t')" and j': "j' = j \<lparr> mTap := t' \<rparr>"
    by (auto simp: writeDtmcs_def writeReg_def DTMCS_def andThen_returns_iff returns_def)
  from assms(3) have "mLastIr (mTap j) \<noteq> 0x10" by simp
  from accessReg_pins [OF a assms(2) this] j'
  show "pins (mTap j') = pins (mTap j) @ scanPins (mCurrState (mTap j)) 0x10 0x10000 32"
    and "probe_ok (mMcu (mTap j'))"
    by simp_all
qed

text \<open>
  A turn of the polling loop of \<open>dmiRead\<close> whose scan answers RETRY: the DMI reset returns,
  the device has seen \<open>dmiresetPins\<close>, and the loop goes on from there.
\<close>

lemma dmiRead_retry_pins:
  assumes scan: "readReg (probed M) DMIACCESS (mDmiWidth j) (mTap j) = returns (reg, t)"
    and retry: "reg AND 0x3 = RES_RETRY"
    and ok: "probe_ok (mMcu (mTap j))" and ir: "mLastIr (mTap j) = 0"
    and width: "2 \<le> unat (mDmiWidth j)" "unat (mDmiWidth j) \<le> 64"
    and budget: "tap_ok (880 + n) t"
  shows "\<exists>j1. writeDtmcs (probed M) 0x10000 (j \<lparr> mTap := t, cerr := cerr j @ [ReadRetryRequested] \<rparr>)
                 = returns j1
           \<and> pins (mTap j1) = pins t @ dmiresetPins
           \<and> tap_ok n (mTap j1)
           \<and> dmiRead_poll (probed M) j = dmiRead_poll (probed M) j1"
proof -
  let ?j = "j \<lparr> mTap := t, cerr := cerr j @ [ReadRetryRequested] \<rparr>"
  have "mLastIr (mTap j) \<noteq> DMIACCESS" using ir by (simp add: DMIACCESS_def)
  note p = accessReg_pins [OF scan [unfolded readReg_def] ok this width]
  have "2 \<le> unat (32 :: 8 word)" "unat (32 :: 8 word) \<le> 64" by simp_all
  from accessReg_returns [OF this budget, of "probed M" "0x10" "0x10000"] obtain r t' where
    a: "accessReg (probed M) 0x10 0x10000 32 t = returns (r, t')" and b: "tap_ok n t'"
    by blast
  then have w: "writeDtmcs (probed M) 0x10000 ?j = returns (?j \<lparr> mTap := t' \<rparr>)"
    by (simp add: writeDtmcs_def writeReg_def DTMCS_def)
  from p(1,4) ir have "probe_ok (mMcu (mTap ?j))" "mLastIr (mTap ?j) = 0" by simp_all
  from dmireset_pins(1) [OF w this] p(3)
  have q: "pins (mTap (?j \<lparr> mTap := t' \<rparr>)) = pins t @ dmiresetPins"
    by (simp add: dmiresetPins_def)
  from scan retry w have "dmiRead_poll (probed M) j = dmiRead_poll (probed M) (?j \<lparr> mTap := t' \<rparr>)"
    by (simp add: dmiRead_poll_retry)
  with w q b show ?thesis by (intro exI [of _ "?j \<lparr> mTap := t' \<rparr>"]) simp
qed

text \<open>
  Written out, the DMI reset is 48 TCK cycles. TDI is high in two of them: with bit 4 of the
  instruction 0x10 and with bit 16 of the data.
\<close>

lemma dmiresetPins_levels:
  "map snd dmiresetPins
     = replicate 8 False @ [True] @ replicate 20 False @ [True] @ replicate 18 False"
  "map fst dmiresetPins
     = [True, True, False, False] @ replicate 4 False @ [True] @ [True] @ [True, False, False]
       @ replicate 31 False @ [True] @ [False] @ [True, True]"
  by code_simp+

text \<open>
  Clocked with these levels from Update-DR, \<open>dtmDevice\<close> performs one update, of \<open>dtmcs\<close>
  with 0x10000, and drops its flag; with the levels of a write of 0 it keeps the flag.
\<close>

lemma dmiresetPins_decoded:
  "dUpdates (devClock dmiresetPins (devPowerOn \<lparr> dState := UPDATE_DR, dBusy := True \<rparr>))
       = [(0x10, 0x10000)]
   \<and> \<not> dBusy (devClock dmiresetPins (devPowerOn \<lparr> dState := UPDATE_DR, dBusy := True \<rparr>))
   \<and> dBusy (devClock (scanPins UPDATE_DR 0x10 0 32)
               (devPowerOn \<lparr> dState := UPDATE_DR, dBusy := True \<rparr>))"
  by code_simp

end
